theory Spec2Isabelle
  imports Main "HOL-Library.Word"
begin

unbundle bit_operations_syntax

section \<open>Data model of \<open>icd/intel/cmd_meta.c\<close>\<close>

text \<open>
  The file records meta operations (copies, fills, clears, resolves) into a command
  buffer.  Everything it calls outside the file is either a field of the environment
  record \<open>env\<close> below (format tables, view constructors, layout queries) or one of
  the two recorders \<open>cmd_fail\<close> and \<open>cmd_draw_meta\<close>, which append to the command
  buffer's logs.
\<close>

type_synonym uint32_t = "32 word"
type_synonym VkDeviceSize = "64 word"

datatype VkResult =
    VK_SUCCESS
  | VK_ERROR_UNKNOWN
  | VK_ERROR_UNAVAILABLE
  | VK_ERROR_OTHER nat  \<comment> \<open>any other code a view constructor may return\<close>

datatype VkFormat =
    VK_FORMAT_UNDEFINED
  | VK_FORMAT_R8_UINT
  | VK_FORMAT_R16_UINT
  | VK_FORMAT_R32_UINT
  | VK_FORMAT_R32G32_UINT
  | VK_FORMAT_R32G32B32A32_UINT
  | VK_FORMAT_R8G8B8A8_UINT
  | VK_FORMAT_OTHER nat  \<comment> \<open>the remaining formats of the API header\<close>

datatype VkImageType = VK_IMAGE_TYPE_1D | VK_IMAGE_TYPE_2D | VK_IMAGE_TYPE_3D

datatype VkImageViewType =
    VK_IMAGE_VIEW_TYPE_1D
  | VK_IMAGE_VIEW_TYPE_2D
  | VK_IMAGE_VIEW_TYPE_3D
  | VK_IMAGE_VIEW_TYPE_1D_ARRAY
  | VK_IMAGE_VIEW_TYPE_2D_ARRAY

datatype VkImageAspect =
    VK_IMAGE_ASPECT_COLOR
  | VK_IMAGE_ASPECT_DEPTH
  | VK_IMAGE_ASPECT_STENCIL

datatype VkImageLayout =
    VK_IMAGE_LAYOUT_GENERAL
  | VK_IMAGE_LAYOUT_DEPTH_STENCIL_ATTACHMENT_OPTIMAL
  | VK_IMAGE_LAYOUT_DEPTH_STENCIL_READ_ONLY_OPTIMAL
  | VK_IMAGE_LAYOUT_OTHER nat

datatype intel_cmd_meta_mode =
    INTEL_CMD_META_FS_RECT
  | INTEL_CMD_META_VS_POINTS
  | INTEL_CMD_META_DEPTH_STENCIL_RECT

datatype intel_cmd_meta_ds_op =
    INTEL_CMD_META_DS_NOP
  | INTEL_CMD_META_DS_HIZ_CLEAR
  | INTEL_CMD_META_DS_HIZ_RESOLVE
  | INTEL_CMD_META_DS_RESOLVE

datatype intel_dev_meta_shader =
    INTEL_DEV_META_VS_FILL_MEM
  | INTEL_DEV_META_VS_COPY_MEM
  | INTEL_DEV_META_VS_COPY_MEM_UNALIGNED
  | INTEL_DEV_META_FS_COPY_1D
  | INTEL_DEV_META_FS_COPY_1D_ARRAY
  | INTEL_DEV_META_FS_COPY_2D
  | INTEL_DEV_META_FS_COPY_2D_ARRAY
  | INTEL_DEV_META_FS_COPY_2D_MS
  | INTEL_DEV_META_FS_CLEAR_COLOR
  | INTEL_DEV_META_FS_CLEAR_DEPTH
  | INTEL_DEV_META_FS_RESOLVE_2X
  | INTEL_DEV_META_FS_RESOLVE_4X
  | INTEL_DEV_META_FS_RESOLVE_8X
  | INTEL_DEV_META_FS_RESOLVE_16X

datatype intel_cmd_writer_type = INTEL_CMD_WRITER_STATE

datatype reloc_flag = INTEL_RELOC_WRITE | INTEL_CMD_RELOC_TARGET_IS_WRITER

text \<open>
  \<open>reloc_target\<close> is an \<open>intptr_t\<close> in the source: zero after \<open>memset\<close>, the buffer
  object of a memory-backed resource, or a writer id.
\<close>

datatype reloc_target =
    RELOC_NULL
  | RELOC_BO nat
  | RELOC_WRITER intel_cmd_writer_type

record intel_layout =
  layout_format :: VkFormat
  block_width :: uint32_t
  block_height :: uint32_t
  width0 :: uint32_t
  height0 :: uint32_t

record intel_img =
  img_type :: VkImageType
  img_samples :: uint32_t
  img_mip_levels :: uint32_t
  img_array_size :: uint32_t
  img_layout :: intel_layout
  img_bo :: nat  \<comment> \<open>\<open>obj.mem->bo\<close>\<close>

record intel_buf =
  buf_size :: VkDeviceSize
  buf_bo :: nat  \<comment> \<open>\<open>obj.mem->bo\<close>\<close>

text \<open>The encoded words of a buffer view or an image view (\<open>view->cmd\<close>, \<open>view->cmd_len\<close>).\<close>

record intel_view =
  view_cmd :: "uint32_t list"
  view_cmd_len :: nat

record intel_att_view =
  att_img :: intel_img
  att_mipLevel :: uint32_t
  att_cmd :: "uint32_t list"
  att_cmd_len :: nat

text \<open>
  The two anonymous structs \<open>src\<close> and \<open>dst\<close> of \<open>struct intel_cmd_meta\<close>.  The
  struct is declared in \<open>cmd_priv.h\<close>; its fields are the ones this file assigns.
\<close>

record meta_surface =
  valid :: bool
  surface :: "uint32_t list"
  surface_len :: nat
  reloc_target :: reloc_target
  reloc_offset :: uint32_t
  reloc_flags :: "reloc_flag list"
  lod :: uint32_t
  layer :: uint32_t
  xpos :: uint32_t  \<comment> \<open>field \<open>x\<close>\<close>
  ypos :: uint32_t  \<comment> \<open>field \<open>y\<close>\<close>

record meta_ds =
  ds_view :: "intel_att_view option"
  stencil_ref :: uint32_t
  ds_aspect :: VkImageAspect
  ds_op :: intel_cmd_meta_ds_op
  optimal :: bool

record intel_cmd_meta =
  mode :: intel_cmd_meta_mode
  shader_id :: intel_dev_meta_shader
  src :: meta_surface
  dst :: meta_surface
  ds :: meta_ds
  clear_val :: "uint32_t list"
  width :: uint32_t
  height :: uint32_t
  samples :: uint32_t

text \<open>
  The command buffer.  \<open>cmd_gen\<close> is the hardware generation as \<open>cmd_gen(cmd)\<close>
  returns it.  The three logs are what the operations of this file leave behind:
  the codes passed to \<open>cmd_fail\<close>, the descriptors passed to \<open>cmd_draw_meta\<close>, and
  the number of transient views built, each in call order.  \<open>blobs\<close> holds the
  inline data \<open>vkCmdUpdateBuffer\<close> copies into the dynamic state writer.
\<close>

record intel_cmd =
  cmd_gen :: int
  fails :: "VkResult list"
  draws :: "intel_cmd_meta list"
  views_built :: nat
  blobs :: "(uint32_t \<times> uint32_t list) list"
  bind_fb_views :: "intel_att_view list"  \<comment> \<open>\<open>bind.fb->views\<close>\<close>
  bind_color_indices :: "nat list"  \<comment> \<open>\<open>bind.render_pass_subpass->color_indices\<close>\<close>
  bind_ds_index :: nat  \<comment> \<open>\<open>bind.render_pass_subpass->ds_index\<close>\<close>

text \<open>One bit field of the surface state: \<open>FIELD__SHIFT\<close> and \<open>FIELD__MASK\<close>.\<close>

record gen_field =
  field_shift :: nat
  field_mask :: uint32_t

record surface_fields =
  SURFACE_DW2_WIDTH :: gen_field
  SURFACE_DW2_HEIGHT :: gen_field
  SURFACE_DW4_MIN_ARRAY_ELEMENT :: gen_field
  SURFACE_DW5_X_OFFSET :: gen_field
  SURFACE_DW5_Y_OFFSET :: gen_field

text \<open>
  What the file uses and does not define: the format tables of \<open>icd-format.h\<close>, the
  view constructors, the layout queries, \<open>u_minify\<close>, the state-writer allocator,
  the per-generation field constants of the hardware headers, and whether
  \<open>assert\<close> is compiled out.  A view constructor returns its \<open>VkResult\<close> and the
  view it built.
\<close>

record env =
  icd_format_get_size :: "VkFormat \<Rightarrow> nat"
  icd_format_is_compressed :: "VkFormat \<Rightarrow> bool"
  icd_format_get_block_width :: "VkFormat \<Rightarrow> uint32_t"
  intel_buf_view_create ::
    "intel_buf option \<Rightarrow> VkFormat \<Rightarrow> VkDeviceSize \<Rightarrow> VkResult \<times> intel_view"
  intel_img_view_create ::
    "intel_img \<Rightarrow> VkImageViewType \<Rightarrow> VkFormat \<Rightarrow> VkImageAspect \<Rightarrow> VkResult \<times> intel_view"
  intel_att_view_create_for_color ::
    "intel_img \<Rightarrow> VkFormat \<Rightarrow> uint32_t \<Rightarrow> uint32_t \<Rightarrow> VkResult \<times> intel_att_view"
  intel_att_view_create_for_ds ::
    "intel_img \<Rightarrow> uint32_t \<Rightarrow> uint32_t \<Rightarrow> VkResult \<times> intel_att_view"
  intel_layout_get_slice_tile_offset ::
    "intel_layout \<Rightarrow> uint32_t \<Rightarrow> uint32_t \<Rightarrow> uint32_t \<times> uint32_t \<times> uint32_t"
  intel_img_can_enable_hiz :: "intel_img \<Rightarrow> uint32_t \<Rightarrow> bool"
  u_minify :: "uint32_t \<Rightarrow> uint32_t \<Rightarrow> uint32_t"
  cmd_state_pointer :: "intel_cmd \<Rightarrow> nat \<Rightarrow> VkDeviceSize \<Rightarrow> uint32_t"
  GEN6_SURFACE :: surface_fields
  GEN7_SURFACE :: surface_fields
  NDEBUG :: bool

section \<open>The recorders\<close>

text \<open>
  \<open>INTEL_GEN(g)\<close> scales the generation so that half generations stay integral;
  this file only compares its values.
\<close>

definition INTEL_GEN :: "int \<Rightarrow> int" where
  "INTEL_GEN g = g * 100"

text \<open>
  Modelled from the spec: \<open>cmd_fail\<close>, the error sink, is defined outside this file.
  The spec gives it as \<open>(context, error code) -> records first error, marks context
  invalid\<close>.  The model keeps every reported code in call order; \<open>cmd_result\<close> is the
  first of them, the code the context carries.
\<close>

definition cmd_fail :: "intel_cmd \<Rightarrow> VkResult \<Rightarrow> intel_cmd" where
  "cmd_fail cmd res = cmd\<lparr>fails := fails cmd @ [res]\<rparr>"

definition cmd_result :: "intel_cmd \<Rightarrow> VkResult" where
  "cmd_result cmd = (case fails cmd of [] \<Rightarrow> VK_SUCCESS | e # _ \<Rightarrow> e)"

text \<open>
  Modelled from the spec: \<open>cmd_draw_meta\<close>, the meta dispatcher, is defined outside
  this file.  The spec gives it as \<open>(MetaOperation) -> draw commands appended to the
  active command stream\<close>; the model appends the descriptor it is handed.
\<close>

definition cmd_draw_meta :: "intel_cmd \<Rightarrow> intel_cmd_meta \<Rightarrow> intel_cmd" where
  "cmd_draw_meta cmd meta = cmd\<lparr>draws := draws cmd @ [meta]\<rparr>"

text \<open>Every call of a view constructor is counted, whether it succeeds or not.\<close>

definition view_built :: "intel_cmd \<Rightarrow> intel_cmd" where
  "view_built cmd = cmd\<lparr>views_built := Suc (views_built cmd)\<rparr>"

text \<open>\<open>memset(&meta, 0, sizeof(meta))\<close>: every enum at its enumerator 0, every word 0.\<close>

definition surface_zero :: meta_surface where
  "surface_zero =
     \<lparr>valid = False, surface = replicate 8 0, surface_len = 0,
      reloc_target = RELOC_NULL, reloc_offset = 0, reloc_flags = [],
      lod = 0, layer = 0, xpos = 0, ypos = 0\<rparr>"

definition meta_zero :: intel_cmd_meta where
  "meta_zero =
     \<lparr>mode = INTEL_CMD_META_FS_RECT, shader_id = INTEL_DEV_META_VS_FILL_MEM,
      src = surface_zero, dst = surface_zero,
      ds = \<lparr>ds_view = None, stencil_ref = 0, ds_aspect = VK_IMAGE_ASPECT_COLOR,
            ds_op = INTEL_CMD_META_DS_NOP, optimal = False\<rparr>,
      clear_val = replicate 4 0, width = 0, height = 0, samples = 0\<rparr>"

text \<open>\<open>memcpy(dst, src, sizeof(src[0]) * n)\<close> on arrays of words.\<close>

definition memcpy_words :: "uint32_t list \<Rightarrow> uint32_t list \<Rightarrow> nat \<Rightarrow> uint32_t list" where
  "memcpy_words d s n = take n s @ drop n d"

section \<open>Surface binding builders\<close>

text \<open>
  The range is rounded up to a whole stride.  A stride of 0 divides by zero in C;
  the format table never gives one for a defined format.
\<close>

definition cmd_meta_create_buf_view ::
  "env \<Rightarrow> intel_buf option \<Rightarrow> VkDeviceSize \<Rightarrow> VkFormat \<Rightarrow> VkResult \<times> intel_view" where
  "cmd_meta_create_buf_view e buf rng format =
     (let stride = (of_nat (icd_format_get_size e format) :: VkDeviceSize);
          rng' = (if rng mod stride \<noteq> 0 then rng + (stride - rng mod stride) else rng)
      in intel_buf_view_create e buf format rng')"

definition cmd_meta_set_src_for_buf ::
  "env \<Rightarrow> intel_cmd \<Rightarrow> intel_buf \<Rightarrow> VkFormat \<Rightarrow> intel_cmd_meta \<Rightarrow> intel_cmd \<times> intel_cmd_meta" where
  "cmd_meta_set_src_for_buf e cmd buf format meta =
     (case cmd_meta_create_buf_view e (Some buf) (buf_size buf) format of
        (res, view) \<Rightarrow>
          if res \<noteq> VK_SUCCESS then (cmd_fail (view_built cmd) res, meta)
          else (view_built cmd,
                meta\<lparr>src := (src meta)
                  \<lparr>valid := True,
                   surface := memcpy_words (surface (src meta)) (view_cmd view) (view_cmd_len view),
                   surface_len := view_cmd_len view,
                   reloc_target := RELOC_BO (buf_bo buf),
                   reloc_offset := 0,
                   reloc_flags := []\<rparr>\<rparr>))"

definition cmd_meta_set_dst_for_buf ::
  "env \<Rightarrow> intel_cmd \<Rightarrow> intel_buf \<Rightarrow> VkFormat \<Rightarrow> intel_cmd_meta \<Rightarrow> intel_cmd \<times> intel_cmd_meta" where
  "cmd_meta_set_dst_for_buf e cmd buf format meta =
     (case cmd_meta_create_buf_view e (Some buf) (buf_size buf) format of
        (res, view) \<Rightarrow>
          if res \<noteq> VK_SUCCESS then (cmd_fail (view_built cmd) res, meta)
          else (view_built cmd,
                meta\<lparr>dst := (dst meta)
                  \<lparr>valid := True,
                   surface := memcpy_words (surface (dst meta)) (view_cmd view) (view_cmd_len view),
                   surface_len := view_cmd_len view,
                   reloc_target := RELOC_BO (buf_bo buf),
                   reloc_offset := 0,
                   reloc_flags := [INTEL_RELOC_WRITE]\<rparr>\<rparr>))"

text \<open>
  The view type follows the image type and whether the image is an array.  A 3D
  image with \<open>array_size == 1\<close> falls into the empty \<open>default\<close> and keeps the zeroed
  \<open>viewType\<close> of the \<open>memset\<close>, the enumerator of value 0, \<open>VK_IMAGE_VIEW_TYPE_1D\<close>.
\<close>

definition src_view_type :: "intel_img \<Rightarrow> VkImageViewType" where
  "src_view_type img =
     (if img_array_size img = 1 then
        (case img_type img of
           VK_IMAGE_TYPE_1D \<Rightarrow> VK_IMAGE_VIEW_TYPE_1D
         | VK_IMAGE_TYPE_2D \<Rightarrow> VK_IMAGE_VIEW_TYPE_2D
         | VK_IMAGE_TYPE_3D \<Rightarrow> VK_IMAGE_VIEW_TYPE_1D)
      else
        (case img_type img of
           VK_IMAGE_TYPE_1D \<Rightarrow> VK_IMAGE_VIEW_TYPE_1D_ARRAY
         | VK_IMAGE_TYPE_2D \<Rightarrow> VK_IMAGE_VIEW_TYPE_2D_ARRAY
         | VK_IMAGE_TYPE_3D \<Rightarrow> VK_IMAGE_VIEW_TYPE_3D))"

definition cmd_meta_set_src_for_img ::
  "env \<Rightarrow> intel_cmd \<Rightarrow> intel_img \<Rightarrow> VkFormat \<Rightarrow> VkImageAspect \<Rightarrow> intel_cmd_meta
     \<Rightarrow> intel_cmd \<times> intel_cmd_meta" where
  "cmd_meta_set_src_for_img e cmd img format aspect meta =
     (case intel_img_view_create e img (src_view_type img) format aspect of
        (ret, view) \<Rightarrow>
          if ret \<noteq> VK_SUCCESS then (cmd_fail (view_built cmd) ret, meta)
          else (view_built cmd,
                meta\<lparr>src := (src meta)
                  \<lparr>valid := True,
                   surface := memcpy_words (surface (src meta)) (view_cmd view) (view_cmd_len view),
                   surface_len := view_cmd_len view,
                   reloc_target := RELOC_BO (img_bo img),
                   reloc_offset := 0,
                   reloc_flags := []\<rparr>\<rparr>))"

section \<open>Compressed-layout adjuster\<close>

text \<open>
  Modelled from the spec: the macros \<open>GEN_EXTRACT\<close> and \<open>GEN_SHIFT32\<close> and the field
  constants come from the hardware headers, which are not part of this file.  The
  spec gives the field table as \<open>the bit offset and mask\<close> of each field:
  extraction masks and shifts down, insertion shifts the value up.
\<close>

definition GEN_EXTRACT :: "uint32_t \<Rightarrow> gen_field \<Rightarrow> uint32_t" where
  "GEN_EXTRACT bits f = drop_bit (field_shift f) (bits AND field_mask f)"

definition GEN_SHIFT32 :: "uint32_t \<Rightarrow> gen_field \<Rightarrow> uint32_t" where
  "GEN_SHIFT32 bits f = push_bit (field_shift f) bits"

text \<open>The source repeats each statement for the two generations; the table is picked here.\<close>

definition gen_surface :: "env \<Rightarrow> intel_cmd \<Rightarrow> surface_fields" where
  "gen_surface e cmd =
     (if cmd_gen cmd \<ge> INTEL_GEN 7 then GEN7_SURFACE e else GEN6_SURFACE e)"

text \<open>
  \<open>block_width\<close> and \<open>block_height\<close> are unsigned, so the arithmetic on \<open>w\<close> and
  \<open>h\<close> is unsigned 32-bit arithmetic.  A block size of 0 divides by zero in C.
\<close>

definition cmd_meta_adjust_compressed_dst ::
  "env \<Rightarrow> intel_cmd \<Rightarrow> intel_img \<Rightarrow> intel_cmd_meta \<Rightarrow> intel_cmd_meta" where
  "cmd_meta_adjust_compressed_dst e cmd img meta =
     (let F = gen_surface e cmd;
          s = surface (dst meta);
          bw = block_width (img_layout img);
          bh = block_height (img_layout img);
          w = GEN_EXTRACT (s ! 2) (SURFACE_DW2_WIDTH F);
          h = GEN_EXTRACT (s ! 2) (SURFACE_DW2_HEIGHT F);
          lyr = GEN_EXTRACT (s ! 4) (SURFACE_DW4_MIN_ARRAY_ELEMENT F);
          w' = (w + bw) div bw - 1;
          h' = (h + bh) div bh - 1;
          s2 = s[2 := ((s ! 2) AND NOT (field_mask (SURFACE_DW2_WIDTH F) OR
                                       field_mask (SURFACE_DW2_HEIGHT F)))
                      OR (GEN_SHIFT32 w' (SURFACE_DW2_WIDTH F) OR
                          GEN_SHIFT32 h' (SURFACE_DW2_HEIGHT F))]
      in if lyr = 0 then meta\<lparr>dst := (dst meta)\<lparr>surface := s2\<rparr>\<rparr>
         else
           (case intel_layout_get_slice_tile_offset e (img_layout img) 0 lyr of
              (off, x_offset, y_offset) \<Rightarrow>
                let x_offset' = drop_bit 2 (x_offset div bw);
                    y_offset' = drop_bit 1 (y_offset div bh);
                    s4 = s2[4 := (s2 ! 4) AND NOT (field_mask (SURFACE_DW4_MIN_ARRAY_ELEMENT F))];
                    s5 = s4[5 := (s4 ! 5) OR (GEN_SHIFT32 x_offset' (SURFACE_DW5_X_OFFSET F) OR
                                             GEN_SHIFT32 y_offset' (SURFACE_DW5_Y_OFFSET F))]
                in meta\<lparr>dst := (dst meta)\<lparr>surface := s5, reloc_offset := off\<rparr>\<rparr>))"

definition cmd_meta_set_dst_for_img ::
  "env \<Rightarrow> intel_cmd \<Rightarrow> intel_img \<Rightarrow> VkFormat \<Rightarrow> uint32_t \<Rightarrow> uint32_t \<Rightarrow> intel_cmd_meta
     \<Rightarrow> intel_cmd \<times> intel_cmd_meta" where
  "cmd_meta_set_dst_for_img e cmd img format mip sl meta =
     (case intel_att_view_create_for_color e img format mip sl of
        (ret, view) \<Rightarrow>
          if ret \<noteq> VK_SUCCESS then (cmd_fail (view_built cmd) ret, meta)
          else
            (let meta' = meta\<lparr>dst := (dst meta)
                   \<lparr>valid := True,
                    surface := memcpy_words (surface (dst meta)) (att_cmd view) (att_cmd_len view),
                    surface_len := att_cmd_len view,
                    reloc_target := RELOC_BO (img_bo img),
                    reloc_offset := 0,
                    reloc_flags := [INTEL_RELOC_WRITE]\<rparr>\<rparr>
             in (view_built cmd,
                 if icd_format_is_compressed e (layout_format (img_layout img))
                 then cmd_meta_adjust_compressed_dst e cmd img meta'
                 else meta')))"

definition cmd_meta_set_src_for_writer ::
  "env \<Rightarrow> intel_cmd \<Rightarrow> intel_cmd_writer_type \<Rightarrow> VkDeviceSize \<Rightarrow> VkFormat \<Rightarrow> intel_cmd_meta
     \<Rightarrow> intel_cmd \<times> intel_cmd_meta" where
  "cmd_meta_set_src_for_writer e cmd writer sz format meta =
     (case cmd_meta_create_buf_view e None sz format of
        (res, view) \<Rightarrow>
          if res \<noteq> VK_SUCCESS then (cmd_fail (view_built cmd) res, meta)
          else (view_built cmd,
                meta\<lparr>src := (src meta)
                  \<lparr>valid := True,
                   surface := memcpy_words (surface (src meta)) (view_cmd view) (view_cmd_len view),
                   surface_len := view_cmd_len view,
                   reloc_target := RELOC_WRITER writer,
                   reloc_offset := 0,
                   reloc_flags := [INTEL_CMD_RELOC_TARGET_IS_WRITER]\<rparr>\<rparr>))"

definition cmd_meta_set_ds_view ::
  "env \<Rightarrow> intel_cmd \<Rightarrow> intel_img \<Rightarrow> uint32_t \<Rightarrow> uint32_t \<Rightarrow> intel_cmd_meta
     \<Rightarrow> intel_cmd \<times> intel_cmd_meta" where
  "cmd_meta_set_ds_view e cmd img mip sl meta =
     (case intel_att_view_create_for_ds e img mip sl of
        (ret, view) \<Rightarrow>
          if ret \<noteq> VK_SUCCESS then (cmd_fail (view_built cmd) ret, meta)
          else (view_built cmd, meta\<lparr>ds := (ds meta)\<lparr>ds_view := Some view\<rparr>\<rparr>))"

definition cmd_meta_set_ds_state ::
  "VkImageAspect \<Rightarrow> uint32_t \<Rightarrow> intel_cmd_meta \<Rightarrow> intel_cmd_meta" where
  "cmd_meta_set_ds_state aspect ref meta =
     meta\<lparr>ds := (ds meta)\<lparr>stencil_ref := ref, ds_aspect := aspect\<rparr>\<rparr>"

section \<open>Shader and format selection\<close>

definition get_shader_id :: "intel_img \<Rightarrow> bool \<Rightarrow> intel_dev_meta_shader" where
  "get_shader_id img copy_array =
     (case img_type img of
        VK_IMAGE_TYPE_1D \<Rightarrow>
          (if copy_array then INTEL_DEV_META_FS_COPY_1D_ARRAY else INTEL_DEV_META_FS_COPY_1D)
      | VK_IMAGE_TYPE_2D \<Rightarrow>
          (if 1 < img_samples img then INTEL_DEV_META_FS_COPY_2D_MS
           else if copy_array then INTEL_DEV_META_FS_COPY_2D_ARRAY
           else INTEL_DEV_META_FS_COPY_2D)
      | VK_IMAGE_TYPE_3D \<Rightarrow> INTEL_DEV_META_FS_COPY_2D_ARRAY)"

definition cmd_meta_mem_dword_aligned ::
  "VkDeviceSize \<Rightarrow> VkDeviceSize \<Rightarrow> VkDeviceSize \<Rightarrow> bool" where
  "cmd_meta_mem_dword_aligned src_offset dst_offset sz =
     ((src_offset OR dst_offset OR sz) AND 3 = 0)"

text \<open>
  The \<open>default\<close> case is \<open>assert(!"unsupported image format for raw blit op")\<close>
  followed by \<open>format = VK_FORMAT_UNDEFINED\<close>: the assertion aborts the call, and
  where it is compiled out the undefined format is returned.
\<close>

datatype fatal = ASSERTION_FAILED

definition cmd_meta_img_raw_format :: "env \<Rightarrow> VkFormat \<Rightarrow> fatal + VkFormat" where
  "cmd_meta_img_raw_format e format =
     (let sz = icd_format_get_size e format in
      if sz = 1 then Inr VK_FORMAT_R8_UINT
      else if sz = 2 then Inr VK_FORMAT_R16_UINT
      else if sz = 4 then Inr VK_FORMAT_R32_UINT
      else if sz = 8 then Inr VK_FORMAT_R32G32_UINT
      else if sz = 16 then Inr VK_FORMAT_R32G32B32A32_UINT
      else if NDEBUG e then Inr VK_FORMAT_UNDEFINED
      else Inl ASSERTION_FAILED)"

section \<open>Buffer operations\<close>

record VkBufferCopy =
  srcOffset :: VkDeviceSize
  destOffset :: VkDeviceSize
  copySize :: VkDeviceSize

text \<open>
  The end of the loop body of \<open>vkCmdCopyBuffer\<close>: rebuild both bindings when the
  format changes, then dispatch.  \<open>format\<close> is the local that survives from one
  region to the next.
\<close>

definition copy_buffer_bind_draw ::
  "env \<Rightarrow> intel_buf \<Rightarrow> intel_buf \<Rightarrow> intel_cmd \<Rightarrow> intel_cmd_meta \<Rightarrow> VkFormat \<Rightarrow> VkFormat
     \<Rightarrow> intel_cmd \<times> intel_cmd_meta \<times> VkFormat" where
  "copy_buffer_bind_draw e srcBuf dstBuf cmd meta format fmt =
     (if format \<noteq> fmt then
        (case cmd_meta_set_src_for_buf e cmd srcBuf fmt meta of
           (cmd1, meta1) \<Rightarrow>
             (case cmd_meta_set_dst_for_buf e cmd1 dstBuf fmt meta1 of
                (cmd2, meta2) \<Rightarrow> (cmd_draw_meta cmd2 meta2, meta2, fmt)))
      else (cmd_draw_meta cmd meta, meta, format))"

text \<open>
  One iteration of the region loop.  The offsets are 64-bit and the descriptor
  fields 32-bit, so the assignments truncate.  On generation 6 an unaligned region
  is logged, reported with \<open>cmd_fail\<close> and skipped by \<open>continue\<close>.
\<close>

definition copy_buffer_region ::
  "env \<Rightarrow> intel_buf \<Rightarrow> intel_buf \<Rightarrow> intel_cmd \<times> intel_cmd_meta \<times> VkFormat \<Rightarrow> VkBufferCopy
     \<Rightarrow> intel_cmd \<times> intel_cmd_meta \<times> VkFormat" where
  "copy_buffer_region e srcBuf dstBuf st region =
     (case st of (cmd, meta0, format) \<Rightarrow>
        let meta = meta0\<lparr>src := (src meta0)\<lparr>xpos := ucast (srcOffset region)\<rparr>,
                         dst := (dst meta0)\<lparr>xpos := ucast (destOffset region)\<rparr>,
                         width := ucast (copySize region)\<rparr>
        in if cmd_meta_mem_dword_aligned (srcOffset region) (destOffset region) (copySize region)
           then copy_buffer_bind_draw e srcBuf dstBuf cmd
                  (meta\<lparr>shader_id := INTEL_DEV_META_VS_COPY_MEM,
                        src := (src meta)\<lparr>xpos := xpos (src meta) div 4\<rparr>,
                        dst := (dst meta)\<lparr>xpos := xpos (dst meta) div 4\<rparr>,
                        width := width meta div 4\<rparr>)
                  format VK_FORMAT_R32G32B32A32_UINT
           else if cmd_gen cmd = INTEL_GEN 6
           then (cmd_fail cmd VK_ERROR_UNKNOWN, meta, format)
           else copy_buffer_bind_draw e srcBuf dstBuf cmd
                  (meta\<lparr>shader_id := INTEL_DEV_META_VS_COPY_MEM_UNALIGNED\<rparr>)
                  format VK_FORMAT_R8G8B8A8_UINT)"

definition copy_buffer_init :: "intel_cmd \<Rightarrow> intel_cmd \<times> intel_cmd_meta \<times> VkFormat" where
  "copy_buffer_init cmd =
     (cmd, meta_zero\<lparr>mode := INTEL_CMD_META_VS_POINTS, height := 1, samples := 1\<rparr>,
      VK_FORMAT_UNDEFINED)"

definition vkCmdCopyBuffer ::
  "env \<Rightarrow> intel_cmd \<Rightarrow> intel_buf \<Rightarrow> intel_buf \<Rightarrow> VkBufferCopy list \<Rightarrow> intel_cmd" where
  "vkCmdCopyBuffer e cmd srcBuf dstBuf pRegions =
     fst (foldl (copy_buffer_region e srcBuf dstBuf) (copy_buffer_init cmd) pRegions)"

text \<open>
  \<open>vkCmdUpdateBuffer\<close> copies the inline data into the dynamic state writer at the
  offset \<open>cmd_state_pointer\<close> returns, then copies from there.
\<close>

definition vkCmdUpdateBuffer ::
  "env \<Rightarrow> intel_cmd \<Rightarrow> intel_buf \<Rightarrow> VkDeviceSize \<Rightarrow> VkDeviceSize \<Rightarrow> uint32_t list \<Rightarrow> intel_cmd" where
  "vkCmdUpdateBuffer e cmd dstBuf destOff dataSize pData =
     (if (destOff OR dataSize) AND 3 \<noteq> 0 then cmd_fail cmd VK_ERROR_UNKNOWN
      else
        let offset = cmd_state_pointer e cmd 32 ((dataSize + 3) div 4);
            cmd0 = cmd\<lparr>blobs := blobs cmd @ [(offset, take (unat dataSize div 4) pData)]\<rparr>;
            meta = meta_zero
              \<lparr>mode := INTEL_CMD_META_VS_POINTS,
               shader_id := INTEL_DEV_META_VS_COPY_MEM,
               src := surface_zero\<lparr>xpos := offset div 4\<rparr>,
               dst := surface_zero\<lparr>xpos := ucast (destOff div 4)\<rparr>,
               width := ucast (dataSize div 4),
               height := 1,
               samples := 1\<rparr>
        in case cmd_meta_set_src_for_writer e cmd0 INTEL_CMD_WRITER_STATE
                  (ucast offset + dataSize) VK_FORMAT_R32G32B32A32_UINT meta of
             (cmd1, meta1) \<Rightarrow>
               (case cmd_meta_set_dst_for_buf e cmd1 dstBuf VK_FORMAT_R32G32B32A32_UINT meta1 of
                  (cmd2, meta2) \<Rightarrow> cmd_draw_meta cmd2 meta2))"

definition vkCmdFillBuffer ::
  "env \<Rightarrow> intel_cmd \<Rightarrow> intel_buf \<Rightarrow> VkDeviceSize \<Rightarrow> VkDeviceSize \<Rightarrow> uint32_t \<Rightarrow> intel_cmd" where
  "vkCmdFillBuffer e cmd dstBuf destOff fillSize data =
     (if (destOff OR fillSize) AND 3 \<noteq> 0 then cmd_fail cmd VK_ERROR_UNKNOWN
      else
        let meta = meta_zero
              \<lparr>mode := INTEL_CMD_META_VS_POINTS,
               shader_id := INTEL_DEV_META_VS_FILL_MEM,
               clear_val := (clear_val meta_zero)[0 := data],
               dst := surface_zero\<lparr>xpos := ucast (destOff div 4)\<rparr>,
               width := ucast (fillSize div 4),
               height := 1,
               samples := 1\<rparr>
        in case cmd_meta_set_dst_for_buf e cmd dstBuf VK_FORMAT_R32G32B32A32_UINT meta of
             (cmd1, meta1) \<Rightarrow> cmd_draw_meta cmd1 meta1)"

section \<open>Image copy and blit\<close>

text \<open>
  \<open>VkOffset3D\<close> and \<open>VkExtent3D\<close> hold \<open>int32_t\<close>; they are kept as their 32-bit
  patterns and read signed or unsigned as each use in the source does.
\<close>

record VkOffset3D =
  off_x :: uint32_t
  off_y :: uint32_t
  off_z :: uint32_t

record VkExtent3D =
  ext_width :: uint32_t
  ext_height :: uint32_t
  ext_depth :: uint32_t

record VkImageSubresource =
  sub_mipLevel :: uint32_t
  sub_arraySlice :: uint32_t

record VkImageCopy =
  ic_srcSubresource :: VkImageSubresource
  ic_srcOffset :: VkOffset3D
  ic_destSubresource :: VkImageSubresource
  ic_destOffset :: VkOffset3D
  ic_extent :: VkExtent3D

text \<open>The inner loop over the depth of a region: bind the destination layer, dispatch, step.\<close>

definition copy_image_layer ::
  "env \<Rightarrow> intel_img \<Rightarrow> VkFormat \<Rightarrow> intel_cmd \<times> intel_cmd_meta \<Rightarrow> intel_cmd \<times> intel_cmd_meta" where
  "copy_image_layer e dstImage format st =
     (case st of (cmd, meta) \<Rightarrow>
        (case cmd_meta_set_dst_for_img e cmd dstImage format (lod (dst meta)) (layer (dst meta)) meta of
           (cmd1, meta1) \<Rightarrow>
             (cmd_draw_meta cmd1 meta1,
              meta1\<lparr>src := (src meta1)\<lparr>layer := layer (src meta1) + 1\<rparr>,
                    dst := (dst meta1)\<lparr>layer := layer (dst meta1) + 1\<rparr>\<rparr>)))"

text \<open>
  One region of \<open>vkCmdCopyImage\<close>.  \<open>raw\<close> is \<open>Some raw_format\<close> when \<open>raw_copy\<close> is
  set.  The shader comes from the source image and from \<open>extent.depth > 1\<close>, a
  signed comparison; the loop counter is unsigned.
\<close>

definition copy_image_region ::
  "env \<Rightarrow> intel_img \<Rightarrow> intel_img \<Rightarrow> VkFormat option \<Rightarrow> intel_cmd \<times> intel_cmd_meta \<Rightarrow> VkImageCopy
     \<Rightarrow> intel_cmd \<times> intel_cmd_meta" where
  "copy_image_region e srcImage dstImage raw st region =
     (case st of (cmd, meta0) \<Rightarrow>
        let meta1 = meta0
              \<lparr>shader_id := get_shader_id srcImage (1 <s ext_depth (ic_extent region)),
               src := (src meta0)
                 \<lparr>lod := sub_mipLevel (ic_srcSubresource region),
                  layer := sub_arraySlice (ic_srcSubresource region) + off_z (ic_srcOffset region),
                  xpos := off_x (ic_srcOffset region),
                  ypos := off_y (ic_srcOffset region)\<rparr>,
               dst := (dst meta0)
                 \<lparr>lod := sub_mipLevel (ic_destSubresource region),
                  layer := sub_arraySlice (ic_destSubresource region) + off_z (ic_destOffset region),
                  xpos := off_x (ic_destOffset region),
                  ypos := off_y (ic_destOffset region)\<rparr>,
               width := ext_width (ic_extent region),
               height := ext_height (ic_extent region)\<rparr>;
            meta2 = (case raw of
                None \<Rightarrow> meta1
              | Some raw_format \<Rightarrow>
                  let bw = icd_format_get_block_width e raw_format
                  in meta1\<lparr>src := (src meta1)\<lparr>xpos := xpos (src meta1) div bw,
                                                ypos := ypos (src meta1) div bw\<rparr>,
                           dst := (dst meta1)\<lparr>xpos := xpos (dst meta1) div bw,
                                                ypos := ypos (dst meta1) div bw\<rparr>,
                           width := width meta1 div bw,
                           height := height meta1 div bw\<rparr>)
        in ((copy_image_layer e dstImage
               (case raw of None \<Rightarrow> layout_format (img_layout dstImage) | Some raw_format \<Rightarrow> raw_format))
             ^^ unat (ext_depth (ic_extent region))) (cmd, meta2))"

definition copy_image_regions ::
  "env \<Rightarrow> intel_cmd \<Rightarrow> intel_img \<Rightarrow> intel_img \<Rightarrow> VkFormat option \<Rightarrow> VkImageCopy list \<Rightarrow> intel_cmd" where
  "copy_image_regions e cmd srcImage dstImage raw pRegions =
     (case cmd_meta_set_src_for_img e cmd srcImage
             (case raw of None \<Rightarrow> layout_format (img_layout srcImage) | Some raw_format \<Rightarrow> raw_format)
             VK_IMAGE_ASPECT_COLOR (meta_zero\<lparr>mode := INTEL_CMD_META_FS_RECT\<rparr>) of
        (cmd1, meta1) \<Rightarrow>
          fst (foldl (copy_image_region e srcImage dstImage raw)
                 (cmd1, meta1\<lparr>samples := img_samples dstImage\<rparr>) pRegions))"

definition vkCmdCopyImage ::
  "env \<Rightarrow> intel_cmd \<Rightarrow> intel_img \<Rightarrow> intel_img \<Rightarrow> VkImageCopy list \<Rightarrow> fatal + intel_cmd" where
  "vkCmdCopyImage e cmd srcImage dstImage pRegions =
     (if img_type srcImage \<noteq> img_type dstImage then Inr (cmd_fail cmd VK_ERROR_UNKNOWN)
      else if layout_format (img_layout srcImage) = layout_format (img_layout dstImage) then
        (case cmd_meta_img_raw_format e (layout_format (img_layout srcImage)) of
           Inl a \<Rightarrow> Inl a
         | Inr raw_format \<Rightarrow> Inr (copy_image_regions e cmd srcImage dstImage (Some raw_format) pRegions))
      else if icd_format_is_compressed e (layout_format (img_layout srcImage)) \<or>
              icd_format_is_compressed e (layout_format (img_layout dstImage))
      then Inr (cmd_fail cmd VK_ERROR_UNKNOWN)
      else Inr (copy_image_regions e cmd srcImage dstImage None pRegions))"

text \<open>The body of \<open>vkCmdBlitImage\<close> is a TODO comment and one \<open>cmd_fail\<close>.\<close>

definition vkCmdBlitImage ::
  "intel_cmd \<Rightarrow> intel_img \<Rightarrow> VkImageLayout \<Rightarrow> intel_img \<Rightarrow> VkImageLayout \<Rightarrow> 'r list \<Rightarrow> 'f
     \<Rightarrow> intel_cmd" where
  "vkCmdBlitImage cmd srcImage srcImageLayout destImage destImageLayout pRegions texFilter =
     cmd_fail cmd VK_ERROR_UNAVAILABLE"

section \<open>Clears\<close>

record VkImageSubresourceRange =
  range_aspect :: VkImageAspect
  baseMipLevel :: uint32_t
  mipLevels :: uint32_t
  baseArraySlice :: uint32_t
  arraySize :: uint32_t

text \<open>
  The body of the inner loop of \<open>cmd_meta_clear_image\<close>: one array layer of one mip
  level.  The depth/stencil view lives only for the dispatch.
\<close>

definition clear_image_layer ::
  "env \<Rightarrow> intel_img \<Rightarrow> VkFormat \<Rightarrow> VkImageSubresourceRange \<Rightarrow> intel_cmd \<times> intel_cmd_meta
     \<Rightarrow> intel_cmd \<times> intel_cmd_meta" where
  "clear_image_layer e img format rng st =
     (case st of (cmd, meta) \<Rightarrow>
        if range_aspect rng = VK_IMAGE_ASPECT_COLOR then
          (case cmd_meta_set_dst_for_img e cmd img format (lod (dst meta)) (layer (dst meta)) meta of
             (cmd1, meta1) \<Rightarrow>
               (cmd_draw_meta cmd1 meta1,
                meta1\<lparr>dst := (dst meta1)\<lparr>layer := layer (dst meta1) + 1\<rparr>\<rparr>))
        else
          (case cmd_meta_set_ds_view e cmd img (lod (dst meta)) (layer (dst meta)) meta of
             (cmd1, meta1) \<Rightarrow>
               let meta2 = cmd_meta_set_ds_state (range_aspect rng) (clear_val meta1 ! 1) meta1
               in (cmd_draw_meta cmd1 meta2,
                   meta2\<lparr>dst := (dst meta2)\<lparr>layer := layer (dst meta2) + 1\<rparr>\<rparr>)))"

text \<open>
  The body of the outer loop, for mip level \<open>baseMipLevel + i\<close>.  A level on which
  Hi-Z is asked for and cannot be enabled is skipped by \<open>continue\<close>.
\<close>

definition clear_image_level ::
  "env \<Rightarrow> intel_img \<Rightarrow> VkFormat \<Rightarrow> VkImageSubresourceRange \<Rightarrow> uint32_t
     \<Rightarrow> intel_cmd \<times> intel_cmd_meta \<Rightarrow> nat \<Rightarrow> intel_cmd \<times> intel_cmd_meta" where
  "clear_image_level e img format rng array_size st i =
     (case st of (cmd, meta) \<Rightarrow>
        let meta1 = meta\<lparr>dst := (dst meta)\<lparr>lod := baseMipLevel rng + of_nat i,
                                            layer := baseArraySlice rng\<rparr>\<rparr>;
            meta2 = meta1\<lparr>width := u_minify e (width0 (img_layout img)) (lod (dst meta1)),
                          height := u_minify e (height0 (img_layout img)) (lod (dst meta1))\<rparr>
        in if ds_op (ds meta2) \<noteq> INTEL_CMD_META_DS_NOP \<and>
              \<not> intel_img_can_enable_hiz e img (lod (dst meta2))
           then (cmd, meta2)
           else ((clear_image_layer e img format rng) ^^ unat array_size) (cmd, meta2))"

text \<open>
  The two counts: what the image has left from the base on, cut down to what the
  range asks for (\<open>n = have - base; if (n > asked) n = asked;\<close>).
\<close>

definition clamp_count :: "uint32_t \<Rightarrow> uint32_t \<Rightarrow> uint32_t \<Rightarrow> uint32_t" where
  "clamp_count have base asked =
     (let n = have - base in if n > asked then asked else n)"

definition cmd_meta_clear_image ::
  "env \<Rightarrow> intel_cmd \<Rightarrow> intel_img \<Rightarrow> VkFormat \<Rightarrow> intel_cmd_meta \<Rightarrow> VkImageSubresourceRange
     \<Rightarrow> intel_cmd \<times> intel_cmd_meta" where
  "cmd_meta_clear_image e cmd img format meta rng =
     (if baseMipLevel rng \<ge> img_mip_levels img \<or> baseArraySlice rng \<ge> img_array_size img
      then (cmd, meta)
      else
        let mip_levels = clamp_count (img_mip_levels img) (baseMipLevel rng) (mipLevels rng);
            array_size = clamp_count (img_array_size img) (baseArraySlice rng) (arraySize rng)
        in foldl (clear_image_level e img format rng array_size) (cmd, meta)
             [0..<unat mip_levels])"

text \<open>\<open>pClearColor->u32\<close> is a list of four words.\<close>

definition cmd_meta_clear_color_image ::
  "env \<Rightarrow> intel_cmd \<Rightarrow> intel_img \<Rightarrow> VkImageLayout \<Rightarrow> uint32_t list \<Rightarrow> VkImageSubresourceRange list
     \<Rightarrow> intel_cmd" where
  "cmd_meta_clear_color_image e cmd img imageLayout pClearColor pRanges =
     fst (foldl (\<lambda>st rng. cmd_meta_clear_image e (fst st) img (layout_format (img_layout img)) (snd st) rng)
            (cmd, meta_zero
               \<lparr>mode := INTEL_CMD_META_FS_RECT,
                shader_id := INTEL_DEV_META_FS_CLEAR_COLOR,
                samples := img_samples img,
                clear_val := (clear_val meta_zero)
                  [0 := pClearColor ! 0, 1 := pClearColor ! 1,
                   2 := pClearColor ! 2, 3 := pClearColor ! 3]\<rparr>)
            pRanges)"

definition vkCmdClearColorImage ::
  "env \<Rightarrow> intel_cmd \<Rightarrow> intel_img \<Rightarrow> VkImageLayout \<Rightarrow> uint32_t list \<Rightarrow> VkImageSubresourceRange list
     \<Rightarrow> intel_cmd" where
  "vkCmdClearColorImage e cmd img imageLayout pClearColor pRanges =
     cmd_meta_clear_color_image e cmd img imageLayout pClearColor pRanges"

text \<open>
  \<open>depth\<close> is a \<open>float\<close>; \<open>u_fui\<close> reads its bits, so the model takes the 32-bit
  pattern itself.
\<close>

definition cmd_meta_clear_depth_stencil_image ::
  "env \<Rightarrow> intel_cmd \<Rightarrow> intel_img \<Rightarrow> VkImageLayout \<Rightarrow> uint32_t \<Rightarrow> uint32_t
     \<Rightarrow> VkImageSubresourceRange list \<Rightarrow> intel_cmd" where
  "cmd_meta_clear_depth_stencil_image e cmd img imageLayout depth stencil pRanges =
     fst (foldl (\<lambda>st rng. cmd_meta_clear_image e (fst st) img (layout_format (img_layout img)) (snd st) rng)
            (cmd, meta_zero
               \<lparr>mode := INTEL_CMD_META_DEPTH_STENCIL_RECT,
                shader_id := INTEL_DEV_META_FS_CLEAR_DEPTH,
                samples := img_samples img,
                clear_val := (clear_val meta_zero)[0 := depth, 1 := stencil],
                ds := (ds meta_zero)
                  \<lparr>optimal :=
                     (imageLayout = VK_IMAGE_LAYOUT_DEPTH_STENCIL_ATTACHMENT_OPTIMAL \<or>
                      imageLayout = VK_IMAGE_LAYOUT_DEPTH_STENCIL_READ_ONLY_OPTIMAL)\<rparr>\<rparr>)
            pRanges)"

definition vkCmdClearDepthStencilImage ::
  "env \<Rightarrow> intel_cmd \<Rightarrow> intel_img \<Rightarrow> VkImageLayout \<Rightarrow> uint32_t \<Rightarrow> uint32_t
     \<Rightarrow> VkImageSubresourceRange list \<Rightarrow> intel_cmd" where
  "vkCmdClearDepthStencilImage e cmd img imageLayout depth stencil pRanges =
     cmd_meta_clear_depth_stencil_image e cmd img imageLayout depth stencil pRanges"

section \<open>Attachment clears\<close>







section \<open>Resolve\<close>

record VkImageResolve =
  ir_srcSubresource :: VkImageSubresource
  ir_srcOffset :: VkOffset3D
  ir_destSubresource :: VkImageSubresource
  ir_destOffset :: VkOffset3D
  ir_extent :: VkExtent3D

text \<open>The \<open>switch\<close> on the source sample count; \<open>case 2\<close> shares its branch with \<open>default\<close>.\<close>

definition resolve_shader_id :: "uint32_t \<Rightarrow> intel_dev_meta_shader" where
  "resolve_shader_id n =
     (if n = 2 then INTEL_DEV_META_FS_RESOLVE_2X
      else if n = 4 then INTEL_DEV_META_FS_RESOLVE_4X
      else if n = 8 then INTEL_DEV_META_FS_RESOLVE_8X
      else if n = 16 then INTEL_DEV_META_FS_RESOLVE_16X
      else INTEL_DEV_META_FS_RESOLVE_2X)"

definition resolve_slice ::
  "env \<Rightarrow> intel_img \<Rightarrow> VkFormat \<Rightarrow> VkImageResolve \<Rightarrow> intel_cmd \<times> intel_cmd_meta \<Rightarrow> nat
     \<Rightarrow> intel_cmd \<times> intel_cmd_meta" where
  "resolve_slice e dstImage format region st arraySlice =
     (case st of (cmd, meta) \<Rightarrow>
        let meta1 = meta
              \<lparr>src := (src meta)
                 \<lparr>lod := sub_mipLevel (ir_srcSubresource region),
                  layer := sub_arraySlice (ir_srcSubresource region) + of_nat arraySlice,
                  xpos := off_x (ir_srcOffset region),
                  ypos := off_y (ir_srcOffset region)\<rparr>,
               dst := (dst meta)
                 \<lparr>lod := sub_mipLevel (ir_destSubresource region),
                  layer := sub_arraySlice (ir_destSubresource region) + of_nat arraySlice,
                  xpos := off_x (ir_destOffset region),
                  ypos := off_y (ir_destOffset region)\<rparr>,
               width := ext_width (ir_extent region),
               height := ext_height (ir_extent region)\<rparr>
        in case cmd_meta_set_dst_for_img e cmd dstImage format (lod (dst meta1)) (layer (dst meta1)) meta1 of
             (cmd1, meta2) \<Rightarrow> (cmd_draw_meta cmd1 meta2, meta2))"

text \<open>The slice counter is an \<open>int\<close> compared with the signed depth.\<close>

definition resolve_region ::
  "env \<Rightarrow> intel_img \<Rightarrow> VkFormat \<Rightarrow> intel_cmd \<times> intel_cmd_meta \<Rightarrow> VkImageResolve
     \<Rightarrow> intel_cmd \<times> intel_cmd_meta" where
  "resolve_region e dstImage format st region =
     foldl (resolve_slice e dstImage format region) st
       [0..<nat (sint (ext_depth (ir_extent region)))]"

definition vkCmdResolveImage ::
  "env \<Rightarrow> intel_cmd \<Rightarrow> intel_img \<Rightarrow> intel_img \<Rightarrow> VkImageResolve list \<Rightarrow> fatal + intel_cmd" where
  "vkCmdResolveImage e cmd srcImage dstImage pRegions =
     (if img_samples srcImage \<le> 1 \<or> img_samples dstImage > 1 \<or>
         layout_format (img_layout srcImage) \<noteq> layout_format (img_layout dstImage)
      then Inr (cmd_fail cmd VK_ERROR_UNKNOWN)
      else
        let meta = meta_zero
              \<lparr>mode := INTEL_CMD_META_FS_RECT,
               shader_id := resolve_shader_id (img_samples srcImage),
               samples := 1\<rparr>
        in case cmd_meta_img_raw_format e (layout_format (img_layout srcImage)) of
             Inl a \<Rightarrow> Inl a
           | Inr format \<Rightarrow>
               (case cmd_meta_set_src_for_img e cmd srcImage format VK_IMAGE_ASPECT_COLOR meta of
                  (cmd1, meta1) \<Rightarrow>
                    Inr (fst (foldl (resolve_region e dstImage format) (cmd1, meta1) pRegions))))"

section \<open>Auxiliary notions for stating the properties\<close>

text \<open>The descriptors an operation dispatched: what \<open>draws\<close> gained from \<open>cmd\<close> to \<open>cmd'\<close>.\<close>

definition new_draws :: "intel_cmd \<Rightarrow> intel_cmd \<Rightarrow> intel_cmd_meta list" where
  "new_draws cmd cmd' = drop (length (draws cmd)) (draws cmd')"

text \<open>The number of slices a resolve call walks: the signed depth of each region, if positive.\<close>

definition resolve_depths :: "VkImageResolve list \<Rightarrow> nat" where
  "resolve_depths rs = sum_list (map (\<lambda>r. nat (sint (ext_depth (ir_extent r)))) rs)"

text \<open>The shaders of the draws one region of an image copy dispatches, one per layer.\<close>

definition copy_shaders :: "intel_img \<Rightarrow> VkImageCopy \<Rightarrow> intel_dev_meta_shader list" where
  "copy_shaders srcImage region =
     replicate (unat (ext_depth (ic_extent region)))
       (get_shader_id srcImage (1 <s ext_depth (ic_extent region)))"

text \<open>
  The shader-selection table as the spec words it, by image type, the column
  \<open>array/depth>1\<close> and the column \<open>multisample>1\<close>.  It is only compared with what the
  code dispatches.
\<close>

definition spec_copy_shader_table :: "VkImageType \<Rightarrow> bool \<Rightarrow> bool \<Rightarrow> intel_dev_meta_shader" where
  "spec_copy_shader_table ty arrayed multisample =
     (case ty of
        VK_IMAGE_TYPE_1D \<Rightarrow>
          (if arrayed then INTEL_DEV_META_FS_COPY_1D_ARRAY else INTEL_DEV_META_FS_COPY_1D)
      | VK_IMAGE_TYPE_2D \<Rightarrow>
          (if arrayed then INTEL_DEV_META_FS_COPY_2D_ARRAY
           else if multisample then INTEL_DEV_META_FS_COPY_2D_MS
           else INTEL_DEV_META_FS_COPY_2D)
      | VK_IMAGE_TYPE_3D \<Rightarrow> INTEL_DEV_META_FS_COPY_2D_ARRAY)"

text \<open>The shaders of the draws a call dispatched, or the assertion failure that stopped it.\<close>

definition dispatched_shaders ::
  "intel_cmd \<Rightarrow> fatal + intel_cmd \<Rightarrow> fatal + intel_dev_meta_shader list" where
  "dispatched_shaders cmd res =
     (case res of Inl a \<Rightarrow> Inl a | Inr cmd' \<Rightarrow> Inr (map shader_id (new_draws cmd cmd')))"

text \<open>Where a clear draw lands: the mip level and array layer of its destination.\<close>

definition clear_key :: "intel_cmd_meta \<Rightarrow> uint32_t \<times> uint32_t" where
  "clear_key m = (lod (dst m), layer (dst m))"

text \<open>
  The (mip level, array layer) units of a range within an image, in dispatch order:
  the levels and layers the range asks for, cut down to those the image has from the
  base on, without the levels on which the Hi-Z operation \<open>op\<close> cannot run.
\<close>

definition clear_units ::
  "env \<Rightarrow> intel_img \<Rightarrow> intel_cmd_meta_ds_op \<Rightarrow> VkImageSubresourceRange \<Rightarrow> (uint32_t \<times> uint32_t) list" where
  "clear_units e img op rng =
     concat (map
       (\<lambda>i. if op \<noteq> INTEL_CMD_META_DS_NOP \<and>
                \<not> intel_img_can_enable_hiz e img (baseMipLevel rng + of_nat i)
             then []
             else map (\<lambda>j. (baseMipLevel rng + of_nat i, baseArraySlice rng + of_nat j))
                    [0..<min (unat (img_array_size img) - unat (baseArraySlice rng))
                             (unat (arraySize rng))])
       [0..<min (unat (img_mip_levels img) - unat (baseMipLevel rng)) (unat (mipLevels rng))])"



text \<open>The alignment predicate applied to a region of a buffer copy.\<close>

definition region_aligned :: "VkBufferCopy \<Rightarrow> bool" where
  "region_aligned r = cmd_meta_mem_dword_aligned (srcOffset r) (destOffset r) (copySize r)"

text \<open>No other validation failure: the buffer view constructor succeeds on every request.\<close>

definition buf_views_ok :: "env \<Rightarrow> bool" where
  "buf_views_ok e = (\<forall>buf fmt rng. fst (intel_buf_view_create e buf fmt rng) = VK_SUCCESS)"

text \<open>The region loop of \<open>vkCmdCopyBuffer\<close> with its final state: command buffer, descriptor and format.\<close>

definition copy_buffer_loop ::
  "env \<Rightarrow> intel_cmd \<Rightarrow> intel_buf \<Rightarrow> intel_buf \<Rightarrow> VkBufferCopy list
     \<Rightarrow> intel_cmd \<times> intel_cmd_meta \<times> VkFormat" where
  "copy_buffer_loop e cmd srcBuf dstBuf rs =
     foldl (copy_buffer_region e srcBuf dstBuf) (copy_buffer_init cmd) rs"

text \<open>The shader of the draw a region of a buffer copy dispatches on generation \<open>g\<close>, if it dispatches one.\<close>

definition region_shaders :: "int \<Rightarrow> VkBufferCopy \<Rightarrow> intel_dev_meta_shader list" where
  "region_shaders g r =
     (if region_aligned r then [INTEL_DEV_META_VS_COPY_MEM]
      else if g = INTEL_GEN 6 then []
      else [INTEL_DEV_META_VS_COPY_MEM_UNALIGNED])"

text \<open>The error the region loop itself reports for a region on generation \<open>g\<close>.\<close>

definition region_fails :: "int \<Rightarrow> VkBufferCopy \<Rightarrow> VkResult list" where
  "region_fails g r =
     (if \<not> region_aligned r \<and> g = INTEL_GEN 6 then [VK_ERROR_UNKNOWN] else [])"

text \<open>The shader and the coordinates of a buffer-copy draw.\<close>

definition draw_geometry ::
  "intel_cmd_meta \<Rightarrow> intel_dev_meta_shader \<times> uint32_t \<times> uint32_t \<times> uint32_t" where
  "draw_geometry m = (shader_id m, xpos (src m), xpos (dst m), width m)"

text \<open>The shader and the coordinates a region of a buffer copy is dispatched with on generation \<open>g\<close>.\<close>

definition region_geometry ::
  "int \<Rightarrow> VkBufferCopy \<Rightarrow> (intel_dev_meta_shader \<times> uint32_t \<times> uint32_t \<times> uint32_t) list" where
  "region_geometry g r =
     (if region_aligned r
      then [(INTEL_DEV_META_VS_COPY_MEM, ucast (srcOffset r) div 4, ucast (destOffset r) div 4,
             ucast (copySize r) div 4)]
      else if g = INTEL_GEN 6 then []
      else [(INTEL_DEV_META_VS_COPY_MEM_UNALIGNED, ucast (srcOffset r), ucast (destOffset r),
             ucast (copySize r))])"

text \<open>What the descriptor carries from one region to the next: everything but the fields each
  region overwrites before it is dispatched.\<close>

definition meta_carry :: "intel_cmd_meta \<Rightarrow> intel_cmd_meta" where
  "meta_carry m =
     m\<lparr>shader_id := INTEL_DEV_META_VS_FILL_MEM,
       src := (src m)\<lparr>xpos := 0\<rparr>, dst := (dst m)\<lparr>xpos := 0\<rparr>, width := 0\<rparr>"

text \<open>What the loop state carries from one region to the next, the error log and view count apart.\<close>

definition copy_state_carry ::
  "intel_cmd \<times> intel_cmd_meta \<times> VkFormat \<Rightarrow> int \<times> intel_cmd_meta list \<times> intel_cmd_meta \<times> VkFormat" where
  "copy_state_carry s = (cmd_gen (fst s), draws (fst s), meta_carry (fst (snd s)), snd (snd s))"

text \<open>
  The format of the buffer views a region of a buffer copy needs on generation \<open>g\<close>: the
  stride its shader expects; none for a region that is skipped.
\<close>

definition region_format :: "int \<Rightarrow> VkBufferCopy \<Rightarrow> VkFormat option" where
  "region_format g r =
     (if region_aligned r then Some VK_FORMAT_R32G32B32A32_UINT
      else if g = INTEL_GEN 6 then None
      else Some VK_FORMAT_R8G8B8A8_UINT)"

text \<open>The format of the bindings after the regions \<open>rs\<close>: that of the last region not skipped.\<close>

definition copy_format :: "int \<Rightarrow> VkBufferCopy list \<Rightarrow> VkFormat" where
  "copy_format g rs =
     foldl (\<lambda>f r. case region_format g r of None \<Rightarrow> f | Some fmt \<Rightarrow> fmt) VK_FORMAT_UNDEFINED rs"

text \<open>
  The codes the view constructor returns for the source and for the destination
  buffer in format \<open>fmt\<close>, in that order, successes left out.
\<close>

definition bind_reports :: "env \<Rightarrow> intel_buf \<Rightarrow> intel_buf \<Rightarrow> VkFormat \<Rightarrow> VkResult list" where
  "bind_reports e srcBuf dstBuf fmt =
     filter (\<lambda>res. res \<noteq> VK_SUCCESS)
       [fst (cmd_meta_create_buf_view e (Some srcBuf) (buf_size srcBuf) fmt),
        fst (cmd_meta_create_buf_view e (Some dstBuf) (buf_size dstBuf) fmt)]"

text \<open>
  The errors a region reports when the bindings are in format \<open>f\<close>: \<open>VK_ERROR_UNKNOWN\<close> for
  a skipped region; otherwise the codes of the constructors that failed, when the region
  needs another format than \<open>f\<close>, and nothing when it needs \<open>f\<close>.
\<close>

definition region_reports ::
  "env \<Rightarrow> intel_buf \<Rightarrow> intel_buf \<Rightarrow> int \<Rightarrow> VkFormat \<Rightarrow> VkBufferCopy \<Rightarrow> VkResult list" where
  "region_reports e srcBuf dstBuf g f r =
     (case region_format g r of
        None \<Rightarrow> [VK_ERROR_UNKNOWN]
      | Some fmt \<Rightarrow> if f = fmt then [] else bind_reports e srcBuf dstBuf fmt)"

text \<open>
  A surface after an attempt to bind \<open>buf\<close> in format \<open>fmt\<close>: valid and taken from the view
  when the constructor succeeds, left as it was when the constructor fails.
\<close>

definition bound_surface ::
  "env \<Rightarrow> intel_buf \<Rightarrow> VkFormat \<Rightarrow> reloc_flag list \<Rightarrow> meta_surface \<Rightarrow> meta_surface" where
  "bound_surface e buf fmt flags s =
     (if fst (cmd_meta_create_buf_view e (Some buf) (buf_size buf) fmt) = VK_SUCCESS
      then s\<lparr>valid := True,
             surface := memcpy_words (surface s)
               (view_cmd (snd (cmd_meta_create_buf_view e (Some buf) (buf_size buf) fmt)))
               (view_cmd_len (snd (cmd_meta_create_buf_view e (Some buf) (buf_size buf) fmt))),
             surface_len := view_cmd_len (snd (cmd_meta_create_buf_view e (Some buf) (buf_size buf) fmt)),
             reloc_target := RELOC_BO (buf_bo buf),
             reloc_offset := 0,
             reloc_flags := flags\<rparr>
      else s)"

text \<open>The descriptor \<open>m\<close> with the shader and the coordinates of region \<open>r\<close>.\<close>

definition region_draw :: "VkBufferCopy \<Rightarrow> intel_cmd_meta \<Rightarrow> intel_cmd_meta" where
  "region_draw r m =
     (if region_aligned r
      then m\<lparr>shader_id := INTEL_DEV_META_VS_COPY_MEM,
             src := (src m)\<lparr>xpos := ucast (srcOffset r) div 4\<rparr>,
             dst := (dst m)\<lparr>xpos := ucast (destOffset r) div 4\<rparr>,
             width := ucast (copySize r) div 4\<rparr>
      else m\<lparr>shader_id := INTEL_DEV_META_VS_COPY_MEM_UNALIGNED,
             src := (src m)\<lparr>xpos := ucast (srcOffset r)\<rparr>,
             dst := (dst m)\<lparr>xpos := ucast (destOffset r)\<rparr>,
             width := ucast (copySize r)\<rparr>)"

text \<open>
  The draws of a region when the bindings are in format \<open>f\<close> and the descriptor was left as
  \<open>prev\<close>: none for a skipped region; otherwise \<open>prev\<close> with the shader and coordinates of the region,
  its two surfaces bound anew only when the region needs another format than \<open>f\<close>.
\<close>

definition region_draws ::
  "env \<Rightarrow> intel_buf \<Rightarrow> intel_buf \<Rightarrow> int \<Rightarrow> VkFormat \<Rightarrow> intel_cmd_meta \<Rightarrow> VkBufferCopy
     \<Rightarrow> intel_cmd_meta list" where
  "region_draws e srcBuf dstBuf g f prev r =
     (case region_format g r of
        None \<Rightarrow> []
      | Some fmt \<Rightarrow>
          if f = fmt then [region_draw r prev]
          else [(region_draw r prev)
                  \<lparr>src := bound_surface e srcBuf fmt [] (src (region_draw r prev)),
                   dst := bound_surface e dstBuf fmt [INTEL_RELOC_WRITE] (dst (region_draw r prev))\<rparr>])"

text \<open>
  The descriptor as the draws of a call show it: the last one dispatched since \<open>cmd\<close>, or
  the descriptor the loop starts from when nothing has been dispatched.
\<close>

definition carried :: "intel_cmd \<Rightarrow> intel_cmd \<Rightarrow> intel_cmd_meta" where
  "carried cmd cmd' =
     (if new_draws cmd cmd' = [] then fst (snd (copy_buffer_init cmd))
      else last (new_draws cmd cmd'))"

text \<open>A well-formed field of \<open>n\<close> bits: its mask is \<open>n\<close> contiguous bits from its shift on, within the word.\<close>

definition field_ok :: "gen_field \<Rightarrow> nat \<Rightarrow> bool" where
  "field_ok f n \<longleftrightarrow>
     field_mask f = push_bit (field_shift f) (mask n) \<and> field_shift f + n \<le> 32"

text \<open>Division rounding up, on natural numbers.\<close>

definition ceil_div :: "nat \<Rightarrow> nat \<Rightarrow> nat" where
  "ceil_div p b = (p + b - 1) div b"

section \<open>Concrete inputs\<close>

text \<open>
  A concrete environment, command buffer, image and buffer on which the operations are
  evaluated.  Format sizes follow the format names; \<open>VK_FORMAT_OTHER n\<close> has size \<open>n\<close>,
  and \<open>VK_FORMAT_OTHER 8\<close> stands for a block-compressed format with 4x4 blocks.  Every
  view constructor succeeds.  The two field tables give each field a contiguous range
  of bits.
\<close>

definition sample_format_size :: "VkFormat \<Rightarrow> nat" where
  "sample_format_size f =
     (case f of
        VK_FORMAT_UNDEFINED \<Rightarrow> 0
      | VK_FORMAT_R8_UINT \<Rightarrow> 1
      | VK_FORMAT_R16_UINT \<Rightarrow> 2
      | VK_FORMAT_R32_UINT \<Rightarrow> 4
      | VK_FORMAT_R32G32_UINT \<Rightarrow> 8
      | VK_FORMAT_R32G32B32A32_UINT \<Rightarrow> 16
      | VK_FORMAT_R8G8B8A8_UINT \<Rightarrow> 4
      | VK_FORMAT_OTHER n \<Rightarrow> n)"

text \<open>A single-sample 2D image with 3 mip levels and 4 array layers.\<close>

definition sample_img :: intel_img where
  "sample_img =
     \<lparr>img_type = VK_IMAGE_TYPE_2D, img_samples = 1, img_mip_levels = 3, img_array_size = 4,
      img_layout = \<lparr>layout_format = VK_FORMAT_R8G8B8A8_UINT, block_width = 1, block_height = 1,
                    width0 = 64, height0 = 64\<rparr>,
      img_bo = 7\<rparr>"

definition sample_env :: env where
  "sample_env =
     \<lparr>icd_format_get_size = sample_format_size,
      icd_format_is_compressed = (\<lambda>f. f = VK_FORMAT_OTHER 8),
      icd_format_get_block_width = (\<lambda>f. if f = VK_FORMAT_OTHER 8 then 4 else 1),
      intel_buf_view_create = (\<lambda>buf fmt rng. (VK_SUCCESS, \<lparr>view_cmd = [1, 2, 3, 4, 5, 6], view_cmd_len = 6\<rparr>)),
      intel_img_view_create = (\<lambda>img vt fmt asp. (VK_SUCCESS, \<lparr>view_cmd = [1, 2, 3, 4, 5, 6], view_cmd_len = 6\<rparr>)),
      intel_att_view_create_for_color = (\<lambda>img fmt mip sl.
         (VK_SUCCESS, \<lparr>att_img = img, att_mipLevel = mip, att_cmd = [0, 0, 0, 0, 0, 0], att_cmd_len = 6\<rparr>)),
      intel_att_view_create_for_ds = (\<lambda>img mip sl.
         (VK_SUCCESS, \<lparr>att_img = img, att_mipLevel = mip, att_cmd = [0, 0, 0, 0, 0, 0], att_cmd_len = 6\<rparr>)),
      intel_layout_get_slice_tile_offset = (\<lambda>l lv sl. (4096 * sl, 64, 16)),
      intel_img_can_enable_hiz = (\<lambda>img lv. lv = 0),
      u_minify = (\<lambda>v l. max 1 (drop_bit (unat l) v)),
      cmd_state_pointer = (\<lambda>cmd al len. 32 * of_nat (length (blobs cmd))),
      GEN6_SURFACE =
        \<lparr>SURFACE_DW2_WIDTH = \<lparr>field_shift = 6, field_mask = 0x0007ffc0\<rparr>,
         SURFACE_DW2_HEIGHT = \<lparr>field_shift = 19, field_mask = 0xfff80000\<rparr>,
         SURFACE_DW4_MIN_ARRAY_ELEMENT = \<lparr>field_shift = 17, field_mask = 0x0ffe0000\<rparr>,
         SURFACE_DW5_X_OFFSET = \<lparr>field_shift = 25, field_mask = 0xfe000000\<rparr>,
         SURFACE_DW5_Y_OFFSET = \<lparr>field_shift = 20, field_mask = 0x00f00000\<rparr>\<rparr>,
      GEN7_SURFACE =
        \<lparr>SURFACE_DW2_WIDTH = \<lparr>field_shift = 0, field_mask = 0x00003fff\<rparr>,
         SURFACE_DW2_HEIGHT = \<lparr>field_shift = 16, field_mask = 0x3fff0000\<rparr>,
         SURFACE_DW4_MIN_ARRAY_ELEMENT = \<lparr>field_shift = 18, field_mask = 0x1ffc0000\<rparr>,
         SURFACE_DW5_X_OFFSET = \<lparr>field_shift = 25, field_mask = 0xfe000000\<rparr>,
         SURFACE_DW5_Y_OFFSET = \<lparr>field_shift = 20, field_mask = 0x00f00000\<rparr>\<rparr>,
      NDEBUG = True\<rparr>"

text \<open>An empty command buffer on generation \<open>g\<close>.\<close>

definition sample_cmd :: "int \<Rightarrow> intel_cmd" where
  "sample_cmd g =
     \<lparr>cmd_gen = INTEL_GEN g, fails = [], draws = [], views_built = 0, blobs = [],
      bind_fb_views = [], bind_color_indices = [], bind_ds_index = 0\<rparr>"

definition sample_buf :: intel_buf where
  "sample_buf = \<lparr>buf_size = 256, buf_bo = 3\<rparr>"

text \<open>A resolve region of depth 2.\<close>

definition sample_resolve :: VkImageResolve where
  "sample_resolve =
     \<lparr>ir_srcSubresource = \<lparr>sub_mipLevel = 0, sub_arraySlice = 0\<rparr>,
      ir_srcOffset = \<lparr>off_x = 0, off_y = 0, off_z = 0\<rparr>,
      ir_destSubresource = \<lparr>sub_mipLevel = 0, sub_arraySlice = 0\<rparr>,
      ir_destOffset = \<lparr>off_x = 0, off_y = 0, off_z = 0\<rparr>,
      ir_extent = \<lparr>ext_width = 16, ext_height = 16, ext_depth = 2\<rparr>\<rparr>"

text \<open>An image-copy region of the given depth.\<close>

definition sample_copy :: "uint32_t \<Rightarrow> VkImageCopy" where
  "sample_copy depth =
     \<lparr>ic_srcSubresource = \<lparr>sub_mipLevel = 0, sub_arraySlice = 0\<rparr>,
      ic_srcOffset = \<lparr>off_x = 0, off_y = 0, off_z = 0\<rparr>,
      ic_destSubresource = \<lparr>sub_mipLevel = 0, sub_arraySlice = 0\<rparr>,
      ic_destOffset = \<lparr>off_x = 0, off_y = 0, off_z = 0\<rparr>,
      ic_extent = \<lparr>ext_width = 16, ext_height = 16, ext_depth = depth\<rparr>\<rparr>"

text \<open>A range that asks for 10 mip levels and 10 array layers from the given base on.\<close>

definition sample_range :: "uint32_t \<Rightarrow> uint32_t \<Rightarrow> VkImageSubresourceRange" where
  "sample_range mip sl =
     \<lparr>range_aspect = VK_IMAGE_ASPECT_COLOR, baseMipLevel = mip, mipLevels = 10,
      baseArraySlice = sl, arraySize = 10\<rparr>"




definition sample_region :: "VkDeviceSize \<Rightarrow> VkDeviceSize \<Rightarrow> VkDeviceSize \<Rightarrow> VkBufferCopy" where
  "sample_region s d n = \<lparr>srcOffset = s, destOffset = d, copySize = n\<rparr>"

text \<open>
  A second buffer, and an environment in which the view constructor fails on every
  view of \<open>sample_buf\<close> and succeeds on every other buffer.
\<close>

definition sample_dst_buf :: intel_buf where
  "sample_dst_buf = \<lparr>buf_size = 512, buf_bo = 4\<rparr>"

definition src_fails_env :: env where
  "src_fails_env =
     sample_env\<lparr>intel_buf_view_create := (\<lambda>buf fmt rng.
       if buf = Some sample_buf then (VK_ERROR_OTHER 1, \<lparr>view_cmd = [], view_cmd_len = 0\<rparr>)
       else (VK_SUCCESS, \<lparr>view_cmd = [1, 2, 3, 4, 5, 6], view_cmd_len = 6\<rparr>))\<rparr>"

text \<open>A block-compressed image with 4x4 blocks, and a destination descriptor whose width and height
  fields both hold 129 (130 pixels) and whose minimum-array-element field holds \<open>lyr\<close>, laid
  out by the generation 7 table.\<close>

definition sample_bc_img :: intel_img where
  "sample_bc_img =
     sample_img\<lparr>img_layout :=
       \<lparr>layout_format = VK_FORMAT_OTHER 8, block_width = 4, block_height = 4,
        width0 = 130, height0 = 130\<rparr>\<rparr>"

definition sample_bc_meta :: "uint32_t \<Rightarrow> intel_cmd_meta" where
  "sample_bc_meta lyr =
     meta_zero\<lparr>dst := surface_zero
       \<lparr>surface := [0, 0, 129 OR push_bit 16 129, 0, push_bit 18 lyr, 0, 0, 0]\<rparr>\<rparr>"

section \<open>What the binding builders leave alone\<close>

text \<open>
  The builders only touch the binding they build and the logs of failures and views;
  the shader, the other binding, the position within the image and the dispatch log
  stay as they were.
\<close>

lemma adjust_compressed_frame:
  "shader_id (cmd_meta_adjust_compressed_dst e cmd img meta) = shader_id meta \<and>
   src (cmd_meta_adjust_compressed_dst e cmd img meta) = src meta \<and>
   lod (dst (cmd_meta_adjust_compressed_dst e cmd img meta)) = lod (dst meta) \<and>
   layer (dst (cmd_meta_adjust_compressed_dst e cmd img meta)) = layer (dst meta) \<and>
   ds (cmd_meta_adjust_compressed_dst e cmd img meta) = ds meta \<and>
   clear_val (cmd_meta_adjust_compressed_dst e cmd img meta) = clear_val meta"
  by (simp add: cmd_meta_adjust_compressed_dst_def Let_def split: prod.splits)

lemma set_dst_for_img_frame [simp]:
  "draws (fst (cmd_meta_set_dst_for_img e cmd img format mip sl meta)) = draws cmd"
  "cmd_gen (fst (cmd_meta_set_dst_for_img e cmd img format mip sl meta)) = cmd_gen cmd"
  "shader_id (snd (cmd_meta_set_dst_for_img e cmd img format mip sl meta)) = shader_id meta"
  "src (snd (cmd_meta_set_dst_for_img e cmd img format mip sl meta)) = src meta"
  "lod (dst (snd (cmd_meta_set_dst_for_img e cmd img format mip sl meta))) = lod (dst meta)"
  "layer (dst (snd (cmd_meta_set_dst_for_img e cmd img format mip sl meta))) = layer (dst meta)"
  "ds (snd (cmd_meta_set_dst_for_img e cmd img format mip sl meta)) = ds meta"
  "clear_val (snd (cmd_meta_set_dst_for_img e cmd img format mip sl meta)) = clear_val meta"
  by (simp_all add: cmd_meta_set_dst_for_img_def cmd_fail_def view_built_def Let_def
        adjust_compressed_frame case_prod_unfold)

lemma set_src_for_img_frame [simp]:
  "draws (fst (cmd_meta_set_src_for_img e cmd img format aspect meta)) = draws cmd"
  "cmd_gen (fst (cmd_meta_set_src_for_img e cmd img format aspect meta)) = cmd_gen cmd"
  "shader_id (snd (cmd_meta_set_src_for_img e cmd img format aspect meta)) = shader_id meta"
  "dst (snd (cmd_meta_set_src_for_img e cmd img format aspect meta)) = dst meta"
  "ds (snd (cmd_meta_set_src_for_img e cmd img format aspect meta)) = ds meta"
  "clear_val (snd (cmd_meta_set_src_for_img e cmd img format aspect meta)) = clear_val meta"
  by (simp_all add: cmd_meta_set_src_for_img_def cmd_fail_def view_built_def case_prod_unfold)

lemma sample_env_simps [simp]:
  "NDEBUG sample_env = True"
  "icd_format_get_size sample_env = sample_format_size"
  "icd_format_is_compressed sample_env = (\<lambda>f. f = VK_FORMAT_OTHER 8)"
  by (simp_all add: sample_env_def)

section \<open>Loops that append to a log\<close>

text \<open>
  Each loop of the file is a fold; what it appends to a log of the command buffer is
  the concatenation of what its iterations append.
\<close>

lemma foldl_log:
  fixes f :: "'s \<Rightarrow> 'x \<Rightarrow> 's" and lg :: "'s \<Rightarrow> 'b list"
  assumes step: "\<And>s x. I s \<Longrightarrow> I (f s x) \<and> lg (f s x) = lg s @ h x"
    and init: "I s"
  shows "I (foldl f s xs) \<and> lg (foldl f s xs) = lg s @ concat (map h xs)"
  using init
proof (induction xs arbitrary: s)
  case Nil
  then show ?case by simp
next
  case (Cons x xs)
  from step [OF Cons.prems] have "I (f s x)" and l: "lg (f s x) = lg s @ h x"
    by simp_all
  from Cons.IH [OF \<open>I (f s x)\<close>] l show ?case by simp
qed

lemma funpow_log:
  fixes f :: "'s \<Rightarrow> 's" and lg :: "'s \<Rightarrow> 'b list"
  assumes step: "\<And>k s. I k s \<Longrightarrow> I (Suc k) (f s) \<and> lg (f s) = lg s @ [h k]"
    and init: "I 0 s"
  shows "I n ((f ^^ n) s) \<and> lg ((f ^^ n) s) = lg s @ map h [0..<n]"
proof (induction n)
  case 0
  with init show ?case by simp
next
  case (Suc n)
  then have "I n ((f ^^ n) s)" and l: "lg ((f ^^ n) s) = lg s @ map h [0..<n]"
    by simp_all
  from step [OF \<open>I n ((f ^^ n) s)\<close>] l show ?case by simp
qed

lemma replicate_two: "replicate 2 v = [v, v]"
  by (simp add: numeral_2_eq_2)

lemma new_draws_map:
  assumes "map g (draws cmd') = map g (draws cmd) @ ys"
  shows "map g (new_draws cmd cmd') = ys"
proof -
  have "map g (new_draws cmd cmd') = drop (length (map g (draws cmd))) (map g (draws cmd'))"
    by (simp add: new_draws_def drop_map)
  with assms show ?thesis by simp
qed

section \<open>Buffer fill, update and copy: alignment\<close>

lemma create_buf_view_ok:
  "buf_views_ok e \<Longrightarrow> fst (cmd_meta_create_buf_view e buf rng format) = VK_SUCCESS"
  by (simp add: cmd_meta_create_buf_view_def buf_views_ok_def Let_def)

lemma set_src_for_buf_frame [simp]:
  "draws (fst (cmd_meta_set_src_for_buf e cmd buf format meta)) = draws cmd"
  "cmd_gen (fst (cmd_meta_set_src_for_buf e cmd buf format meta)) = cmd_gen cmd"
  "shader_id (snd (cmd_meta_set_src_for_buf e cmd buf format meta)) = shader_id meta"
  "dst (snd (cmd_meta_set_src_for_buf e cmd buf format meta)) = dst meta"
  "xpos (src (snd (cmd_meta_set_src_for_buf e cmd buf format meta))) = xpos (src meta)"
  "width (snd (cmd_meta_set_src_for_buf e cmd buf format meta)) = width meta"
  by (simp_all add: cmd_meta_set_src_for_buf_def cmd_fail_def view_built_def case_prod_unfold)

lemma set_dst_for_buf_frame [simp]:
  "draws (fst (cmd_meta_set_dst_for_buf e cmd buf format meta)) = draws cmd"
  "cmd_gen (fst (cmd_meta_set_dst_for_buf e cmd buf format meta)) = cmd_gen cmd"
  "shader_id (snd (cmd_meta_set_dst_for_buf e cmd buf format meta)) = shader_id meta"
  "src (snd (cmd_meta_set_dst_for_buf e cmd buf format meta)) = src meta"
  "xpos (dst (snd (cmd_meta_set_dst_for_buf e cmd buf format meta))) = xpos (dst meta)"
  "width (snd (cmd_meta_set_dst_for_buf e cmd buf format meta)) = width meta"
  by (simp_all add: cmd_meta_set_dst_for_buf_def cmd_fail_def view_built_def case_prod_unfold)

lemma set_src_for_writer_frame [simp]:
  "draws (fst (cmd_meta_set_src_for_writer e cmd w sz format meta)) = draws cmd"
  "cmd_gen (fst (cmd_meta_set_src_for_writer e cmd w sz format meta)) = cmd_gen cmd"
  "shader_id (snd (cmd_meta_set_src_for_writer e cmd w sz format meta)) = shader_id meta"
  "dst (snd (cmd_meta_set_src_for_writer e cmd w sz format meta)) = dst meta"
  by (simp_all add: cmd_meta_set_src_for_writer_def cmd_fail_def view_built_def case_prod_unfold)

lemma set_for_buf_fails_ok [simp]:
  assumes "buf_views_ok e"
  shows "fails (fst (cmd_meta_set_src_for_buf e cmd buf format meta)) = fails cmd"
    and "fails (fst (cmd_meta_set_dst_for_buf e cmd buf format meta)) = fails cmd"
    and "fails (fst (cmd_meta_set_src_for_writer e cmd w sz format meta)) = fails cmd"
  using create_buf_view_ok [OF assms]
  by (simp_all add: cmd_meta_set_src_for_buf_def cmd_meta_set_dst_for_buf_def
        cmd_meta_set_src_for_writer_def view_built_def case_prod_unfold)

lemma fill_buffer_aligned:
  assumes "buf_views_ok e" and "(destOff OR fillSize) AND 3 = 0"
  shows "fails (vkCmdFillBuffer e cmd dstBuf destOff fillSize data) = fails cmd"
    and "map shader_id (new_draws cmd (vkCmdFillBuffer e cmd dstBuf destOff fillSize data))
           = [INTEL_DEV_META_VS_FILL_MEM]"
  using assms
  by (simp_all add: vkCmdFillBuffer_def Let_def case_prod_unfold cmd_draw_meta_def new_draws_def)

lemma update_buffer_aligned:
  assumes "buf_views_ok e" and "(destOff OR dataSize) AND 3 = 0"
  shows "fails (vkCmdUpdateBuffer e cmd dstBuf destOff dataSize pData) = fails cmd"
    and "map shader_id (new_draws cmd (vkCmdUpdateBuffer e cmd dstBuf destOff dataSize pData))
           = [INTEL_DEV_META_VS_COPY_MEM]"
  using assms
  by (simp_all add: vkCmdUpdateBuffer_def Let_def case_prod_unfold cmd_draw_meta_def new_draws_def)

lemma copy_buffer_bind_draw_log:
  "cmd_gen (fst (copy_buffer_bind_draw e srcBuf dstBuf cmd meta format fmt)) = cmd_gen cmd"
  "map shader_id (draws (fst (copy_buffer_bind_draw e srcBuf dstBuf cmd meta format fmt)))
     = map shader_id (draws cmd) @ [shader_id meta]"
  "buf_views_ok e \<Longrightarrow>
     fails (fst (copy_buffer_bind_draw e srcBuf dstBuf cmd meta format fmt)) = fails cmd"
  by (simp_all add: copy_buffer_bind_draw_def case_prod_unfold cmd_draw_meta_def)

lemma copy_buffer_region_log:
  "cmd_gen (fst (copy_buffer_region e srcBuf dstBuf s r)) = cmd_gen (fst s)"
  "map shader_id (draws (fst (copy_buffer_region e srcBuf dstBuf s r)))
     = map shader_id (draws (fst s)) @ region_shaders (cmd_gen (fst s)) r"
  "buf_views_ok e \<Longrightarrow>
     fails (fst (copy_buffer_region e srcBuf dstBuf s r))
       = fails (fst s) @ region_fails (cmd_gen (fst s)) r"
  by (simp_all add: copy_buffer_region_def case_prod_unfold Let_def copy_buffer_bind_draw_log
        region_shaders_def region_fails_def region_aligned_def cmd_fail_def)

lemma copy_buffer_loop_log:
  "cmd_gen (fst (copy_buffer_loop e cmd srcBuf dstBuf rs)) = cmd_gen cmd"
  "map shader_id (draws (fst (copy_buffer_loop e cmd srcBuf dstBuf rs)))
     = map shader_id (draws cmd) @ concat (map (region_shaders (cmd_gen cmd)) rs)"
  "buf_views_ok e \<Longrightarrow>
     fails (fst (copy_buffer_loop e cmd srcBuf dstBuf rs))
       = fails cmd @ concat (map (region_fails (cmd_gen cmd)) rs)"
proof -
  have i: "fst (copy_buffer_init cmd) = cmd"
    by (simp add: copy_buffer_init_def)
  from foldl_log [where f = "copy_buffer_region e srcBuf dstBuf"
      and I = "\<lambda>s. cmd_gen (fst s) = cmd_gen cmd"
      and lg = "\<lambda>s. map shader_id (draws (fst s))" and h = "region_shaders (cmd_gen cmd)"
      and s = "copy_buffer_init cmd" and xs = rs]
  show "cmd_gen (fst (copy_buffer_loop e cmd srcBuf dstBuf rs)) = cmd_gen cmd"
    and "map shader_id (draws (fst (copy_buffer_loop e cmd srcBuf dstBuf rs)))
     = map shader_id (draws cmd) @ concat (map (region_shaders (cmd_gen cmd)) rs)"
    by (simp_all add: copy_buffer_loop_def copy_buffer_region_log i)
  assume ok: "buf_views_ok e"
  from foldl_log [where f = "copy_buffer_region e srcBuf dstBuf"
      and I = "\<lambda>s. cmd_gen (fst s) = cmd_gen cmd"
      and lg = "\<lambda>s. fails (fst s)" and h = "region_fails (cmd_gen cmd)"
      and s = "copy_buffer_init cmd" and xs = rs]
  show "fails (fst (copy_buffer_loop e cmd srcBuf dstBuf rs))
       = fails cmd @ concat (map (region_fails (cmd_gen cmd)) rs)"
    by (simp add: copy_buffer_loop_def copy_buffer_region_log ok i)
qed

lemma vkCmdCopyBuffer_loop:
  "vkCmdCopyBuffer e cmd srcBuf dstBuf rs = fst (copy_buffer_loop e cmd srcBuf dstBuf rs)"
  by (simp add: vkCmdCopyBuffer_def copy_buffer_loop_def)

lemma buf_views_ok_sample: "buf_views_ok sample_env"
  by (simp add: buf_views_ok_def sample_env_def)

text \<open>
  Claim C1, as amended.  The source has no error code of its own for alignment; it
  reports \<open>VK_ERROR_UNKNOWN\<close>.  A fill or an update whose offset and size are not
  both multiples of 4 fails with that code and dispatches nothing; with both
  multiples of 4, and with the buffer views built without error, it reports no
  error and dispatches one draw.  A buffer copy is checked region by region: a
  region with source offset, destination offset and size all multiples of 4 is
  dispatched with the aligned copy shader; any other region is reported with
  \<open>VK_ERROR_UNKNOWN\<close> and skipped on generation 6 only, and on every other
  generation it is dispatched with the unaligned copy shader and reports nothing.
\<close>

theorem buffer_alignment:
  "((destOff OR sz) AND 3 \<noteq> 0 \<longrightarrow>
      vkCmdFillBuffer e cmd dstBuf destOff sz data = cmd_fail cmd VK_ERROR_UNKNOWN \<and>
      vkCmdUpdateBuffer e cmd dstBuf destOff sz pData = cmd_fail cmd VK_ERROR_UNKNOWN) \<and>
   (buf_views_ok e \<and> (destOff OR sz) AND 3 = 0 \<longrightarrow>
      fails (vkCmdFillBuffer e cmd dstBuf destOff sz data) = fails cmd \<and>
      map shader_id (new_draws cmd (vkCmdFillBuffer e cmd dstBuf destOff sz data))
        = [INTEL_DEV_META_VS_FILL_MEM] \<and>
      fails (vkCmdUpdateBuffer e cmd dstBuf destOff sz pData) = fails cmd \<and>
      map shader_id (new_draws cmd (vkCmdUpdateBuffer e cmd dstBuf destOff sz pData))
        = [INTEL_DEV_META_VS_COPY_MEM]) \<and>
   map shader_id (new_draws cmd (vkCmdCopyBuffer e cmd srcBuf dstBuf pRegions))
     = concat (map (region_shaders (cmd_gen cmd)) pRegions) \<and>
   (buf_views_ok e \<longrightarrow>
      fails (vkCmdCopyBuffer e cmd srcBuf dstBuf pRegions)
        = fails cmd @ concat (map (region_fails (cmd_gen cmd)) pRegions)) \<and>
   (\<not> region_aligned r \<and> g = INTEL_GEN 6 \<longrightarrow>
      region_fails g r = [VK_ERROR_UNKNOWN] \<and> region_shaders g r = []) \<and>
   (\<not> region_aligned r \<and> g \<noteq> INTEL_GEN 6 \<longrightarrow>
      region_fails g r = [] \<and> region_shaders g r = [INTEL_DEV_META_VS_COPY_MEM_UNALIGNED]) \<and>
   (region_aligned r \<longrightarrow>
      region_fails g r = [] \<and> region_shaders g r = [INTEL_DEV_META_VS_COPY_MEM])"
proof -
  have a: "(destOff OR sz) AND 3 \<noteq> 0 \<Longrightarrow>
      vkCmdFillBuffer e cmd dstBuf destOff sz data = cmd_fail cmd VK_ERROR_UNKNOWN \<and>
      vkCmdUpdateBuffer e cmd dstBuf destOff sz pData = cmd_fail cmd VK_ERROR_UNKNOWN"
    by (simp add: vkCmdFillBuffer_def vkCmdUpdateBuffer_def)
  have b: "map shader_id (new_draws cmd (vkCmdCopyBuffer e cmd srcBuf dstBuf pRegions))
     = concat (map (region_shaders (cmd_gen cmd)) pRegions)"
    unfolding vkCmdCopyBuffer_loop
    by (rule new_draws_map [OF copy_buffer_loop_log(2)])
  have c: "buf_views_ok e \<Longrightarrow>
      fails (vkCmdCopyBuffer e cmd srcBuf dstBuf pRegions)
        = fails cmd @ concat (map (region_fails (cmd_gen cmd)) pRegions)"
    unfolding vkCmdCopyBuffer_loop
    by (rule copy_buffer_loop_log(3))
  have d: "(\<not> region_aligned r \<and> g = INTEL_GEN 6 \<longrightarrow>
      region_fails g r = [VK_ERROR_UNKNOWN] \<and> region_shaders g r = []) \<and>
   (\<not> region_aligned r \<and> g \<noteq> INTEL_GEN 6 \<longrightarrow>
      region_fails g r = [] \<and> region_shaders g r = [INTEL_DEV_META_VS_COPY_MEM_UNALIGNED]) \<and>
   (region_aligned r \<longrightarrow>
      region_fails g r = [] \<and> region_shaders g r = [INTEL_DEV_META_VS_COPY_MEM])"
    by (simp add: region_fails_def region_shaders_def)
  from a b c d fill_buffer_aligned [of e destOff sz cmd dstBuf data]
    update_buffer_aligned [of e destOff sz cmd dstBuf pData]
  show ?thesis by blast
qed

text \<open>
  The claim as stated fails on generation 7: a one-region copy from offset 1 is not
  dword-aligned, and it records no error and dispatches one draw with the
  unaligned copy shader.
\<close>

theorem unaligned_copy_counterexample:
  "\<not> region_aligned (sample_region 1 0 4) \<and>
   fails (vkCmdCopyBuffer sample_env (sample_cmd 7) sample_buf sample_buf [sample_region 1 0 4]) = [] \<and>
   cmd_result (vkCmdCopyBuffer sample_env (sample_cmd 7) sample_buf sample_buf [sample_region 1 0 4])
     = VK_SUCCESS \<and>
   map shader_id (new_draws (sample_cmd 7)
      (vkCmdCopyBuffer sample_env (sample_cmd 7) sample_buf sample_buf [sample_region 1 0 4]))
     = [INTEL_DEV_META_VS_COPY_MEM_UNALIGNED]"
proof -
  have u: "\<not> region_aligned (sample_region 1 0 4)"
    by (simp add: region_aligned_def sample_region_def cmd_meta_mem_dword_aligned_def)
  have g: "cmd_gen (sample_cmd 7) \<noteq> INTEL_GEN 6" "fails (sample_cmd 7) = []"
    by (simp_all add: sample_cmd_def INTEL_GEN_def)
  have f: "fails (vkCmdCopyBuffer sample_env (sample_cmd 7) sample_buf sample_buf [sample_region 1 0 4]) = []"
    unfolding vkCmdCopyBuffer_loop
    using u g by (simp add: copy_buffer_loop_log(3) [OF buf_views_ok_sample] region_fails_def)
  have s: "map shader_id (new_draws (sample_cmd 7)
      (vkCmdCopyBuffer sample_env (sample_cmd 7) sample_buf sample_buf [sample_region 1 0 4]))
     = [INTEL_DEV_META_VS_COPY_MEM_UNALIGNED]"
    unfolding vkCmdCopyBuffer_loop
    using u g by (simp add: new_draws_map [OF copy_buffer_loop_log(2)] region_shaders_def)
  from u f s show ?thesis by (simp add: cmd_result_def)
qed

theorem buffer_alignment_witness:
  "vkCmdFillBuffer sample_env (sample_cmd 6) sample_buf 2 8 0 = cmd_fail (sample_cmd 6) VK_ERROR_UNKNOWN \<and>
   vkCmdUpdateBuffer sample_env (sample_cmd 6) sample_buf 8 6 [] = cmd_fail (sample_cmd 6) VK_ERROR_UNKNOWN \<and>
   fails (vkCmdFillBuffer sample_env (sample_cmd 6) sample_buf 8 16 0) = [] \<and>
   map shader_id (new_draws (sample_cmd 6) (vkCmdFillBuffer sample_env (sample_cmd 6) sample_buf 8 16 0))
     = [INTEL_DEV_META_VS_FILL_MEM] \<and>
   map shader_id (new_draws (sample_cmd 6)
      (vkCmdCopyBuffer sample_env (sample_cmd 6) sample_buf sample_buf
         [sample_region 0 16 8, sample_region 1 0 4]))
     = [INTEL_DEV_META_VS_COPY_MEM] \<and>
   fails (vkCmdCopyBuffer sample_env (sample_cmd 6) sample_buf sample_buf
         [sample_region 0 16 8, sample_region 1 0 4])
     = [VK_ERROR_UNKNOWN]"
proof -
  have u: "\<not> region_aligned (sample_region 1 0 4)" "region_aligned (sample_region 0 16 8)"
    by (simp_all add: region_aligned_def sample_region_def cmd_meta_mem_dword_aligned_def)
  have g: "cmd_gen (sample_cmd 6) = INTEL_GEN 6" "fails (sample_cmd 6) = []"
    by (simp_all add: sample_cmd_def)
  have h: "((2::VkDeviceSize) OR 8) AND 3 \<noteq> 0" "((8::VkDeviceSize) OR 6) AND 3 \<noteq> 0"
    "((8::VkDeviceSize) OR 16) AND 3 = 0"
    by simp_all
  note t1 = buffer_alignment [where destOff = 2 and sz = 8 and e = sample_env and cmd = "sample_cmd 6"
      and dstBuf = sample_buf and data = 0 and pData = "[]"]
  note t2 = buffer_alignment [where destOff = 8 and sz = 6 and e = sample_env and cmd = "sample_cmd 6"
      and dstBuf = sample_buf and data = 0 and pData = "[]"]
  note t3 = buffer_alignment [where destOff = 8 and sz = 16 and e = sample_env and cmd = "sample_cmd 6"
      and dstBuf = sample_buf and srcBuf = sample_buf and data = 0 and pData = "[]"
      and pRegions = "[sample_region 0 16 8, sample_region 1 0 4]"
      and r = "sample_region 1 0 4" and g = "INTEL_GEN 6"]
  note t4 = buffer_alignment [where r = "sample_region 0 16 8" and g = "INTEL_GEN 6"]
  from t1 h(1) have a: "vkCmdFillBuffer sample_env (sample_cmd 6) sample_buf 2 8 0
      = cmd_fail (sample_cmd 6) VK_ERROR_UNKNOWN"
    by blast
  from t2 h(2) have b: "vkCmdUpdateBuffer sample_env (sample_cmd 6) sample_buf 8 6 []
      = cmd_fail (sample_cmd 6) VK_ERROR_UNKNOWN"
    by blast
  from t3 h(3) buf_views_ok_sample g
  have c: "fails (vkCmdFillBuffer sample_env (sample_cmd 6) sample_buf 8 16 0) = []"
    and d: "map shader_id (new_draws (sample_cmd 6) (vkCmdFillBuffer sample_env (sample_cmd 6) sample_buf 8 16 0))
     = [INTEL_DEV_META_VS_FILL_MEM]"
    by simp_all
  from t3 t4 u g buf_views_ok_sample
  have e: "map shader_id (new_draws (sample_cmd 6)
      (vkCmdCopyBuffer sample_env (sample_cmd 6) sample_buf sample_buf
         [sample_region 0 16 8, sample_region 1 0 4]))
     = [INTEL_DEV_META_VS_COPY_MEM]"
    and f: "fails (vkCmdCopyBuffer sample_env (sample_cmd 6) sample_buf sample_buf
         [sample_region 0 16 8, sample_region 1 0 4])
     = [VK_ERROR_UNKNOWN]"
    by simp_all
  from a b c d e f show ?thesis by simp
qed

section \<open>Buffer copy: best-effort region loop\<close>

lemma copy_buffer_bind_draw_geometry:
  "map draw_geometry (draws (fst (copy_buffer_bind_draw e srcBuf dstBuf cmd meta format fmt)))
     = map draw_geometry (draws cmd) @ [draw_geometry meta]"
  by (simp add: copy_buffer_bind_draw_def case_prod_unfold cmd_draw_meta_def draw_geometry_def)

lemma copy_buffer_region_geometry:
  "map draw_geometry (draws (fst (copy_buffer_region e srcBuf dstBuf s r)))
     = map draw_geometry (draws (fst s)) @ region_geometry (cmd_gen (fst s)) r"
  by (simp add: copy_buffer_region_def case_prod_unfold Let_def copy_buffer_bind_draw_geometry
        region_geometry_def region_aligned_def cmd_fail_def draw_geometry_def)

lemma copy_buffer_loop_geometry:
  "map draw_geometry (draws (fst (copy_buffer_loop e cmd srcBuf dstBuf rs)))
     = map draw_geometry (draws cmd) @ concat (map (region_geometry (cmd_gen cmd)) rs)"
proof -
  have i: "fst (copy_buffer_init cmd) = cmd"
    by (simp add: copy_buffer_init_def)
  from foldl_log [where f = "copy_buffer_region e srcBuf dstBuf"
      and I = "\<lambda>s. cmd_gen (fst s) = cmd_gen cmd"
      and lg = "\<lambda>s. map draw_geometry (draws (fst s))" and h = "region_geometry (cmd_gen cmd)"
      and s = "copy_buffer_init cmd" and xs = rs]
  show ?thesis
    by (simp add: copy_buffer_loop_def copy_buffer_region_log copy_buffer_region_geometry i)
qed

lemma set_for_buf_meta_only:
  "snd (cmd_meta_set_src_for_buf e cmd buf format meta) = snd (cmd_meta_set_src_for_buf e cmd' buf format meta)"
  "snd (cmd_meta_set_dst_for_buf e cmd buf format meta) = snd (cmd_meta_set_dst_for_buf e cmd' buf format meta)"
  by (simp_all add: cmd_meta_set_src_for_buf_def cmd_meta_set_dst_for_buf_def case_prod_unfold)

lemma bind_draw_carry:
  assumes "cmd_gen cmd = cmd_gen cmd'" and "draws cmd = draws cmd'"
  shows "copy_state_carry (copy_buffer_bind_draw e srcBuf dstBuf cmd meta format fmt)
       = copy_state_carry (copy_buffer_bind_draw e srcBuf dstBuf cmd' meta format fmt)"
  using assms
    set_for_buf_meta_only(1) [of e cmd srcBuf fmt meta cmd']
    set_for_buf_meta_only(2) [of e "fst (cmd_meta_set_src_for_buf e cmd srcBuf fmt meta)" dstBuf fmt
      "snd (cmd_meta_set_src_for_buf e cmd' srcBuf fmt meta)"
      "fst (cmd_meta_set_src_for_buf e cmd' srcBuf fmt meta)"]
  by (simp add: copy_state_carry_def copy_buffer_bind_draw_def case_prod_unfold cmd_draw_meta_def)

lemma meta_carry_region:
  assumes "meta_carry m = meta_carry m'"
  shows "m\<lparr>src := (src m)\<lparr>xpos := a\<rparr>, dst := (dst m)\<lparr>xpos := b\<rparr>, width := w, shader_id := sh\<rparr>
       = m'\<lparr>src := (src m')\<lparr>xpos := a\<rparr>, dst := (dst m')\<lparr>xpos := b\<rparr>, width := w, shader_id := sh\<rparr>"
    and "m\<lparr>shader_id := sh, src := (src m)\<lparr>xpos := a\<rparr>, dst := (dst m)\<lparr>xpos := b\<rparr>, width := w\<rparr>
       = m'\<lparr>shader_id := sh, src := (src m')\<lparr>xpos := a\<rparr>, dst := (dst m')\<lparr>xpos := b\<rparr>, width := w\<rparr>"
proof -
  have "(meta_carry m)\<lparr>src := (src (meta_carry m))\<lparr>xpos := a\<rparr>,
          dst := (dst (meta_carry m))\<lparr>xpos := b\<rparr>, width := w, shader_id := sh\<rparr>
      = (meta_carry m')\<lparr>src := (src (meta_carry m'))\<lparr>xpos := a\<rparr>,
          dst := (dst (meta_carry m'))\<lparr>xpos := b\<rparr>, width := w, shader_id := sh\<rparr>"
    using assms by simp
  then show "m\<lparr>src := (src m)\<lparr>xpos := a\<rparr>, dst := (dst m)\<lparr>xpos := b\<rparr>, width := w, shader_id := sh\<rparr>
       = m'\<lparr>src := (src m')\<lparr>xpos := a\<rparr>, dst := (dst m')\<lparr>xpos := b\<rparr>, width := w, shader_id := sh\<rparr>"
    by (simp add: meta_carry_def)
  have "(meta_carry m)\<lparr>shader_id := sh, src := (src (meta_carry m))\<lparr>xpos := a\<rparr>,
          dst := (dst (meta_carry m))\<lparr>xpos := b\<rparr>, width := w\<rparr>
      = (meta_carry m')\<lparr>shader_id := sh, src := (src (meta_carry m'))\<lparr>xpos := a\<rparr>,
          dst := (dst (meta_carry m'))\<lparr>xpos := b\<rparr>, width := w\<rparr>"
    using assms by simp
  then show "m\<lparr>shader_id := sh, src := (src m)\<lparr>xpos := a\<rparr>, dst := (dst m)\<lparr>xpos := b\<rparr>, width := w\<rparr>
       = m'\<lparr>shader_id := sh, src := (src m')\<lparr>xpos := a\<rparr>, dst := (dst m')\<lparr>xpos := b\<rparr>, width := w\<rparr>"
    by (simp add: meta_carry_def)
qed

lemma meta_carry_skip:
  "meta_carry (m\<lparr>src := (src m)\<lparr>xpos := a\<rparr>, dst := (dst m)\<lparr>xpos := b\<rparr>, width := w\<rparr>) = meta_carry m"
  by (simp add: meta_carry_def)

lemma copy_buffer_region_carry:
  assumes "copy_state_carry s = copy_state_carry s'"
  shows "copy_state_carry (copy_buffer_region e srcBuf dstBuf s r)
       = copy_state_carry (copy_buffer_region e srcBuf dstBuf s' r)"
proof -
  obtain c m f where s: "s = (c, m, f)" by (cases s)
  obtain c' m' f' where s': "s' = (c', m', f')" by (cases s')
  from assms s s' have g: "cmd_gen c = cmd_gen c'" and d: "draws c = draws c'"
    and mc: "meta_carry m = meta_carry m'" and f: "f = f'"
    by (simp_all add: copy_state_carry_def)
  show ?thesis
  proof (cases "cmd_meta_mem_dword_aligned (srcOffset r) (destOffset r) (copySize r)")
    case True
    with meta_carry_region [OF mc, where a = "ucast (srcOffset r) div 4"
        and b = "ucast (destOffset r) div 4" and w = "ucast (copySize r) div 4"
        and sh = INTEL_DEV_META_VS_COPY_MEM]
      bind_draw_carry [OF g d]
    show ?thesis
      by (simp add: s s' f copy_buffer_region_def Let_def)
  next
    case False
    show ?thesis
    proof (cases "cmd_gen c = INTEL_GEN 6")
      case True
      with False g d mc show ?thesis
        by (simp add: s s' f copy_buffer_region_def Let_def copy_state_carry_def cmd_fail_def
              meta_carry_skip)
    next
      case ng: False
      with False g meta_carry_region [OF mc, where a = "ucast (srcOffset r)"
          and b = "ucast (destOffset r)" and w = "ucast (copySize r)"
          and sh = INTEL_DEV_META_VS_COPY_MEM_UNALIGNED]
        bind_draw_carry [OF g d]
      show ?thesis
        by (simp add: s s' f copy_buffer_region_def Let_def)
    qed
  qed
qed

lemma copy_buffer_fold_carry:
  "copy_state_carry s = copy_state_carry s' \<Longrightarrow>
   copy_state_carry (foldl (copy_buffer_region e srcBuf dstBuf) s rs)
     = copy_state_carry (foldl (copy_buffer_region e srcBuf dstBuf) s' rs)"
proof (induction rs arbitrary: s s')
  case Nil
  then show ?case by simp
next
  case (Cons r rs)
  from copy_buffer_region_carry [OF Cons.prems]
  have "copy_state_carry (copy_buffer_region e srcBuf dstBuf s r)
      = copy_state_carry (copy_buffer_region e srcBuf dstBuf s' r)" .
  from Cons.IH [OF this] show ?case by simp
qed

lemma copy_buffer_region_skip:
  assumes "cmd_gen (fst s) = INTEL_GEN 6" and "\<not> region_aligned r"
  shows "copy_state_carry (copy_buffer_region e srcBuf dstBuf s r) = copy_state_carry s"
    and "fails (fst (copy_buffer_region e srcBuf dstBuf s r)) = fails (fst s) @ [VK_ERROR_UNKNOWN]"
  using assms
  by (simp_all add: copy_buffer_region_def case_prod_unfold Let_def region_aligned_def
        copy_state_carry_def cmd_fail_def meta_carry_skip)

lemma copy_buffer_loop_append:
  "copy_buffer_loop e cmd srcBuf dstBuf (pre @ post)
     = foldl (copy_buffer_region e srcBuf dstBuf) (copy_buffer_loop e cmd srcBuf dstBuf pre) post"
  by (simp add: copy_buffer_loop_def)

lemma copy_buffer_skip_draws:
  assumes "cmd_gen cmd = INTEL_GEN 6" and "\<not> region_aligned r"
  shows "draws (fst (copy_buffer_loop e cmd srcBuf dstBuf (pre @ r # post)))
       = draws (fst (copy_buffer_loop e cmd srcBuf dstBuf (pre @ post)))"
proof -
  let ?s = "copy_buffer_loop e cmd srcBuf dstBuf pre"
  have "cmd_gen (fst ?s) = INTEL_GEN 6"
    using assms(1) by (simp add: copy_buffer_loop_log)
  from copy_buffer_region_skip(1) [OF this assms(2)]
  have "copy_state_carry (copy_buffer_region e srcBuf dstBuf ?s r) = copy_state_carry ?s" .
  from copy_buffer_fold_carry [OF this]
  have "copy_state_carry (foldl (copy_buffer_region e srcBuf dstBuf)
            (copy_buffer_region e srcBuf dstBuf ?s r) post)
      = copy_state_carry (foldl (copy_buffer_region e srcBuf dstBuf) ?s post)" .
  then show ?thesis
    by (simp add: copy_buffer_loop_append copy_state_carry_def)
qed

lemma copy_buffer_region_fails_grow:
  "\<exists>xs. fails (fst (copy_buffer_region e srcBuf dstBuf s r)) = fails (fst s) @ xs"
  by (simp add: copy_buffer_region_def copy_buffer_bind_draw_def cmd_meta_set_src_for_buf_def
        cmd_meta_set_dst_for_buf_def case_prod_unfold Let_def cmd_fail_def cmd_draw_meta_def
        view_built_def)

lemma copy_buffer_fold_fails_grow:
  "\<exists>xs. fails (fst (foldl (copy_buffer_region e srcBuf dstBuf) s rs)) = fails (fst s) @ xs"
proof (induction rs arbitrary: s)
  case Nil
  then show ?case by simp
next
  case (Cons r rs)
  from copy_buffer_region_fails_grow [of e srcBuf dstBuf s r] obtain xs where
    x: "fails (fst (copy_buffer_region e srcBuf dstBuf s r)) = fails (fst s) @ xs" ..
  from Cons.IH [of "copy_buffer_region e srcBuf dstBuf s r"] obtain ys where
    "fails (fst (foldl (copy_buffer_region e srcBuf dstBuf) (copy_buffer_region e srcBuf dstBuf s r) rs))
       = fails (fst (copy_buffer_region e srcBuf dstBuf s r)) @ ys" ..
  with x show ?case by simp
qed

lemma copy_buffer_first_error:
  assumes "fails (fst (copy_buffer_loop e cmd srcBuf dstBuf (pre @ [r]))) \<noteq> []"
  shows "cmd_result (fst (copy_buffer_loop e cmd srcBuf dstBuf (pre @ r # post)))
       = cmd_result (fst (copy_buffer_loop e cmd srcBuf dstBuf (pre @ [r])))"
proof -
  have "pre @ r # post = (pre @ [r]) @ post" by simp
  then have "copy_buffer_loop e cmd srcBuf dstBuf (pre @ r # post)
      = foldl (copy_buffer_region e srcBuf dstBuf)
          (copy_buffer_loop e cmd srcBuf dstBuf (pre @ [r])) post"
    by (simp only: copy_buffer_loop_append)
  with copy_buffer_fold_fails_grow [of e srcBuf dstBuf "copy_buffer_loop e cmd srcBuf dstBuf (pre @ [r])" post]
  obtain xs where "fails (fst (copy_buffer_loop e cmd srcBuf dstBuf (pre @ r # post)))
      = fails (fst (copy_buffer_loop e cmd srcBuf dstBuf (pre @ [r]))) @ xs"
    by auto
  with assms show ?thesis
    by (cases "fails (fst (copy_buffer_loop e cmd srcBuf dstBuf (pre @ [r])))")
      (simp_all add: cmd_result_def)
qed

lemma copy_buffer_region_step:
  "fails (fst (copy_buffer_region e srcBuf dstBuf (c, m, f) r))
     = fails c @ region_reports e srcBuf dstBuf (cmd_gen c) f r"
  "draws (fst (copy_buffer_region e srcBuf dstBuf (c, m, f) r))
     = draws c @ region_draws e srcBuf dstBuf (cmd_gen c) f m r"
  "snd (snd (copy_buffer_region e srcBuf dstBuf (c, m, f) r))
     = (case region_format (cmd_gen c) r of None \<Rightarrow> f | Some fmt \<Rightarrow> fmt)"
  "meta_carry (fst (snd (copy_buffer_region e srcBuf dstBuf (c, m, f) r)))
     = (if region_draws e srcBuf dstBuf (cmd_gen c) f m r = [] then meta_carry m
        else meta_carry (last (region_draws e srcBuf dstBuf (cmd_gen c) f m r)))"
  by (simp_all add: copy_buffer_region_def copy_buffer_bind_draw_def cmd_meta_set_src_for_buf_def
        cmd_meta_set_dst_for_buf_def case_prod_unfold Let_def cmd_fail_def view_built_def
        cmd_draw_meta_def region_reports_def region_draws_def region_format_def region_draw_def
        bound_surface_def bind_reports_def region_aligned_def meta_carry_def)

lemma region_draw_carry:
  assumes "meta_carry m = meta_carry m'"
  shows "region_draw r m = region_draw r m'"
  using meta_carry_region(2) [OF assms] by (simp add: region_draw_def)

lemma region_draws_carry:
  assumes "meta_carry m = meta_carry m'"
  shows "region_draws e srcBuf dstBuf g f m r = region_draws e srcBuf dstBuf g f m' r"
  by (simp only: region_draws_def region_draw_carry [OF assms, of r])

lemma copy_buffer_loop_snoc:
  "copy_buffer_loop e cmd srcBuf dstBuf (pre @ [r])
     = copy_buffer_region e srcBuf dstBuf (copy_buffer_loop e cmd srcBuf dstBuf pre) r"
  by (simp add: copy_buffer_loop_def)

lemma copy_format_snoc:
  "copy_format g (pre @ [r]) = (case region_format g r of None \<Rightarrow> copy_format g pre | Some fmt \<Rightarrow> fmt)"
  by (simp add: copy_format_def split: option.splits)

lemma copy_buffer_loop_state:
  "snd (snd (copy_buffer_loop e cmd srcBuf dstBuf pre)) = copy_format (cmd_gen cmd) pre \<and>
   (\<exists>xs. draws (fst (copy_buffer_loop e cmd srcBuf dstBuf pre)) = draws cmd @ xs) \<and>
   meta_carry (fst (snd (copy_buffer_loop e cmd srcBuf dstBuf pre)))
     = meta_carry (carried cmd (fst (copy_buffer_loop e cmd srcBuf dstBuf pre)))"
proof (induction pre rule: rev_induct)
  case Nil
  show ?case
    by (simp add: copy_buffer_loop_def copy_format_def carried_def new_draws_def copy_buffer_init_def)
next
  case (snoc r pre)
  let ?s = "copy_buffer_loop e cmd srcBuf dstBuf pre"
  obtain c m f where s: "?s = (c, m, f)" by (cases ?s)
  from snoc s obtain xs where f: "f = copy_format (cmd_gen cmd) pre"
    and d: "draws c = draws cmd @ xs" and mc: "meta_carry m = meta_carry (carried cmd c)"
    by auto
  have g: "cmd_gen c = cmd_gen cmd"
    using copy_buffer_loop_log(1) [of e cmd srcBuf dstBuf pre] s by simp
  let ?ds = "region_draws e srcBuf dstBuf (cmd_gen cmd) f m r"
  let ?s' = "copy_buffer_region e srcBuf dstBuf (c, m, f) r"
  have d': "draws (fst ?s') = draws cmd @ xs @ ?ds"
    by (simp add: copy_buffer_region_step(2) g d)
  have n: "new_draws cmd c = xs" "new_draws cmd (fst ?s') = xs @ ?ds"
    by (simp_all add: new_draws_def d d')
  have "meta_carry (fst (snd ?s')) = meta_carry (carried cmd (fst ?s'))"
  proof (cases "?ds = []")
    case True
    with mc n show ?thesis
      by (simp add: copy_buffer_region_step(4) g carried_def)
  next
    case False
    with n show ?thesis
      by (simp add: copy_buffer_region_step(4) g carried_def)
  qed
  with d' f show ?case
    by (simp add: copy_buffer_loop_snoc s copy_format_snoc copy_buffer_region_step(3) g)
qed

lemma copy_buffer_append_region:
  "fails (vkCmdCopyBuffer e cmd srcBuf dstBuf (pre @ [r]))
     = fails (vkCmdCopyBuffer e cmd srcBuf dstBuf pre)
       @ region_reports e srcBuf dstBuf (cmd_gen cmd) (copy_format (cmd_gen cmd) pre) r"
  "draws (vkCmdCopyBuffer e cmd srcBuf dstBuf (pre @ [r]))
     = draws (vkCmdCopyBuffer e cmd srcBuf dstBuf pre)
       @ region_draws e srcBuf dstBuf (cmd_gen cmd) (copy_format (cmd_gen cmd) pre)
           (carried cmd (vkCmdCopyBuffer e cmd srcBuf dstBuf pre)) r"
proof -
  let ?s = "copy_buffer_loop e cmd srcBuf dstBuf pre"
  obtain c m f where s: "?s = (c, m, f)" by (cases ?s)
  from copy_buffer_loop_state [of e cmd srcBuf dstBuf pre] s
  have f: "f = copy_format (cmd_gen cmd) pre" and mc: "meta_carry m = meta_carry (carried cmd c)"
    by simp_all
  have g: "cmd_gen c = cmd_gen cmd"
    using copy_buffer_loop_log(1) [of e cmd srcBuf dstBuf pre] s by simp
  show "fails (vkCmdCopyBuffer e cmd srcBuf dstBuf (pre @ [r]))
     = fails (vkCmdCopyBuffer e cmd srcBuf dstBuf pre)
       @ region_reports e srcBuf dstBuf (cmd_gen cmd) (copy_format (cmd_gen cmd) pre) r"
    by (simp add: vkCmdCopyBuffer_loop copy_buffer_loop_snoc s copy_buffer_region_step(1) g f)
  show "draws (vkCmdCopyBuffer e cmd srcBuf dstBuf (pre @ [r]))
     = draws (vkCmdCopyBuffer e cmd srcBuf dstBuf pre)
       @ region_draws e srcBuf dstBuf (cmd_gen cmd) (copy_format (cmd_gen cmd) pre)
           (carried cmd (vkCmdCopyBuffer e cmd srcBuf dstBuf pre)) r"
    using region_draws_carry [OF mc]
    by (simp add: vkCmdCopyBuffer_loop copy_buffer_loop_snoc s copy_buffer_region_step(2) g f)
qed

lemma copy_buffer_reports_prefix:
  "take (length (fails (vkCmdCopyBuffer e cmd srcBuf dstBuf (pre @ [r]))))
        (fails (vkCmdCopyBuffer e cmd srcBuf dstBuf (pre @ r # post)))
     = fails (vkCmdCopyBuffer e cmd srcBuf dstBuf (pre @ [r]))"
proof -
  have "pre @ r # post = (pre @ [r]) @ post" by simp
  then have "copy_buffer_loop e cmd srcBuf dstBuf (pre @ r # post)
      = foldl (copy_buffer_region e srcBuf dstBuf)
          (copy_buffer_loop e cmd srcBuf dstBuf (pre @ [r])) post"
    by (simp only: copy_buffer_loop_append)
  with copy_buffer_fold_fails_grow [of e srcBuf dstBuf "copy_buffer_loop e cmd srcBuf dstBuf (pre @ [r])" post]
  obtain xs where "fails (fst (copy_buffer_loop e cmd srcBuf dstBuf (pre @ r # post)))
      = fails (fst (copy_buffer_loop e cmd srcBuf dstBuf (pre @ [r]))) @ xs"
    by auto
  then show ?thesis by (simp add: vkCmdCopyBuffer_loop)
qed

lemma sample_buf_views:
  "cmd_meta_create_buf_view src_fails_env (Some sample_buf) (buf_size sample_buf) fmt
     = (VK_ERROR_OTHER 1, \<lparr>view_cmd = [], view_cmd_len = 0\<rparr>)"
  "cmd_meta_create_buf_view src_fails_env (Some sample_dst_buf) (buf_size sample_dst_buf) fmt
     = (VK_SUCCESS, \<lparr>view_cmd = [1, 2, 3, 4, 5, 6], view_cmd_len = 6\<rparr>)"
  "cmd_meta_create_buf_view sample_env (Some buf) (buf_size buf) fmt
     = (VK_SUCCESS, \<lparr>view_cmd = [1, 2, 3, 4, 5, 6], view_cmd_len = 6\<rparr>)"
  by (simp_all add: cmd_meta_create_buf_view_def src_fails_env_def sample_env_def Let_def
        sample_buf_def sample_dst_buf_def)

lemma replicate_eight: "replicate 8 v = [v, v, v, v, v, v, v, v]"
  by (simp add: eval_nat_numeral)

lemma sample_buf_bo: "buf_bo sample_buf = 3" "buf_bo sample_dst_buf = 4"
  by (simp_all add: sample_buf_def sample_dst_buf_def)

lemma sample_regions_aligned:
  "region_aligned (sample_region 0 16 8)" "region_aligned (sample_region 32 64 12)"
  "\<not> region_aligned (sample_region 1 0 4)"
  by (simp_all add: region_aligned_def sample_region_def cmd_meta_mem_dword_aligned_def)

lemma sample_copy_failed_binding:
  "vkCmdCopyBuffer src_fails_env (sample_cmd 7) sample_buf sample_dst_buf
      [sample_region 0 16 8, sample_region 32 64 12]
   = (sample_cmd 7)
       \<lparr>fails := [VK_ERROR_OTHER 1],
        draws :=
          [meta_zero\<lparr>mode := INTEL_CMD_META_VS_POINTS, height := 1, samples := 1,
             shader_id := INTEL_DEV_META_VS_COPY_MEM, width := 2,
             src := surface_zero\<lparr>xpos := 0\<rparr>,
             dst := \<lparr>valid = True, surface = [1, 2, 3, 4, 5, 6, 0, 0], surface_len = 6,
                     reloc_target = RELOC_BO 4, reloc_offset = 0, reloc_flags = [INTEL_RELOC_WRITE],
                     lod = 0, layer = 0, xpos = 4, ypos = 0\<rparr>\<rparr>,
           meta_zero\<lparr>mode := INTEL_CMD_META_VS_POINTS, height := 1, samples := 1,
             shader_id := INTEL_DEV_META_VS_COPY_MEM, width := 3,
             src := surface_zero\<lparr>xpos := 8\<rparr>,
             dst := \<lparr>valid = True, surface = [1, 2, 3, 4, 5, 6, 0, 0], surface_len = 6,
                     reloc_target = RELOC_BO 4, reloc_offset = 0, reloc_flags = [INTEL_RELOC_WRITE],
                     lod = 0, layer = 0, xpos = 16, ypos = 0\<rparr>\<rparr>],
        views_built := 2\<rparr>"
  using sample_regions_aligned
  by (simp add: vkCmdCopyBuffer_def copy_buffer_init_def copy_buffer_region_def
        copy_buffer_bind_draw_def cmd_meta_set_src_for_buf_def cmd_meta_set_dst_for_buf_def
        sample_buf_views region_aligned_def Let_def cmd_fail_def view_built_def cmd_draw_meta_def
        sample_cmd_def meta_zero_def surface_zero_def memcpy_words_def sample_region_def
        sample_buf_bo replicate_two)

lemma sample_copy_baseline:
  "vkCmdCopyBuffer sample_env (sample_cmd 7) sample_buf sample_dst_buf
      [sample_region 0 16 8, sample_region 32 64 12]
   = (sample_cmd 7)
       \<lparr>draws :=
          [meta_zero\<lparr>mode := INTEL_CMD_META_VS_POINTS, height := 1, samples := 1,
             shader_id := INTEL_DEV_META_VS_COPY_MEM, width := 2,
             src := \<lparr>valid = True, surface = [1, 2, 3, 4, 5, 6, 0, 0], surface_len = 6,
                     reloc_target = RELOC_BO 3, reloc_offset = 0, reloc_flags = [],
                     lod = 0, layer = 0, xpos = 0, ypos = 0\<rparr>,
             dst := \<lparr>valid = True, surface = [1, 2, 3, 4, 5, 6, 0, 0], surface_len = 6,
                     reloc_target = RELOC_BO 4, reloc_offset = 0, reloc_flags = [INTEL_RELOC_WRITE],
                     lod = 0, layer = 0, xpos = 4, ypos = 0\<rparr>\<rparr>,
           meta_zero\<lparr>mode := INTEL_CMD_META_VS_POINTS, height := 1, samples := 1,
             shader_id := INTEL_DEV_META_VS_COPY_MEM, width := 3,
             src := \<lparr>valid = True, surface = [1, 2, 3, 4, 5, 6, 0, 0], surface_len = 6,
                     reloc_target = RELOC_BO 3, reloc_offset = 0, reloc_flags = [],
                     lod = 0, layer = 0, xpos = 8, ypos = 0\<rparr>,
             dst := \<lparr>valid = True, surface = [1, 2, 3, 4, 5, 6, 0, 0], surface_len = 6,
                     reloc_target = RELOC_BO 4, reloc_offset = 0, reloc_flags = [INTEL_RELOC_WRITE],
                     lod = 0, layer = 0, xpos = 16, ypos = 0\<rparr>\<rparr>],
        views_built := 2\<rparr>"
  using sample_regions_aligned
  by (simp add: vkCmdCopyBuffer_def copy_buffer_init_def copy_buffer_region_def
        copy_buffer_bind_draw_def cmd_meta_set_src_for_buf_def cmd_meta_set_dst_for_buf_def
        sample_buf_views region_aligned_def Let_def cmd_fail_def view_built_def cmd_draw_meta_def
        sample_cmd_def meta_zero_def surface_zero_def memcpy_words_def sample_region_def
        sample_buf_bo replicate_two)

text \<open>
  Claim C2, as amended.  In a buffer copy, a region that fails does not stop the loop.
  Each region appends its own reports to the error log: \<open>VK_ERROR_UNKNOWN\<close> for an
  unaligned region on generation 6, the codes of the view constructors that failed for
  a region that rebuilds the bindings, nothing otherwise.  Each region that is not
  skipped dispatches one draw, and whatever the view constructors return the draws of a
  call have the shaders and the coordinates of its regions, so the regions after a
  failed one are dispatched with the shader and the coordinates they have in a call
  where it did not fail.  The bindings are rebuilt only when the format changes: a
  region that needs the format of the bindings dispatches the previous draw with its
  own shader and coordinates, also when the attempt to build those bindings failed, and
  a constructor that fails leaves its surface as it was.  So after a failed binding the
  draws of the later regions are not those of a call where it succeeded.  For an
  unaligned region on generation 6 the draws of the whole call are exactly those of the
  call without that region.  The reports of the regions after a region follow its own
  in the log; with the sink keeping the first code, the context carries at the end of
  the call the code it carried right after the first region that failed, the first
  code that region reported.
\<close>

theorem copy_buffer_best_effort:
  "fails (vkCmdCopyBuffer e cmd srcBuf dstBuf (pre @ [r]))
     = fails (vkCmdCopyBuffer e cmd srcBuf dstBuf pre)
       @ region_reports e srcBuf dstBuf (cmd_gen cmd) (copy_format (cmd_gen cmd) pre) r \<and>
   draws (vkCmdCopyBuffer e cmd srcBuf dstBuf (pre @ [r]))
     = draws (vkCmdCopyBuffer e cmd srcBuf dstBuf pre)
       @ region_draws e srcBuf dstBuf (cmd_gen cmd) (copy_format (cmd_gen cmd) pre)
           (carried cmd (vkCmdCopyBuffer e cmd srcBuf dstBuf pre)) r \<and>
   map draw_geometry (new_draws cmd (vkCmdCopyBuffer e cmd srcBuf dstBuf rs))
     = concat (map (region_geometry (cmd_gen cmd)) rs) \<and>
   take (length (fails (vkCmdCopyBuffer e cmd srcBuf dstBuf (pre @ [r]))))
        (fails (vkCmdCopyBuffer e cmd srcBuf dstBuf (pre @ r # post)))
     = fails (vkCmdCopyBuffer e cmd srcBuf dstBuf (pre @ [r])) \<and>
   (fails (vkCmdCopyBuffer e cmd srcBuf dstBuf (pre @ [r])) \<noteq> [] \<longrightarrow>
      cmd_result (vkCmdCopyBuffer e cmd srcBuf dstBuf (pre @ r # post))
        = cmd_result (vkCmdCopyBuffer e cmd srcBuf dstBuf (pre @ [r]))) \<and>
   (fails (vkCmdCopyBuffer e cmd srcBuf dstBuf pre) = [] \<and>
    region_reports e srcBuf dstBuf (cmd_gen cmd) (copy_format (cmd_gen cmd) pre) r \<noteq> [] \<longrightarrow>
      cmd_result (vkCmdCopyBuffer e cmd srcBuf dstBuf (pre @ r # post))
        = hd (region_reports e srcBuf dstBuf (cmd_gen cmd) (copy_format (cmd_gen cmd) pre) r)) \<and>
   (cmd_gen cmd = INTEL_GEN 6 \<and> \<not> region_aligned r \<longrightarrow>
      fails (vkCmdCopyBuffer e cmd srcBuf dstBuf (pre @ [r]))
        = fails (vkCmdCopyBuffer e cmd srcBuf dstBuf pre) @ [VK_ERROR_UNKNOWN] \<and>
      draws (vkCmdCopyBuffer e cmd srcBuf dstBuf (pre @ r # post))
        = draws (vkCmdCopyBuffer e cmd srcBuf dstBuf (pre @ post)) \<and>
      (fails (vkCmdCopyBuffer e cmd srcBuf dstBuf pre) = [] \<longrightarrow>
         cmd_result (vkCmdCopyBuffer e cmd srcBuf dstBuf (pre @ r # post)) = VK_ERROR_UNKNOWN))"
proof -
  let ?reports = "region_reports e srcBuf dstBuf (cmd_gen cmd) (copy_format (cmd_gen cmd) pre) r"
  note p = copy_buffer_append_region(1) [of e cmd srcBuf dstBuf pre r]
  note q = copy_buffer_append_region(2) [of e cmd srcBuf dstBuf pre r]
  have a: "map draw_geometry (new_draws cmd (vkCmdCopyBuffer e cmd srcBuf dstBuf rs))
     = concat (map (region_geometry (cmd_gen cmd)) rs)"
    unfolding vkCmdCopyBuffer_loop
    by (rule new_draws_map [OF copy_buffer_loop_geometry])
  note t = copy_buffer_reports_prefix [of e cmd srcBuf dstBuf pre r post]
  have b: "cmd_result (vkCmdCopyBuffer e cmd srcBuf dstBuf (pre @ r # post))
        = cmd_result (vkCmdCopyBuffer e cmd srcBuf dstBuf (pre @ [r]))"
    if "fails (vkCmdCopyBuffer e cmd srcBuf dstBuf (pre @ [r])) \<noteq> []"
    using that unfolding vkCmdCopyBuffer_loop by (rule copy_buffer_first_error)
  have h: "cmd_result (vkCmdCopyBuffer e cmd srcBuf dstBuf (pre @ r # post)) = hd ?reports"
    if "fails (vkCmdCopyBuffer e cmd srcBuf dstBuf pre) = []" and "?reports \<noteq> []"
  proof -
    from p that have k: "fails (vkCmdCopyBuffer e cmd srcBuf dstBuf (pre @ [r])) = ?reports"
      by simp
    with that(2) have "cmd_result (vkCmdCopyBuffer e cmd srcBuf dstBuf (pre @ [r])) = hd ?reports"
      by (cases ?reports) (simp_all add: cmd_result_def)
    with b k that(2) show ?thesis by simp
  qed
  have c: "fails (vkCmdCopyBuffer e cmd srcBuf dstBuf (pre @ [r]))
        = fails (vkCmdCopyBuffer e cmd srcBuf dstBuf pre) @ [VK_ERROR_UNKNOWN]"
    if "cmd_gen cmd = INTEL_GEN 6" and "\<not> region_aligned r"
    using p that by (simp add: region_reports_def region_format_def)
  have d: "draws (vkCmdCopyBuffer e cmd srcBuf dstBuf (pre @ r # post))
        = draws (vkCmdCopyBuffer e cmd srcBuf dstBuf (pre @ post))"
    if "cmd_gen cmd = INTEL_GEN 6" and "\<not> region_aligned r"
    unfolding vkCmdCopyBuffer_loop using that by (rule copy_buffer_skip_draws)
  have f: "cmd_result (vkCmdCopyBuffer e cmd srcBuf dstBuf (pre @ r # post)) = VK_ERROR_UNKNOWN"
    if "cmd_gen cmd = INTEL_GEN 6" and "\<not> region_aligned r"
      and "fails (vkCmdCopyBuffer e cmd srcBuf dstBuf pre) = []"
  proof -
    from that(1,2) have "?reports = [VK_ERROR_UNKNOWN]"
      by (simp add: region_reports_def region_format_def)
    with h [OF that(3)] show ?thesis by simp
  qed
  from p q a t b h c d f show ?thesis by blast
qed

text \<open>
  The claim as first stated has the regions after a failed one dispatched exactly as in
  a call where it did not fail.  Two aligned regions on generation 7: when the
  constructor fails on the source view at the first region, the second region does not
  build the view again and is dispatched with the zeroed, invalid source surface; when
  the constructor succeeds, the second region is dispatched with the valid one.
\<close>

theorem failed_binding_counterexample:
  "fails (vkCmdCopyBuffer src_fails_env (sample_cmd 7) sample_buf sample_dst_buf
      [sample_region 0 16 8, sample_region 32 64 12]) = [VK_ERROR_OTHER 1] \<and>
   fails (vkCmdCopyBuffer sample_env (sample_cmd 7) sample_buf sample_dst_buf
      [sample_region 0 16 8, sample_region 32 64 12]) = [] \<and>
   src (draws (vkCmdCopyBuffer src_fails_env (sample_cmd 7) sample_buf sample_dst_buf
      [sample_region 0 16 8, sample_region 32 64 12]) ! 1)
     = \<lparr>valid = False, surface = [0, 0, 0, 0, 0, 0, 0, 0], surface_len = 0,
        reloc_target = RELOC_NULL, reloc_offset = 0, reloc_flags = [],
        lod = 0, layer = 0, xpos = 8, ypos = 0\<rparr> \<and>
   src (draws (vkCmdCopyBuffer sample_env (sample_cmd 7) sample_buf sample_dst_buf
      [sample_region 0 16 8, sample_region 32 64 12]) ! 1)
     = \<lparr>valid = True, surface = [1, 2, 3, 4, 5, 6, 0, 0], surface_len = 6,
        reloc_target = RELOC_BO 3, reloc_offset = 0, reloc_flags = [],
        lod = 0, layer = 0, xpos = 8, ypos = 0\<rparr> \<and>
   draws (vkCmdCopyBuffer src_fails_env (sample_cmd 7) sample_buf sample_dst_buf
      [sample_region 0 16 8, sample_region 32 64 12]) ! 1
     \<noteq> draws (vkCmdCopyBuffer sample_env (sample_cmd 7) sample_buf sample_dst_buf
      [sample_region 0 16 8, sample_region 32 64 12]) ! 1"
  unfolding sample_copy_failed_binding sample_copy_baseline
  by (simp add: sample_cmd_def surface_zero_def meta_zero_def replicate_eight)

theorem copy_buffer_best_effort_witness:
  "fails (vkCmdCopyBuffer sample_env (sample_cmd 6) sample_buf sample_buf
        ([sample_region 0 16 8] @ [sample_region 1 0 4]))
     = [VK_ERROR_UNKNOWN] \<and>
   draws (vkCmdCopyBuffer sample_env (sample_cmd 6) sample_buf sample_buf
        ([sample_region 0 16 8] @ sample_region 1 0 4 # [sample_region 32 64 12]))
     = draws (vkCmdCopyBuffer sample_env (sample_cmd 6) sample_buf sample_buf
        ([sample_region 0 16 8] @ [sample_region 32 64 12])) \<and>
   cmd_result (vkCmdCopyBuffer sample_env (sample_cmd 6) sample_buf sample_buf
        ([sample_region 0 16 8] @ sample_region 1 0 4 # [sample_region 32 64 12]))
     = VK_ERROR_UNKNOWN \<and>
   map draw_geometry (new_draws (sample_cmd 6)
      (vkCmdCopyBuffer sample_env (sample_cmd 6) sample_buf sample_buf
        ([sample_region 0 16 8] @ sample_region 1 0 4 # [sample_region 32 64 12])))
     = [(INTEL_DEV_META_VS_COPY_MEM, 0, 4, 2), (INTEL_DEV_META_VS_COPY_MEM, 8, 16, 3)] \<and>
   fails (vkCmdCopyBuffer src_fails_env (sample_cmd 7) sample_buf sample_dst_buf
        ([] @ [sample_region 0 16 8]))
     = [VK_ERROR_OTHER 1] \<and>
   cmd_result (vkCmdCopyBuffer src_fails_env (sample_cmd 7) sample_buf sample_dst_buf
        ([] @ sample_region 0 16 8 # [sample_region 32 64 12]))
     = VK_ERROR_OTHER 1 \<and>
   draws (vkCmdCopyBuffer src_fails_env (sample_cmd 7) sample_buf sample_dst_buf
        ([sample_region 0 16 8] @ [sample_region 32 64 12]))
     = draws (vkCmdCopyBuffer src_fails_env (sample_cmd 7) sample_buf sample_dst_buf
          [sample_region 0 16 8])
       @ [region_draw (sample_region 32 64 12)
            (carried (sample_cmd 7)
               (vkCmdCopyBuffer src_fails_env (sample_cmd 7) sample_buf sample_dst_buf
                  [sample_region 0 16 8]))]"
proof -
  note u = sample_regions_aligned
  have g: "cmd_gen (sample_cmd 6) = INTEL_GEN 6" "fails (sample_cmd 6) = []"
    "cmd_gen (sample_cmd 7) = INTEL_GEN 7" "INTEL_GEN 7 \<noteq> INTEL_GEN 6"
    by (simp_all add: sample_cmd_def INTEL_GEN_def)
  have p: "fails (vkCmdCopyBuffer sample_env (sample_cmd 6) sample_buf sample_buf [sample_region 0 16 8]) = []"
    unfolding vkCmdCopyBuffer_loop
    using u g by (simp add: copy_buffer_loop_log(3) [OF buf_views_ok_sample] region_fails_def)
  have q: "concat (map (region_geometry (cmd_gen (sample_cmd 6)))
        ([sample_region 0 16 8] @ sample_region 1 0 4 # [sample_region 32 64 12]))
      = [(INTEL_DEV_META_VS_COPY_MEM, 0, 4, 2), (INTEL_DEV_META_VS_COPY_MEM, 8, 16, 3)]"
    using u g by (simp add: region_geometry_def) (simp add: sample_region_def)
  have r0: "region_reports sample_env sample_buf sample_buf (cmd_gen (sample_cmd 6))
        (copy_format (cmd_gen (sample_cmd 6)) [sample_region 0 16 8]) (sample_region 1 0 4)
      = [VK_ERROR_UNKNOWN]"
    using u g(1) by (simp add: region_reports_def region_format_def)
  from copy_buffer_best_effort [where cmd = "sample_cmd 6" and e = sample_env and srcBuf = sample_buf
      and dstBuf = sample_buf and pre = "[sample_region 0 16 8]" and r = "sample_region 1 0 4"
      and post = "[sample_region 32 64 12]"
      and rs = "[sample_region 0 16 8] @ sample_region 1 0 4 # [sample_region 32 64 12]"]
    u(3) g(1) p q r0
  have A: "fails (vkCmdCopyBuffer sample_env (sample_cmd 6) sample_buf sample_buf
        ([sample_region 0 16 8] @ [sample_region 1 0 4]))
     = [VK_ERROR_UNKNOWN] \<and>
   draws (vkCmdCopyBuffer sample_env (sample_cmd 6) sample_buf sample_buf
        ([sample_region 0 16 8] @ sample_region 1 0 4 # [sample_region 32 64 12]))
     = draws (vkCmdCopyBuffer sample_env (sample_cmd 6) sample_buf sample_buf
        ([sample_region 0 16 8] @ [sample_region 32 64 12])) \<and>
   cmd_result (vkCmdCopyBuffer sample_env (sample_cmd 6) sample_buf sample_buf
        ([sample_region 0 16 8] @ sample_region 1 0 4 # [sample_region 32 64 12]))
     = VK_ERROR_UNKNOWN \<and>
   map draw_geometry (new_draws (sample_cmd 6)
      (vkCmdCopyBuffer sample_env (sample_cmd 6) sample_buf sample_buf
        ([sample_region 0 16 8] @ sample_region 1 0 4 # [sample_region 32 64 12])))
     = [(INTEL_DEV_META_VS_COPY_MEM, 0, 4, 2), (INTEL_DEV_META_VS_COPY_MEM, 8, 16, 3)]"
    by simp
  have e0: "fails (vkCmdCopyBuffer src_fails_env (sample_cmd 7) sample_buf sample_dst_buf []) = []"
    by (simp add: vkCmdCopyBuffer_def copy_buffer_init_def sample_cmd_def)
  have r1: "region_reports src_fails_env sample_buf sample_dst_buf (cmd_gen (sample_cmd 7))
        (copy_format (cmd_gen (sample_cmd 7)) []) (sample_region 0 16 8) = [VK_ERROR_OTHER 1]"
    using u g(3,4)
    by (simp add: region_reports_def region_format_def copy_format_def bind_reports_def
          sample_buf_views)
  from copy_buffer_best_effort [where cmd = "sample_cmd 7" and e = src_fails_env
      and srcBuf = sample_buf and dstBuf = sample_dst_buf and pre = "[]"
      and r = "sample_region 0 16 8" and post = "[sample_region 32 64 12]" and rs = "[]"]
    e0 r1
  have B: "fails (vkCmdCopyBuffer src_fails_env (sample_cmd 7) sample_buf sample_dst_buf
        ([] @ [sample_region 0 16 8]))
     = [VK_ERROR_OTHER 1] \<and>
   cmd_result (vkCmdCopyBuffer src_fails_env (sample_cmd 7) sample_buf sample_dst_buf
        ([] @ sample_region 0 16 8 # [sample_region 32 64 12]))
     = VK_ERROR_OTHER 1"
    by simp
  have r2: "region_draws src_fails_env sample_buf sample_dst_buf (cmd_gen (sample_cmd 7))
        (copy_format (cmd_gen (sample_cmd 7)) [sample_region 0 16 8])
        (carried (sample_cmd 7)
           (vkCmdCopyBuffer src_fails_env (sample_cmd 7) sample_buf sample_dst_buf
              [sample_region 0 16 8]))
        (sample_region 32 64 12)
      = [region_draw (sample_region 32 64 12)
           (carried (sample_cmd 7)
              (vkCmdCopyBuffer src_fails_env (sample_cmd 7) sample_buf sample_dst_buf
                 [sample_region 0 16 8]))]"
    using u g(3,4) by (simp add: region_draws_def region_format_def copy_format_def)
  from copy_buffer_best_effort [where cmd = "sample_cmd 7" and e = src_fails_env
      and srcBuf = sample_buf and dstBuf = sample_dst_buf and pre = "[sample_region 0 16 8]"
      and r = "sample_region 32 64 12" and post = "[]" and rs = "[]"]
    r2
  have C: "draws (vkCmdCopyBuffer src_fails_env (sample_cmd 7) sample_buf sample_dst_buf
        ([sample_region 0 16 8] @ [sample_region 32 64 12]))
     = draws (vkCmdCopyBuffer src_fails_env (sample_cmd 7) sample_buf sample_dst_buf
          [sample_region 0 16 8])
       @ [region_draw (sample_region 32 64 12)
            (carried (sample_cmd 7)
               (vkCmdCopyBuffer src_fails_env (sample_cmd 7) sample_buf sample_dst_buf
                  [sample_region 0 16 8]))]"
    by simp
  from A B C show ?thesis by blast
qed

section \<open>Resolve\<close>

lemma resolve_slice_draws:
  assumes "resolve_slice e dstImage format region (cmd, meta) j = (cmd', meta')"
  shows "\<exists>m. draws cmd' = draws cmd @ [m] \<and> shader_id m = shader_id meta"
    and "shader_id meta' = shader_id meta"
  using assms
  by (auto simp add: resolve_slice_def cmd_draw_meta_def Let_def case_prod_unfold)

lemma resolve_slices_draws:
  "foldl (resolve_slice e dstImage format region) (cmd, meta) js = (cmd', meta') \<Longrightarrow>
   shader_id meta' = shader_id meta \<and>
   (\<exists>new. draws cmd' = draws cmd @ new \<and>
      map shader_id new = replicate (length js) (shader_id meta))"
proof (induction js arbitrary: cmd meta)
  case Nil
  then show ?case by simp
next
  case (Cons j js)
  obtain c1 m1 where st: "resolve_slice e dstImage format region (cmd, meta) j = (c1, m1)"
    by (cases "resolve_slice e dstImage format region (cmd, meta) j")
  from resolve_slice_draws [OF st] obtain m where
    m: "draws c1 = draws cmd @ [m]" "shader_id m = shader_id meta" "shader_id m1 = shader_id meta"
    by auto
  from Cons.prems st have "foldl (resolve_slice e dstImage format region) (c1, m1) js = (cmd', meta')"
    by simp
  from Cons.IH [OF this] obtain new where
    "shader_id meta' = shader_id m1" "draws cmd' = draws c1 @ new"
    "map shader_id new = replicate (length js) (shader_id m1)"
    by auto
  with m show ?case by auto
qed

lemma resolve_regions_draws:
  "foldl (resolve_region e dstImage format) (cmd, meta) rs = (cmd', meta') \<Longrightarrow>
   shader_id meta' = shader_id meta \<and>
   (\<exists>new. draws cmd' = draws cmd @ new \<and>
      map shader_id new = replicate (resolve_depths rs) (shader_id meta))"
proof (induction rs arbitrary: cmd meta)
  case Nil
  then show ?case by (simp add: resolve_depths_def)
next
  case (Cons r rs)
  obtain c1 m1 where st: "resolve_region e dstImage format (cmd, meta) r = (c1, m1)"
    by (cases "resolve_region e dstImage format (cmd, meta) r")
  from st have "foldl (resolve_slice e dstImage format r) (cmd, meta)
      [0..<nat (sint (ext_depth (ir_extent r)))] = (c1, m1)"
    by (simp add: resolve_region_def)
  from resolve_slices_draws [OF this] obtain new1 where
    n1: "shader_id m1 = shader_id meta" "draws c1 = draws cmd @ new1"
      "map shader_id new1 = replicate (nat (sint (ext_depth (ir_extent r)))) (shader_id meta)"
    by auto
  from Cons.prems st have "foldl (resolve_region e dstImage format) (c1, m1) rs = (cmd', meta')"
    by simp
  from Cons.IH [OF this] obtain new where
    "shader_id meta' = shader_id m1" "draws cmd' = draws c1 @ new"
    "map shader_id new = replicate (resolve_depths rs) (shader_id m1)"
    by auto
  with n1 show ?case
    by (auto simp add: resolve_depths_def replicate_add)
qed

lemma resolve_proceeds:
  assumes ok: "\<not> (img_samples srcImage \<le> 1 \<or> img_samples dstImage > 1 \<or>
             layout_format (img_layout srcImage) \<noteq> layout_format (img_layout dstImage))"
    and res: "vkCmdResolveImage e cmd srcImage dstImage pRegions = Inr cmd'"
  shows "map shader_id (new_draws cmd cmd') =
           replicate (resolve_depths pRegions) (resolve_shader_id (img_samples srcImage))"
proof -
  let ?meta = "meta_zero\<lparr>mode := INTEL_CMD_META_FS_RECT,
      shader_id := resolve_shader_id (img_samples srcImage), samples := 1\<rparr>"
  from ok res obtain format where
    f: "cmd_meta_img_raw_format e (layout_format (img_layout srcImage)) = Inr format"
    by (auto simp add: vkCmdResolveImage_def Let_def split: sum.splits)
  obtain c1 m1 where
    s: "cmd_meta_set_src_for_img e cmd srcImage format VK_IMAGE_ASPECT_COLOR ?meta = (c1, m1)"
    by (cases "cmd_meta_set_src_for_img e cmd srcImage format VK_IMAGE_ASPECT_COLOR ?meta")
  obtain c2 m2 where l: "foldl (resolve_region e dstImage format) (c1, m1) pRegions = (c2, m2)"
    by (cases "foldl (resolve_region e dstImage format) (c1, m1) pRegions")
  from ok res f s l have "cmd' = c2"
    by (simp add: vkCmdResolveImage_def Let_def)
  moreover from set_src_for_img_frame(1,3) [of e cmd srcImage format VK_IMAGE_ASPECT_COLOR ?meta] s
  have "draws c1 = draws cmd" "shader_id m1 = resolve_shader_id (img_samples srcImage)"
    by simp_all
  moreover from resolve_regions_draws [OF l] obtain new where
    "draws c2 = draws c1 @ new" "map shader_id new = replicate (resolve_depths pRegions) (shader_id m1)"
    by auto
  ultimately show ?thesis by (simp add: new_draws_def)
qed

lemma resolve_aborts:
  assumes "vkCmdResolveImage e cmd srcImage dstImage pRegions = Inl a"
  shows "\<not> NDEBUG e \<and> icd_format_get_size e (layout_format (img_layout srcImage)) \<notin> {1, 2, 4, 8, 16}"
  using assms
  by (auto simp add: vkCmdResolveImage_def cmd_meta_img_raw_format_def Let_def case_prod_unfold
        split: if_splits sum.splits)

text \<open>
  Claim C3.  A resolve fails, with \<open>VK_ERROR_UNKNOWN\<close> reported and no draw
  dispatched, whenever the source has at most one sample, the destination has more
  than one, or the formats differ.  Otherwise, for a source sample count of 2, 4, 8
  or 16, the call goes on: unless the raw-format assertion stops it, it dispatches
  one draw per slice of every region, each with the resolve shader of that sample
  count, and the four shaders are pairwise distinct.
\<close>

theorem vkCmdResolveImage_precondition:
  "(img_samples srcImage \<le> 1 \<or> img_samples dstImage > 1 \<or>
    layout_format (img_layout srcImage) \<noteq> layout_format (img_layout dstImage) \<longrightarrow>
      vkCmdResolveImage e cmd srcImage dstImage pRegions = Inr (cmd_fail cmd VK_ERROR_UNKNOWN) \<and>
      fails (cmd_fail cmd VK_ERROR_UNKNOWN) = fails cmd @ [VK_ERROR_UNKNOWN] \<and>
      draws (cmd_fail cmd VK_ERROR_UNKNOWN) = draws cmd) \<and>
   (\<not> (img_samples srcImage \<le> 1 \<or> img_samples dstImage > 1 \<or>
       layout_format (img_layout srcImage) \<noteq> layout_format (img_layout dstImage)) \<and>
    img_samples srcImage \<in> {2, 4, 8, 16} \<longrightarrow>
      (case vkCmdResolveImage e cmd srcImage dstImage pRegions of
         Inl a \<Rightarrow> \<not> NDEBUG e \<and>
           icd_format_get_size e (layout_format (img_layout srcImage)) \<notin> {1, 2, 4, 8, 16}
       | Inr cmd' \<Rightarrow>
           map shader_id (new_draws cmd cmd') =
             replicate (resolve_depths pRegions) (resolve_shader_id (img_samples srcImage)))) \<and>
   resolve_shader_id 2 = INTEL_DEV_META_FS_RESOLVE_2X \<and>
   resolve_shader_id 4 = INTEL_DEV_META_FS_RESOLVE_4X \<and>
   resolve_shader_id 8 = INTEL_DEV_META_FS_RESOLVE_8X \<and>
   resolve_shader_id 16 = INTEL_DEV_META_FS_RESOLVE_16X \<and>
   distinct [INTEL_DEV_META_FS_RESOLVE_2X, INTEL_DEV_META_FS_RESOLVE_4X,
             INTEL_DEV_META_FS_RESOLVE_8X, INTEL_DEV_META_FS_RESOLVE_16X]"
proof -
  let ?bad = "img_samples srcImage \<le> 1 \<or> img_samples dstImage > 1 \<or>
      layout_format (img_layout srcImage) \<noteq> layout_format (img_layout dstImage)"
  let ?call = "vkCmdResolveImage e cmd srcImage dstImage pRegions"
  have a: "?bad \<longrightarrow> ?call = Inr (cmd_fail cmd VK_ERROR_UNKNOWN)"
    by (simp add: vkCmdResolveImage_def)
  have b: "case ?call of
         Inl a \<Rightarrow> \<not> NDEBUG e \<and>
           icd_format_get_size e (layout_format (img_layout srcImage)) \<notin> {1, 2, 4, 8, 16}
       | Inr cmd' \<Rightarrow>
           map shader_id (new_draws cmd cmd') =
             replicate (resolve_depths pRegions) (resolve_shader_id (img_samples srcImage))"
    if ok: "\<not> ?bad"
  proof (cases ?call)
    case (Inl a)
    with resolve_aborts [OF Inl] show ?thesis by simp
  next
    case (Inr c)
    with resolve_proceeds [OF ok Inr] show ?thesis by simp
  qed
  have c: "resolve_shader_id 2 = INTEL_DEV_META_FS_RESOLVE_2X \<and>
   resolve_shader_id 4 = INTEL_DEV_META_FS_RESOLVE_4X \<and>
   resolve_shader_id 8 = INTEL_DEV_META_FS_RESOLVE_8X \<and>
   resolve_shader_id 16 = INTEL_DEV_META_FS_RESOLVE_16X"
    by (simp add: resolve_shader_id_def)
  have d: "fails (cmd_fail cmd VK_ERROR_UNKNOWN) = fails cmd @ [VK_ERROR_UNKNOWN] \<and>
      draws (cmd_fail cmd VK_ERROR_UNKNOWN) = draws cmd"
    by (simp add: cmd_fail_def)
  from a b c d show ?thesis by simp
qed

theorem vkCmdResolveImage_precondition_witness:
  "vkCmdResolveImage sample_env (sample_cmd 7) sample_img sample_img [sample_resolve]
     = Inr (cmd_fail (sample_cmd 7) VK_ERROR_UNKNOWN) \<and>
   (\<exists>cmd'. vkCmdResolveImage sample_env (sample_cmd 7) (sample_img\<lparr>img_samples := 4\<rparr>) sample_img
           [sample_resolve] = Inr cmd' \<and>
      map shader_id (new_draws (sample_cmd 7) cmd') =
        [INTEL_DEV_META_FS_RESOLVE_4X, INTEL_DEV_META_FS_RESOLVE_4X])"
proof -
  let ?ms = "sample_img\<lparr>img_samples := 4\<rparr>"
  have "img_samples sample_img \<le> 1"
    by (simp add: sample_img_def)
  with vkCmdResolveImage_precondition
    [of sample_img sample_img sample_env "sample_cmd 7" "[sample_resolve]"]
  have a: "vkCmdResolveImage sample_env (sample_cmd 7) sample_img sample_img [sample_resolve]
     = Inr (cmd_fail (sample_cmd 7) VK_ERROR_UNKNOWN)"
    by blast
  have "\<not> (img_samples ?ms \<le> 1 \<or> img_samples sample_img > 1 \<or>
       layout_format (img_layout ?ms) \<noteq> layout_format (img_layout sample_img)) \<and>
    img_samples ?ms \<in> {2, 4, 8, 16}"
    by (simp add: sample_img_def word_le_nat_alt word_less_nat_alt)
  with vkCmdResolveImage_precondition
    [of ?ms sample_img sample_env "sample_cmd 7" "[sample_resolve]"]
  have c: "case vkCmdResolveImage sample_env (sample_cmd 7) ?ms sample_img [sample_resolve] of
         Inl a \<Rightarrow> \<not> NDEBUG sample_env \<and>
           icd_format_get_size sample_env (layout_format (img_layout ?ms)) \<notin> {1, 2, 4, 8, 16}
       | Inr cmd' \<Rightarrow>
           map shader_id (new_draws (sample_cmd 7) cmd') =
             replicate (resolve_depths [sample_resolve]) (resolve_shader_id (img_samples ?ms))"
    by blast
  have d: "replicate (resolve_depths [sample_resolve]) (resolve_shader_id (img_samples ?ms)) =
      [INTEL_DEV_META_FS_RESOLVE_4X, INTEL_DEV_META_FS_RESOLVE_4X]"
    by (simp add: resolve_depths_def sample_resolve_def resolve_shader_id_def numeral_2_eq_2)
  have b: "\<exists>cmd'. vkCmdResolveImage sample_env (sample_cmd 7) ?ms sample_img [sample_resolve] = Inr cmd' \<and>
      map shader_id (new_draws (sample_cmd 7) cmd') =
        [INTEL_DEV_META_FS_RESOLVE_4X, INTEL_DEV_META_FS_RESOLVE_4X]"
  proof (cases "vkCmdResolveImage sample_env (sample_cmd 7) ?ms sample_img [sample_resolve]")
    case (Inl x)
    with c show ?thesis by simp
  next
    case (Inr c')
    with c d show ?thesis by simp
  qed
  from a b show ?thesis by simp
qed

section \<open>Compressed-layout adjuster\<close>

lemma fits_take_bit:
  fixes v :: "32 word"
  assumes "unat v < 2 ^ n"
  shows "take_bit n v = v"
proof -
  have "unat (take_bit n v) = unat v"
    using assms by (simp add: unsigned_take_bit_eq take_bit_nat_eq_self)
  then show ?thesis by (simp add: word_unat_eq_iff)
qed

lemma fits_bit:
  fixes v :: "32 word"
  assumes "unat v < 2 ^ n" and "bit v j"
  shows "j < n"
  using assms fits_take_bit [OF assms(1)] by (metis bit_take_bit_iff)

lemma extract_fits:
  assumes "field_ok f n"
  shows "unat (GEN_EXTRACT v f) < 2 ^ n"
proof -
  have "drop_bit s (v AND push_bit s (mask n)) = take_bit n (drop_bit s v)" for s
    by (rule bit_word_eqI) (auto simp add: bit_simps dest: bit_imp_le_length)
  with assms show ?thesis
    by (simp add: GEN_EXTRACT_def field_ok_def unsigned_take_bit_eq)
qed

lemma field_mask_bit:
  assumes "field_ok f n"
  shows "bit (field_mask f) j \<longleftrightarrow> field_shift f \<le> j \<and> j < field_shift f + n"
  using assms by (auto simp add: field_ok_def bit_simps)

lemma shift_bit_in_mask:
  assumes "field_ok g n" and "unat u < 2 ^ n" and "bit (GEN_SHIFT32 u g) j"
  shows "bit (field_mask g) j"
  using assms(3) fits_bit [OF assms(2), of "j - field_shift g"] field_mask_bit [OF assms(1), of j]
  by (auto simp add: GEN_SHIFT32_def bit_simps)

lemma disjoint_bits:
  fixes a b :: "32 word"
  assumes "a AND b = 0"
  shows "\<not> (bit a j \<and> bit b j)"
proof -
  have "bit (a AND b) j \<longleftrightarrow> bit a j \<and> bit b j"
    by (simp only: bit_and_iff)
  with assms show ?thesis by simp
qed

lemma zero_field_bits:
  assumes "GEN_EXTRACT old f = 0"
  shows "\<not> (bit old (field_shift f + j) \<and> bit (field_mask f) (field_shift f + j))"
proof -
  have "bit (drop_bit (field_shift f) (old AND field_mask f)) j
      \<longleftrightarrow> bit old (field_shift f + j) \<and> bit (field_mask f) (field_shift f + j)"
    by (simp only: bit_drop_bit_eq bit_and_iff comp_apply)
  with assms show ?thesis by (simp add: GEN_EXTRACT_def)
qed

text \<open>Reading a field back after it was cleared and two fitting values were inserted.\<close>

lemma extract_inserted:
  assumes f: "field_ok f n" and g: "field_ok g k"
    and dis: "field_mask f AND field_mask g = 0"
    and v: "unat v < 2 ^ n" and u: "unat u < 2 ^ k"
    and keep: "\<And>j. bit (field_mask f) j \<Longrightarrow> \<not> bit old j"
  shows "GEN_EXTRACT (old OR (GEN_SHIFT32 v f OR GEN_SHIFT32 u g)) f = v"
    and "GEN_EXTRACT (old OR (GEN_SHIFT32 u g OR GEN_SHIFT32 v f)) f = v"
proof -
  have main: "bit (GEN_EXTRACT (old OR (GEN_SHIFT32 v f OR GEN_SHIFT32 u g)) f) j \<longleftrightarrow> bit v j"
    if "j < LENGTH(32)" for j
  proof -
    have sn: "field_shift f + n \<le> 32" using f by (simp add: field_ok_def)
    have a: "bit v j \<Longrightarrow> j < n" by (rule fits_bit [OF v])
    have b: "\<not> (bit (field_mask f) (field_shift f + j) \<and> bit (GEN_SHIFT32 u g) (field_shift f + j))"
      using shift_bit_in_mask [OF g u, of "field_shift f + j"] disjoint_bits [OF dis, of "field_shift f + j"]
      by blast
    have c: "bit (field_mask f) (field_shift f + j) \<longleftrightarrow> j < n"
      using field_mask_bit [OF f, of "field_shift f + j"] by simp
    have d: "bit (GEN_SHIFT32 v f) (field_shift f + j) \<longleftrightarrow> field_shift f + j < 32 \<and> bit v j"
      by (simp add: GEN_SHIFT32_def bit_simps)
    have "bit (GEN_EXTRACT (old OR (GEN_SHIFT32 v f OR GEN_SHIFT32 u g)) f) j
        \<longleftrightarrow> (bit old (field_shift f + j) \<or> bit (GEN_SHIFT32 v f) (field_shift f + j)
              \<or> bit (GEN_SHIFT32 u g) (field_shift f + j))
            \<and> bit (field_mask f) (field_shift f + j)"
      by (simp only: GEN_EXTRACT_def bit_drop_bit_eq bit_and_iff bit_or_iff comp_apply)
    with a b c d keep [of "field_shift f + j"] sn show ?thesis
      by auto
  qed
  then show "GEN_EXTRACT (old OR (GEN_SHIFT32 v f OR GEN_SHIFT32 u g)) f = v"
    by (rule bit_word_eqI)
  then show "GEN_EXTRACT (old OR (GEN_SHIFT32 u g OR GEN_SHIFT32 v f)) f = v"
    by (simp add: or.commute)
qed

lemma cleared_bits:
  fixes old a b :: "32 word"
  shows "bit a j \<Longrightarrow> \<not> bit (old AND NOT (a OR b)) j"
    and "bit b j \<Longrightarrow> \<not> bit (old AND NOT (a OR b)) j"
  by (simp_all add: bit_and_iff bit_not_iff bit_or_iff)

lemma extract_cleared: "GEN_EXTRACT (old AND NOT (field_mask f)) f = 0"
  by (simp add: GEN_EXTRACT_def and.assoc)

lemma div_block:
  fixes w bw :: "32 word"
  assumes "bw \<noteq> 0" and "unat w + unat bw < 2 ^ 32"
  shows "unat ((w + bw) div bw - 1) = ceil_div (unat w + 1) (unat bw) - 1"
    and "unat ((w + bw) div bw - 1) \<le> unat w"
proof -
  have p: "0 < unat bw" using assms(1) by (simp add: unat_gt_0)
  have "unat w + unat bw < 2 ^ LENGTH(32)" using assms(2) by simp
  then have a: "unat (w + bw) = unat w + unat bw"
    by (simp only: unat_add_lem)
  have n: "(unat w + unat bw) div unat bw = unat w div unat bw + 1"
    using p by (simp add: div_add_self2)
  have b: "unat ((w + bw) div bw) = unat w div unat bw + 1"
    by (simp only: unat_div a n)
  then have "1 \<le> (w + bw) div bw"
    by (simp add: word_le_nat_alt)
  then have c: "unat ((w + bw) div bw - 1) = unat w div unat bw"
    using b by (simp add: unat_sub)
  have "unat w + 1 + unat bw - 1 = unat w + unat bw" by simp
  then show "unat ((w + bw) div bw - 1) = ceil_div (unat w + 1) (unat bw) - 1"
    using c n by (simp add: ceil_div_def)
  show "unat ((w + bw) div bw - 1) \<le> unat w"
    using c by simp
qed

lemma adjust_surface:
  fixes e cmd img meta
  defines "F \<equiv> gen_surface e cmd"
    and "s \<equiv> surface (dst meta)"
    and "bw \<equiv> block_width (img_layout img)"
    and "bh \<equiv> block_height (img_layout img)"
  defines "w' \<equiv> (GEN_EXTRACT (s ! 2) (SURFACE_DW2_WIDTH F) + bw) div bw - 1"
    and "h' \<equiv> (GEN_EXTRACT (s ! 2) (SURFACE_DW2_HEIGHT F) + bh) div bh - 1"
    and "lyr \<equiv> GEN_EXTRACT (s ! 4) (SURFACE_DW4_MIN_ARRAY_ELEMENT F)"
  defines "tile \<equiv> intel_layout_get_slice_tile_offset e (img_layout img) 0 lyr"
    and "adj \<equiv> dst (cmd_meta_adjust_compressed_dst e cmd img meta)"
  assumes len: "6 \<le> length s"
  shows "surface adj ! 2 =
           ((s ! 2) AND NOT (field_mask (SURFACE_DW2_WIDTH F) OR field_mask (SURFACE_DW2_HEIGHT F)))
           OR (GEN_SHIFT32 w' (SURFACE_DW2_WIDTH F) OR GEN_SHIFT32 h' (SURFACE_DW2_HEIGHT F))"
    and "lyr = 0 \<Longrightarrow> reloc_offset adj = reloc_offset (dst meta) \<and>
           surface adj ! 4 = s ! 4 \<and> surface adj ! 5 = s ! 5"
    and "lyr \<noteq> 0 \<Longrightarrow> reloc_offset adj = fst tile \<and>
           surface adj ! 4 = (s ! 4) AND NOT (field_mask (SURFACE_DW4_MIN_ARRAY_ELEMENT F)) \<and>
           surface adj ! 5 = (s ! 5) OR
             (GEN_SHIFT32 (drop_bit 2 (fst (snd tile) div bw)) (SURFACE_DW5_X_OFFSET F) OR
              GEN_SHIFT32 (drop_bit 1 (snd (snd tile) div bh)) (SURFACE_DW5_Y_OFFSET F))"
  using len
  unfolding adj_def tile_def lyr_def w'_def h'_def bw_def bh_def s_def F_def
  by (simp_all add: cmd_meta_adjust_compressed_dst_def Let_def case_prod_unfold)

text \<open>
  Claim C4.  On a destination descriptor whose width and height fields are
  well-formed, disjoint bit fields, the adjuster rewrites both fields from pixels
  to blocks: a field holding \<open>pixels - 1\<close> ends up holding
  \<open>ceil(pixels / blockSize) - 1\<close>, so 130 pixels with block size 4 encode as 32.
  When the minimum-array-element field is zero nothing else changes.  When it is
  non-zero, the relocation offset becomes the tile-aligned byte offset of that
  layer, the minimum-array-element field is cleared, and the tile X offset divided
  by the block width and shifted right by 2, and the tile Y offset divided by the
  block height and shifted right by 1, are or-ed into the X and Y offset fields;
  on a freshly encoded descriptor, whose X and Y offset fields are zero, the two
  fields then read back exactly these values.
\<close>

theorem cmd_meta_adjust_compressed_dst_fields:
  fixes e cmd img meta nw nh nx ny
  defines "F \<equiv> gen_surface e cmd"
    and "s \<equiv> surface (dst meta)"
    and "bw \<equiv> block_width (img_layout img)"
    and "bh \<equiv> block_height (img_layout img)"
  defines "w \<equiv> GEN_EXTRACT (s ! 2) (SURFACE_DW2_WIDTH F)"
    and "h \<equiv> GEN_EXTRACT (s ! 2) (SURFACE_DW2_HEIGHT F)"
    and "lyr \<equiv> GEN_EXTRACT (s ! 4) (SURFACE_DW4_MIN_ARRAY_ELEMENT F)"
  defines "tile \<equiv> intel_layout_get_slice_tile_offset e (img_layout img) 0 lyr"
    and "adj \<equiv> dst (cmd_meta_adjust_compressed_dst e cmd img meta)"
  defines "x' \<equiv> drop_bit 2 (fst (snd tile) div bw)"
    and "y' \<equiv> drop_bit 1 (snd (snd tile) div bh)"
  assumes len: "6 \<le> length s"
    and fw: "field_ok (SURFACE_DW2_WIDTH F) nw"
    and fh: "field_ok (SURFACE_DW2_HEIGHT F) nh"
    and dwh: "field_mask (SURFACE_DW2_WIDTH F) AND field_mask (SURFACE_DW2_HEIGHT F) = 0"
    and blk: "bw \<noteq> 0" "bh \<noteq> 0"
    and ovf: "unat w + unat bw < 2 ^ 32" "unat h + unat bh < 2 ^ 32"
  shows "unat (GEN_EXTRACT (surface adj ! 2) (SURFACE_DW2_WIDTH F)) = ceil_div (unat w + 1) (unat bw) - 1 \<and>
    unat (GEN_EXTRACT (surface adj ! 2) (SURFACE_DW2_HEIGHT F)) = ceil_div (unat h + 1) (unat bh) - 1 \<and>
    (lyr = 0 \<longrightarrow>
       reloc_offset adj = reloc_offset (dst meta) \<and>
       surface adj ! 4 = s ! 4 \<and> surface adj ! 5 = s ! 5) \<and>
    (lyr \<noteq> 0 \<longrightarrow>
       reloc_offset adj = fst tile \<and>
       GEN_EXTRACT (surface adj ! 4) (SURFACE_DW4_MIN_ARRAY_ELEMENT F) = 0 \<and>
       surface adj ! 5 =
         (s ! 5) OR (GEN_SHIFT32 x' (SURFACE_DW5_X_OFFSET F) OR GEN_SHIFT32 y' (SURFACE_DW5_Y_OFFSET F)) \<and>
       (field_ok (SURFACE_DW5_X_OFFSET F) nx \<and> field_ok (SURFACE_DW5_Y_OFFSET F) ny \<and>
        field_mask (SURFACE_DW5_X_OFFSET F) AND field_mask (SURFACE_DW5_Y_OFFSET F) = 0 \<and>
        GEN_EXTRACT (s ! 5) (SURFACE_DW5_X_OFFSET F) = 0 \<and>
        GEN_EXTRACT (s ! 5) (SURFACE_DW5_Y_OFFSET F) = 0 \<and>
        unat x' < 2 ^ nx \<and> unat y' < 2 ^ ny \<longrightarrow>
          GEN_EXTRACT (surface adj ! 5) (SURFACE_DW5_X_OFFSET F) = x' \<and>
          GEN_EXTRACT (surface adj ! 5) (SURFACE_DW5_Y_OFFSET F) = y'))"
proof -
  let ?W = "SURFACE_DW2_WIDTH F" and ?H = "SURFACE_DW2_HEIGHT F"
  let ?X = "SURFACE_DW5_X_OFFSET F" and ?Y = "SURFACE_DW5_Y_OFFSET F"
  let ?w' = "(w + bw) div bw - 1" and ?h' = "(h + bh) div bh - 1"
  let ?old = "(s ! 2) AND NOT (field_mask ?W OR field_mask ?H)"
  note surf = adjust_surface [of meta e cmd img, folded F_def s_def bw_def bh_def,
      folded w_def h_def lyr_def, folded tile_def adj_def, folded x'_def y'_def, OF len]
  have wf: "unat ?w' < 2 ^ nw"
    using div_block(2) [OF blk(1) ovf(1)] extract_fits [OF fw, of "s ! 2"]
    by (simp add: w_def)
  have hf: "unat ?h' < 2 ^ nh"
    using div_block(2) [OF blk(2) ovf(2)] extract_fits [OF fh, of "s ! 2"]
    by (simp add: h_def)
  have dhw: "field_mask ?H AND field_mask ?W = 0"
    using dwh by (simp add: and.commute)
  have "GEN_EXTRACT (surface adj ! 2) ?W = ?w'"
    unfolding surf(1)
    by (rule extract_inserted(1) [OF fw fh dwh wf hf]) (rule cleared_bits(1))
  then have a: "unat (GEN_EXTRACT (surface adj ! 2) ?W) = ceil_div (unat w + 1) (unat bw) - 1"
    using div_block(1) [OF blk(1) ovf(1)] by simp
  have "GEN_EXTRACT (surface adj ! 2) ?H = ?h'"
    unfolding surf(1)
    by (rule extract_inserted(2) [OF fh fw dhw hf wf]) (rule cleared_bits(2))
  then have b: "unat (GEN_EXTRACT (surface adj ! 2) ?H) = ceil_div (unat h + 1) (unat bh) - 1"
    using div_block(1) [OF blk(2) ovf(2)] by simp
  have c: "GEN_EXTRACT (surface adj ! 4) (SURFACE_DW4_MIN_ARRAY_ELEMENT F) = 0" if "lyr \<noteq> 0"
    using surf(3) [OF that] by (simp add: extract_cleared)
  have d: "GEN_EXTRACT (surface adj ! 5) ?X = x' \<and> GEN_EXTRACT (surface adj ! 5) ?Y = y'"
    if nz: "lyr \<noteq> 0" and fx: "field_ok ?X nx" and fy: "field_ok ?Y ny"
      and dxy: "field_mask ?X AND field_mask ?Y = 0"
      and zx: "GEN_EXTRACT (s ! 5) ?X = 0" and zy: "GEN_EXTRACT (s ! 5) ?Y = 0"
      and xf: "unat x' < 2 ^ nx" and yf: "unat y' < 2 ^ ny"
  proof -
    have s5: "surface adj ! 5 = (s ! 5) OR (GEN_SHIFT32 x' ?X OR GEN_SHIFT32 y' ?Y)"
      using surf(3) [OF nz] by simp
    have kx: "\<not> bit (s ! 5) j" if "bit (field_mask ?X) j" for j
    proof -
      from that field_mask_bit [OF fx, of j] have "field_shift ?X \<le> j" by simp
      then have "j = field_shift ?X + (j - field_shift ?X)" by simp
      with zero_field_bits [OF zx, of "j - field_shift ?X"] that show ?thesis by metis
    qed
    have ky: "\<not> bit (s ! 5) j" if "bit (field_mask ?Y) j" for j
    proof -
      from that field_mask_bit [OF fy, of j] have "field_shift ?Y \<le> j" by simp
      then have "j = field_shift ?Y + (j - field_shift ?Y)" by simp
      with zero_field_bits [OF zy, of "j - field_shift ?Y"] that show ?thesis by metis
    qed
    have dyx: "field_mask ?Y AND field_mask ?X = 0"
      using dxy by (simp add: and.commute)
    have "GEN_EXTRACT (surface adj ! 5) ?X = x'"
      unfolding s5 by (rule extract_inserted(1) [OF fx fy dxy xf yf]) (rule kx)
    moreover have "GEN_EXTRACT (surface adj ! 5) ?Y = y'"
      unfolding s5 by (rule extract_inserted(2) [OF fy fx dyx yf xf]) (rule ky)
    ultimately show ?thesis by simp
  qed
  from a b c d surf(2) surf(3) show ?thesis by blast
qed

lemma sample_gen7_fields:
  "gen_surface sample_env (sample_cmd 7) = GEN7_SURFACE sample_env"
  "SURFACE_DW2_WIDTH (GEN7_SURFACE sample_env) = \<lparr>field_shift = 0, field_mask = 0x00003fff\<rparr>"
  "SURFACE_DW2_HEIGHT (GEN7_SURFACE sample_env) = \<lparr>field_shift = 16, field_mask = 0x3fff0000\<rparr>"
  "SURFACE_DW4_MIN_ARRAY_ELEMENT (GEN7_SURFACE sample_env) = \<lparr>field_shift = 18, field_mask = 0x1ffc0000\<rparr>"
  "SURFACE_DW5_X_OFFSET (GEN7_SURFACE sample_env) = \<lparr>field_shift = 25, field_mask = 0xfe000000\<rparr>"
  "SURFACE_DW5_Y_OFFSET (GEN7_SURFACE sample_env) = \<lparr>field_shift = 20, field_mask = 0x00f00000\<rparr>"
  "intel_layout_get_slice_tile_offset sample_env = (\<lambda>l lv sl. (4096 * sl, 64, 16))"
  by (simp_all add: gen_surface_def sample_env_def sample_cmd_def)

theorem cmd_meta_adjust_compressed_dst_fields_witness:
  "unat (GEN_EXTRACT
      (surface (dst (cmd_meta_adjust_compressed_dst sample_env (sample_cmd 7) sample_bc_img
                       (sample_bc_meta 3))) ! 2)
      (SURFACE_DW2_WIDTH (GEN7_SURFACE sample_env))) = 32 \<and>
   unat (GEN_EXTRACT
      (surface (dst (cmd_meta_adjust_compressed_dst sample_env (sample_cmd 7) sample_bc_img
                       (sample_bc_meta 3))) ! 2)
      (SURFACE_DW2_HEIGHT (GEN7_SURFACE sample_env))) = 32 \<and>
   reloc_offset (dst (cmd_meta_adjust_compressed_dst sample_env (sample_cmd 7) sample_bc_img
                       (sample_bc_meta 3))) = 12288 \<and>
   GEN_EXTRACT
      (surface (dst (cmd_meta_adjust_compressed_dst sample_env (sample_cmd 7) sample_bc_img
                       (sample_bc_meta 3))) ! 4)
      (SURFACE_DW4_MIN_ARRAY_ELEMENT (GEN7_SURFACE sample_env)) = 0 \<and>
   GEN_EXTRACT
      (surface (dst (cmd_meta_adjust_compressed_dst sample_env (sample_cmd 7) sample_bc_img
                       (sample_bc_meta 3))) ! 5)
      (SURFACE_DW5_X_OFFSET (GEN7_SURFACE sample_env)) = 4 \<and>
   GEN_EXTRACT
      (surface (dst (cmd_meta_adjust_compressed_dst sample_env (sample_cmd 7) sample_bc_img
                       (sample_bc_meta 3))) ! 5)
      (SURFACE_DW5_Y_OFFSET (GEN7_SURFACE sample_env)) = 2 \<and>
   reloc_offset (dst (cmd_meta_adjust_compressed_dst sample_env (sample_cmd 7) sample_bc_img
                       (sample_bc_meta 0))) = 0"
proof -
  have m: "(mask 14 :: uint32_t) = 0x3fff" "(mask 7 :: uint32_t) = 0x7f" "(mask 4 :: uint32_t) = 0xf"
    by (simp_all add: mask_eq_exp_minus_1)
  have s: "surface (dst (sample_bc_meta lyr)) = [0, 0, 129 OR push_bit 16 129, 0, push_bit 18 lyr, 0, 0, 0]"
    "reloc_offset (dst (sample_bc_meta lyr)) = 0" for lyr
    by (simp_all add: sample_bc_meta_def surface_zero_def)
  have b: "block_width (img_layout sample_bc_img) = 4" "block_height (img_layout sample_bc_img) = 4"
    by (simp_all add: sample_bc_img_def)
  have n: "[0, 0, 129 OR push_bit 16 129, 0, push_bit 18 lyr, 0, 0, 0] ! 2 = (129 OR push_bit 16 129 :: uint32_t)"
    "[0, 0, 129 OR push_bit 16 129, 0, push_bit 18 lyr, 0, 0, 0] ! 4 = (push_bit 18 lyr :: uint32_t)"
    "[0, 0, 129 OR push_bit 16 129, 0, push_bit 18 lyr, 0, 0, 0] ! 5 = (0 :: uint32_t)" for lyr :: uint32_t
    by simp_all
  note ev = sample_gen7_fields s b n GEN_EXTRACT_def GEN_SHIFT32_def field_ok_def m ceil_div_def
  note t3 = cmd_meta_adjust_compressed_dst_fields [where e = sample_env and cmd = "sample_cmd 7"
      and img = sample_bc_img and meta = "sample_bc_meta 3" and nw = 14 and nh = 14
      and nx = 7 and ny = 4]
  note t0 = cmd_meta_adjust_compressed_dst_fields [where e = sample_env and cmd = "sample_cmd 7"
      and img = sample_bc_img and meta = "sample_bc_meta 0" and nw = 14 and nh = 14
      and nx = 7 and ny = 4]
  from t3 have r3: "unat (GEN_EXTRACT
      (surface (dst (cmd_meta_adjust_compressed_dst sample_env (sample_cmd 7) sample_bc_img
                       (sample_bc_meta 3))) ! 2)
      (SURFACE_DW2_WIDTH (GEN7_SURFACE sample_env))) = 32 \<and>
   unat (GEN_EXTRACT
      (surface (dst (cmd_meta_adjust_compressed_dst sample_env (sample_cmd 7) sample_bc_img
                       (sample_bc_meta 3))) ! 2)
      (SURFACE_DW2_HEIGHT (GEN7_SURFACE sample_env))) = 32 \<and>
   reloc_offset (dst (cmd_meta_adjust_compressed_dst sample_env (sample_cmd 7) sample_bc_img
                       (sample_bc_meta 3))) = 12288 \<and>
   GEN_EXTRACT
      (surface (dst (cmd_meta_adjust_compressed_dst sample_env (sample_cmd 7) sample_bc_img
                       (sample_bc_meta 3))) ! 4)
      (SURFACE_DW4_MIN_ARRAY_ELEMENT (GEN7_SURFACE sample_env)) = 0 \<and>
   GEN_EXTRACT
      (surface (dst (cmd_meta_adjust_compressed_dst sample_env (sample_cmd 7) sample_bc_img
                       (sample_bc_meta 3))) ! 5)
      (SURFACE_DW5_X_OFFSET (GEN7_SURFACE sample_env)) = 4 \<and>
   GEN_EXTRACT
      (surface (dst (cmd_meta_adjust_compressed_dst sample_env (sample_cmd 7) sample_bc_img
                       (sample_bc_meta 3))) ! 5)
      (SURFACE_DW5_Y_OFFSET (GEN7_SURFACE sample_env)) = 2"
    by (simp add: ev)
  from t0 have r0: "reloc_offset (dst (cmd_meta_adjust_compressed_dst sample_env (sample_cmd 7) sample_bc_img
                       (sample_bc_meta 0))) = 0"
    by (simp add: ev)
  from r3 r0 show ?thesis by simp
qed

section \<open>Raw format mapper\<close>

text \<open>
  Claim C5.  The raw-format mapper sends the texel sizes 1, 2, 4, 8 and 16 to
  \<open>R8_UINT\<close>, \<open>R16_UINT\<close>, \<open>R32_UINT\<close>, \<open>R32G32_UINT\<close> and \<open>R32G32B32A32_UINT\<close>, which
  are pairwise distinct and defined.  Any other size is rejected: the assertion
  fails, and where assertions are compiled out the undefined format is returned.
\<close>

theorem cmd_meta_img_raw_format_total:
  "(icd_format_get_size e f = 1 \<longrightarrow> cmd_meta_img_raw_format e f = Inr VK_FORMAT_R8_UINT) \<and>
   (icd_format_get_size e f = 2 \<longrightarrow> cmd_meta_img_raw_format e f = Inr VK_FORMAT_R16_UINT) \<and>
   (icd_format_get_size e f = 4 \<longrightarrow> cmd_meta_img_raw_format e f = Inr VK_FORMAT_R32_UINT) \<and>
   (icd_format_get_size e f = 8 \<longrightarrow> cmd_meta_img_raw_format e f = Inr VK_FORMAT_R32G32_UINT) \<and>
   (icd_format_get_size e f = 16 \<longrightarrow>
      cmd_meta_img_raw_format e f = Inr VK_FORMAT_R32G32B32A32_UINT) \<and>
   (icd_format_get_size e f \<notin> {1, 2, 4, 8, 16} \<longrightarrow>
      cmd_meta_img_raw_format e f =
        (if NDEBUG e then Inr VK_FORMAT_UNDEFINED else Inl ASSERTION_FAILED)) \<and>
   distinct [VK_FORMAT_UNDEFINED, VK_FORMAT_R8_UINT, VK_FORMAT_R16_UINT, VK_FORMAT_R32_UINT,
             VK_FORMAT_R32G32_UINT, VK_FORMAT_R32G32B32A32_UINT]"
  by (simp add: cmd_meta_img_raw_format_def Let_def)

theorem cmd_meta_img_raw_format_total_witness:
  "cmd_meta_img_raw_format sample_env VK_FORMAT_R8_UINT = Inr VK_FORMAT_R8_UINT \<and>
   cmd_meta_img_raw_format sample_env VK_FORMAT_R16_UINT = Inr VK_FORMAT_R16_UINT \<and>
   cmd_meta_img_raw_format sample_env VK_FORMAT_R8G8B8A8_UINT = Inr VK_FORMAT_R32_UINT \<and>
   cmd_meta_img_raw_format sample_env (VK_FORMAT_OTHER 8) = Inr VK_FORMAT_R32G32_UINT \<and>
   cmd_meta_img_raw_format sample_env (VK_FORMAT_OTHER 16) = Inr VK_FORMAT_R32G32B32A32_UINT \<and>
   cmd_meta_img_raw_format sample_env (VK_FORMAT_OTHER 3) = Inr VK_FORMAT_UNDEFINED \<and>
   cmd_meta_img_raw_format (sample_env\<lparr>NDEBUG := False\<rparr>) (VK_FORMAT_OTHER 3) = Inl ASSERTION_FAILED"
  using cmd_meta_img_raw_format_total [of sample_env VK_FORMAT_R8_UINT]
        cmd_meta_img_raw_format_total [of sample_env VK_FORMAT_R16_UINT]
        cmd_meta_img_raw_format_total [of sample_env VK_FORMAT_R8G8B8A8_UINT]
        cmd_meta_img_raw_format_total [of sample_env "VK_FORMAT_OTHER 8"]
        cmd_meta_img_raw_format_total [of sample_env "VK_FORMAT_OTHER 16"]
        cmd_meta_img_raw_format_total [of sample_env "VK_FORMAT_OTHER 3"]
        cmd_meta_img_raw_format_total [of "sample_env\<lparr>NDEBUG := False\<rparr>" "VK_FORMAT_OTHER 3"]
  by (simp add: sample_env_def sample_format_size_def)

section \<open>Image copy: shader selection\<close>

lemma copy_image_layer_log:
  assumes "shader_id (snd s) = X"
  shows "shader_id (snd (copy_image_layer e dstImage format s)) = X \<and>
         map shader_id (draws (fst (copy_image_layer e dstImage format s)))
           = map shader_id (draws (fst s)) @ [X]"
  using assms
  by (simp add: copy_image_layer_def cmd_draw_meta_def case_prod_unfold)

lemma copy_image_layers_log:
  assumes "shader_id (snd s) = X"
  shows "map shader_id (draws (fst ((copy_image_layer e dstImage format ^^ n) s)))
           = map shader_id (draws (fst s)) @ replicate n X"
proof -
  from funpow_log [where I = "\<lambda>k s. shader_id (snd s) = X" and f = "copy_image_layer e dstImage format"
      and lg = "\<lambda>s. map shader_id (draws (fst s))" and h = "\<lambda>k. X" and s = s and n = n]
    copy_image_layer_log assms
  show ?thesis by (simp add: map_replicate_const)
qed

lemma copy_image_region_log:
  "map shader_id (draws (fst (copy_image_region e srcImage dstImage raw s region)))
     = map shader_id (draws (fst s)) @ copy_shaders srcImage region"
  by (cases raw)
    (simp_all add: copy_image_region_def case_prod_unfold Let_def copy_image_layers_log copy_shaders_def)

lemma copy_image_regions_log:
  "map shader_id (draws (copy_image_regions e cmd srcImage dstImage raw pRegions))
     = map shader_id (draws cmd) @ concat (map (copy_shaders srcImage) pRegions)"
proof -
  have "map shader_id (draws (fst (foldl (copy_image_region e srcImage dstImage raw) s pRegions)))
     = map shader_id (draws (fst s)) @ concat (map (copy_shaders srcImage) pRegions)" for s
    using foldl_log [where I = "\<lambda>s. True" and f = "copy_image_region e srcImage dstImage raw"
      and lg = "\<lambda>s. map shader_id (draws (fst s))" and h = "copy_shaders srcImage"]
      copy_image_region_log
    by simp
  then show ?thesis
    by (simp add: copy_image_regions_def case_prod_unfold)
qed

lemma vkCmdCopyImage_log:
  assumes "img_type srcImage = img_type dstImage"
    and "layout_format (img_layout srcImage) = layout_format (img_layout dstImage) \<or>
         \<not> (icd_format_is_compressed e (layout_format (img_layout srcImage)) \<or>
            icd_format_is_compressed e (layout_format (img_layout dstImage)))"
    and "vkCmdCopyImage e cmd srcImage dstImage pRegions = Inr cmd'"
  shows "map shader_id (draws cmd')
           = map shader_id (draws cmd) @ concat (map (copy_shaders srcImage) pRegions)"
  using assms
  by (auto simp add: vkCmdCopyImage_def copy_image_regions_log split: if_splits sum.splits)

text \<open>
  Claim C6, as amended.  The claim reads the shader off the destination image; the
  call passes the source image to \<open>get_shader_id\<close>, and the "arrayed" column is
  \<open>extent.depth > 1\<close> of the region.  Once the call-level checks have passed (so
  the two image types agree), every layer of every region is dispatched with the
  shader selected by the source image's type and sample count and by whether the
  region's depth exceeds 1: 1D and depth at most 1 gives copy-1D; 1D and depth
  above 1 gives copy-1D-array; 2D with more than one source sample gives
  copy-2D-multisample whatever the depth; 2D single-sample gives copy-2D for depth
  at most 1 and copy-2D-array above; 3D always gives copy-2D-array.
\<close>

theorem vkCmdCopyImage_shader_by_source:
  assumes "img_type srcImage = img_type dstImage"
    and "layout_format (img_layout srcImage) = layout_format (img_layout dstImage) \<or>
         \<not> (icd_format_is_compressed e (layout_format (img_layout srcImage)) \<or>
            icd_format_is_compressed e (layout_format (img_layout dstImage)))"
    and "vkCmdCopyImage e cmd srcImage dstImage pRegions = Inr cmd'"
  shows "map shader_id (new_draws cmd cmd') = concat (map (copy_shaders srcImage) pRegions) \<and>
    (img_type srcImage = VK_IMAGE_TYPE_1D \<and> \<not> deep \<longrightarrow>
       get_shader_id srcImage deep = INTEL_DEV_META_FS_COPY_1D) \<and>
    (img_type srcImage = VK_IMAGE_TYPE_1D \<and> deep \<longrightarrow>
       get_shader_id srcImage deep = INTEL_DEV_META_FS_COPY_1D_ARRAY) \<and>
    (img_type srcImage = VK_IMAGE_TYPE_2D \<and> 1 < img_samples srcImage \<longrightarrow>
       get_shader_id srcImage deep = INTEL_DEV_META_FS_COPY_2D_MS) \<and>
    (img_type srcImage = VK_IMAGE_TYPE_2D \<and> \<not> 1 < img_samples srcImage \<and> \<not> deep \<longrightarrow>
       get_shader_id srcImage deep = INTEL_DEV_META_FS_COPY_2D) \<and>
    (img_type srcImage = VK_IMAGE_TYPE_2D \<and> \<not> 1 < img_samples srcImage \<and> deep \<longrightarrow>
       get_shader_id srcImage deep = INTEL_DEV_META_FS_COPY_2D_ARRAY) \<and>
    (img_type srcImage = VK_IMAGE_TYPE_3D \<longrightarrow>
       get_shader_id srcImage deep = INTEL_DEV_META_FS_COPY_2D_ARRAY)"
  using new_draws_map [OF vkCmdCopyImage_log [OF assms]]
  by (simp add: get_shader_id_def)

lemma sample_copy_image:
  assumes "img_type srcImage = img_type dstImage"
    and "layout_format (img_layout srcImage) = VK_FORMAT_R8G8B8A8_UINT"
    and "layout_format (img_layout dstImage) = VK_FORMAT_R8G8B8A8_UINT"
  shows "vkCmdCopyImage sample_env cmd srcImage dstImage pRegions =
     Inr (copy_image_regions sample_env cmd srcImage dstImage (Some VK_FORMAT_R32_UINT) pRegions)"
  using assms
  by (simp add: vkCmdCopyImage_def cmd_meta_img_raw_format_def sample_format_size_def)

lemma sample_copy_image_shaders:
  assumes "img_type srcImage = img_type dstImage"
    and "layout_format (img_layout srcImage) = VK_FORMAT_R8G8B8A8_UINT"
    and "layout_format (img_layout dstImage) = VK_FORMAT_R8G8B8A8_UINT"
  shows "dispatched_shaders cmd (vkCmdCopyImage sample_env cmd srcImage dstImage pRegions) =
     Inr (concat (map (copy_shaders srcImage) pRegions))"
  by (simp add: sample_copy_image [OF assms] dispatched_shaders_def
        new_draws_map [OF copy_image_regions_log])

text \<open>
  The claim as stated fails on two inputs.  A single-sample, non-array 2D
  destination copied from a 4-sample source is dispatched with the multisample
  shader where the table by destination kind gives copy-2D; and a 4-sample 2D image
  copied with a region of depth 2 is dispatched with the multisample shader where
  the table's row for arrayed 2D images gives copy-2D-array.
\<close>

theorem copy_shader_by_destination_counterexample:
  "dispatched_shaders (sample_cmd 7)
     (vkCmdCopyImage sample_env (sample_cmd 7)
        (sample_img\<lparr>img_samples := 4, img_array_size := 1\<rparr>)
        (sample_img\<lparr>img_array_size := 1\<rparr>) [sample_copy 1])
     = Inr [INTEL_DEV_META_FS_COPY_2D_MS] \<and>
   spec_copy_shader_table (img_type (sample_img\<lparr>img_array_size := 1\<rparr>)) False
       (1 < img_samples (sample_img\<lparr>img_array_size := 1\<rparr>))
     = INTEL_DEV_META_FS_COPY_2D \<and>
   dispatched_shaders (sample_cmd 7)
     (vkCmdCopyImage sample_env (sample_cmd 7)
        (sample_img\<lparr>img_samples := 4\<rparr>) (sample_img\<lparr>img_samples := 4\<rparr>) [sample_copy 2])
     = Inr [INTEL_DEV_META_FS_COPY_2D_MS, INTEL_DEV_META_FS_COPY_2D_MS] \<and>
   spec_copy_shader_table (img_type (sample_img\<lparr>img_samples := 4\<rparr>)) True
       (1 < img_samples (sample_img\<lparr>img_samples := 4\<rparr>))
     = INTEL_DEV_META_FS_COPY_2D_ARRAY"
  by (simp add: sample_copy_image_shaders sample_img_def copy_shaders_def sample_copy_def
        get_shader_id_def spec_copy_shader_table_def word_less_nat_alt word_sless_alt
        replicate_two)

theorem vkCmdCopyImage_shader_by_source_witness:
  "\<exists>cmd'. vkCmdCopyImage sample_env (sample_cmd 7) (sample_img\<lparr>img_samples := 4\<rparr>) sample_img
             [sample_copy 2] = Inr cmd' \<and>
      map shader_id (new_draws (sample_cmd 7) cmd')
        = [INTEL_DEV_META_FS_COPY_2D_MS, INTEL_DEV_META_FS_COPY_2D_MS]"
proof -
  let ?s = "sample_img\<lparr>img_samples := 4\<rparr>"
  obtain cmd' where r: "vkCmdCopyImage sample_env (sample_cmd 7) ?s sample_img [sample_copy 2] = Inr cmd'"
    using sample_copy_image [of ?s sample_img "sample_cmd 7" "[sample_copy 2]"]
    by (simp add: sample_img_def)
  have t: "img_type ?s = img_type sample_img" by simp
  have f: "layout_format (img_layout ?s) = layout_format (img_layout sample_img) \<or>
         \<not> (icd_format_is_compressed sample_env (layout_format (img_layout ?s)) \<or>
            icd_format_is_compressed sample_env (layout_format (img_layout sample_img)))"
    by simp
  from vkCmdCopyImage_shader_by_source [OF t f r]
  have "map shader_id (new_draws (sample_cmd 7) cmd') = concat (map (copy_shaders ?s) [sample_copy 2])"
    by simp
  also have "\<dots> = [INTEL_DEV_META_FS_COPY_2D_MS, INTEL_DEV_META_FS_COPY_2D_MS]"
    by (simp add: copy_shaders_def sample_copy_def sample_img_def get_shader_id_def
          word_less_nat_alt replicate_two)
  finally show ?thesis using r by simp
qed

section \<open>Image copy: call-level validation\<close>

text \<open>
  Claim C7.  An image copy whose source and destination types differ, or whose
  formats differ while one of them is block-compressed, fails at once: the call
  returns the command buffer with \<open>VK_ERROR_UNKNOWN\<close> reported and nothing else
  changed, so no region was processed, no view built and no draw dispatched.
\<close>

theorem vkCmdCopyImage_validation_fails:
  assumes "img_type srcImage \<noteq> img_type dstImage \<or>
           (layout_format (img_layout srcImage) \<noteq> layout_format (img_layout dstImage) \<and>
            (icd_format_is_compressed e (layout_format (img_layout srcImage)) \<or>
             icd_format_is_compressed e (layout_format (img_layout dstImage))))"
  shows "vkCmdCopyImage e cmd srcImage dstImage pRegions = Inr (cmd_fail cmd VK_ERROR_UNKNOWN) \<and>
         fails (cmd_fail cmd VK_ERROR_UNKNOWN) = fails cmd @ [VK_ERROR_UNKNOWN] \<and>
         draws (cmd_fail cmd VK_ERROR_UNKNOWN) = draws cmd \<and>
         views_built (cmd_fail cmd VK_ERROR_UNKNOWN) = views_built cmd"
  using assms by (auto simp add: vkCmdCopyImage_def cmd_fail_def)

theorem vkCmdCopyImage_validation_fails_witness:
  "vkCmdCopyImage sample_env (sample_cmd 7) (sample_img\<lparr>img_type := VK_IMAGE_TYPE_1D\<rparr>) sample_img []
     = Inr (cmd_fail (sample_cmd 7) VK_ERROR_UNKNOWN) \<and>
   vkCmdCopyImage sample_env (sample_cmd 7)
       (sample_img\<lparr>img_layout := (img_layout sample_img)\<lparr>layout_format := VK_FORMAT_OTHER 8\<rparr>\<rparr>)
       sample_img []
     = Inr (cmd_fail (sample_cmd 7) VK_ERROR_UNKNOWN)"
  using vkCmdCopyImage_validation_fails [of "sample_img\<lparr>img_type := VK_IMAGE_TYPE_1D\<rparr>" sample_img
      sample_env "sample_cmd 7" "[]"]
    vkCmdCopyImage_validation_fails
      [of "sample_img\<lparr>img_layout := (img_layout sample_img)\<lparr>layout_format := VK_FORMAT_OTHER 8\<rparr>\<rparr>"
        sample_img sample_env "sample_cmd 7" "[]"]
  by (simp add: sample_img_def sample_env_def)

section \<open>Image clears\<close>

lemma set_ds_view_frame [simp]:
  "draws (fst (cmd_meta_set_ds_view e cmd img mip sl meta)) = draws cmd"
  "dst (snd (cmd_meta_set_ds_view e cmd img mip sl meta)) = dst meta"
  "ds_op (ds (snd (cmd_meta_set_ds_view e cmd img mip sl meta))) = ds_op (ds meta)"
  "shader_id (snd (cmd_meta_set_ds_view e cmd img mip sl meta)) = shader_id meta"
  by (simp_all add: cmd_meta_set_ds_view_def cmd_fail_def view_built_def case_prod_unfold)

lemma clear_image_layer_log:
  assumes "lod (dst (snd s)) = L" and "layer (dst (snd s)) = B + of_nat k"
    and "ds_op (ds (snd s)) = op"
  shows "(lod (dst (snd (clear_image_layer e img format rng s))) = L \<and>
          layer (dst (snd (clear_image_layer e img format rng s))) = B + of_nat (Suc k) \<and>
          ds_op (ds (snd (clear_image_layer e img format rng s))) = op) \<and>
         map clear_key (draws (fst (clear_image_layer e img format rng s)))
           = map clear_key (draws (fst s)) @ [(L, B + of_nat k)]"
  using assms
  by (simp add: clear_image_layer_def cmd_draw_meta_def cmd_meta_set_ds_state_def clear_key_def
        case_prod_unfold Let_def)

lemma clear_image_layers_log:
  assumes "lod (dst (snd s)) = L" and "layer (dst (snd s)) = B"
    and "ds_op (ds (snd s)) = op"
  shows "ds_op (ds (snd ((clear_image_layer e img format rng ^^ n) s))) = op \<and>
         map clear_key (draws (fst ((clear_image_layer e img format rng ^^ n) s)))
           = map clear_key (draws (fst s)) @ map (\<lambda>j. (L, B + of_nat j)) [0..<n]"
proof -
  from funpow_log [where f = "clear_image_layer e img format rng"
      and I = "\<lambda>k s. lod (dst (snd s)) = L \<and> layer (dst (snd s)) = B + of_nat k \<and>
                 ds_op (ds (snd s)) = op"
      and lg = "\<lambda>s. map clear_key (draws (fst s))" and h = "\<lambda>j. (L, B + of_nat j)"
      and s = s and n = n]
    clear_image_layer_log [where e = e and img = img and format = format and rng = rng
      and L = L and B = B and op = op] assms
  show ?thesis by simp
qed

lemma clear_image_level_log:
  assumes "ds_op (ds (snd s)) = op"
  shows "ds_op (ds (snd (clear_image_level e img format rng n s i))) = op \<and>
         map clear_key (draws (fst (clear_image_level e img format rng n s i)))
           = map clear_key (draws (fst s)) @
             (if op \<noteq> INTEL_CMD_META_DS_NOP \<and>
                 \<not> intel_img_can_enable_hiz e img (baseMipLevel rng + of_nat i)
              then []
              else map (\<lambda>j. (baseMipLevel rng + of_nat i, baseArraySlice rng + of_nat j))
                     [0..<unat n])"
  using assms
  by (simp add: clear_image_level_def case_prod_unfold Let_def clear_image_layers_log)

lemma unat_clamp_count:
  assumes "\<not> base \<ge> have"
  shows "unat (clamp_count have base asked) = min (unat have - unat base) (unat asked)"
proof -
  from assms have "base \<le> have" by simp
  then have "unat (have - base) = unat have - unat base"
    by (simp add: unat_sub)
  then show ?thesis
    by (simp add: clamp_count_def Let_def word_less_nat_alt min_def)
qed

lemma cmd_meta_clear_image_log:
  "map clear_key (draws (fst (cmd_meta_clear_image e cmd img format meta rng)))
     = map clear_key (draws cmd) @
       (if baseMipLevel rng \<ge> img_mip_levels img \<or> baseArraySlice rng \<ge> img_array_size img
        then [] else clear_units e img (ds_op (ds meta)) rng)"
  "ds_op (ds (snd (cmd_meta_clear_image e cmd img format meta rng))) = ds_op (ds meta)"
proof -
  let ?n = "clamp_count (img_array_size img) (baseArraySlice rng) (arraySize rng)"
  let ?h = "\<lambda>i. if ds_op (ds meta) \<noteq> INTEL_CMD_META_DS_NOP \<and>
                 \<not> intel_img_can_enable_hiz e img (baseMipLevel rng + of_nat i)
              then []
              else map (\<lambda>j. (baseMipLevel rng + of_nat i, baseArraySlice rng + of_nat j))
                     [0..<unat ?n]"
  have l: "ds_op (ds (snd (foldl (clear_image_level e img format rng ?n) (cmd, meta) is))) = ds_op (ds meta) \<and>
        map clear_key (draws (fst (foldl (clear_image_level e img format rng ?n) (cmd, meta) is)))
        = map clear_key (draws (fst (cmd, meta))) @ concat (map ?h is)" for "is"
    using foldl_log [where f = "clear_image_level e img format rng ?n"
      and I = "\<lambda>s. ds_op (ds (snd s)) = ds_op (ds meta)"
      and lg = "\<lambda>s. map clear_key (draws (fst s))" and h = ?h and s = "(cmd, meta)" and xs = "is"]
      clear_image_level_log [where e = e and img = img and format = format and rng = rng
        and op = "ds_op (ds meta)" and n = ?n]
    by simp
  show "map clear_key (draws (fst (cmd_meta_clear_image e cmd img format meta rng)))
     = map clear_key (draws cmd) @
       (if baseMipLevel rng \<ge> img_mip_levels img \<or> baseArraySlice rng \<ge> img_array_size img
        then [] else clear_units e img (ds_op (ds meta)) rng)"
  proof (cases "baseMipLevel rng \<ge> img_mip_levels img \<or> baseArraySlice rng \<ge> img_array_size img")
    case True
    then show ?thesis by (simp add: cmd_meta_clear_image_def)
  next
    case False
    then have m: "unat (clamp_count (img_mip_levels img) (baseMipLevel rng) (mipLevels rng)) =
        min (unat (img_mip_levels img) - unat (baseMipLevel rng)) (unat (mipLevels rng))"
      and n: "unat ?n =
        min (unat (img_array_size img) - unat (baseArraySlice rng)) (unat (arraySize rng))"
      by (simp_all add: unat_clamp_count)
    from False l show ?thesis
      by (simp add: cmd_meta_clear_image_def Let_def clear_units_def m n cong: if_cong)
  qed
  show "ds_op (ds (snd (cmd_meta_clear_image e cmd img format meta rng))) = ds_op (ds meta)"
    using l by (simp add: cmd_meta_clear_image_def Let_def)
qed

lemma length_clear_units_nop:
  "length (clear_units e img INTEL_CMD_META_DS_NOP rng) =
     min (unat (img_mip_levels img) - unat (baseMipLevel rng)) (unat (mipLevels rng)) *
     min (unat (img_array_size img) - unat (baseArraySlice rng)) (unat (arraySize rng))"
  by (simp add: clear_units_def length_concat comp_def sum_list_triv)

text \<open>
  Claim C8.  Clearing a range whose base mip level is at or beyond the image's mip
  count, or whose base array layer is at or beyond the image's array size, is a
  no-op: the command buffer and the descriptor come back unchanged, so no draw is
  issued and no error recorded.  Otherwise the mip and layer counts are clamped to
  what the image has left from the base on: the draws dispatched are exactly one
  per (mip level, array layer) of the clamped range, leaving out the levels skipped
  for Hi-Z, and without a Hi-Z operation their number is the product of the two
  clamped counts.
\<close>

theorem cmd_meta_clear_image_range:
  "(baseMipLevel rng \<ge> img_mip_levels img \<or> baseArraySlice rng \<ge> img_array_size img \<longrightarrow>
      cmd_meta_clear_image e cmd img format meta rng = (cmd, meta)) \<and>
   (\<not> (baseMipLevel rng \<ge> img_mip_levels img \<or> baseArraySlice rng \<ge> img_array_size img) \<longrightarrow>
      map clear_key (new_draws cmd (fst (cmd_meta_clear_image e cmd img format meta rng)))
        = clear_units e img (ds_op (ds meta)) rng \<and>
      (ds_op (ds meta) = INTEL_CMD_META_DS_NOP \<longrightarrow>
         length (new_draws cmd (fst (cmd_meta_clear_image e cmd img format meta rng))) =
           min (unat (img_mip_levels img) - unat (baseMipLevel rng)) (unat (mipLevels rng)) *
           min (unat (img_array_size img) - unat (baseArraySlice rng)) (unat (arraySize rng))))"
proof -
  have a: "baseMipLevel rng \<ge> img_mip_levels img \<or> baseArraySlice rng \<ge> img_array_size img \<Longrightarrow>
      cmd_meta_clear_image e cmd img format meta rng = (cmd, meta)"
    by (simp add: cmd_meta_clear_image_def)
  have b: "map clear_key (new_draws cmd (fst (cmd_meta_clear_image e cmd img format meta rng)))
        = clear_units e img (ds_op (ds meta)) rng"
    if "\<not> (baseMipLevel rng \<ge> img_mip_levels img \<or> baseArraySlice rng \<ge> img_array_size img)"
    using that new_draws_map [OF cmd_meta_clear_image_log(1) [of e cmd img format meta rng]]
    by simp
  have c: "length (new_draws cmd (fst (cmd_meta_clear_image e cmd img format meta rng))) =
           min (unat (img_mip_levels img) - unat (baseMipLevel rng)) (unat (mipLevels rng)) *
           min (unat (img_array_size img) - unat (baseArraySlice rng)) (unat (arraySize rng))"
    if "\<not> (baseMipLevel rng \<ge> img_mip_levels img \<or> baseArraySlice rng \<ge> img_array_size img)"
      and "ds_op (ds meta) = INTEL_CMD_META_DS_NOP"
  proof -
    have "length (map clear_key (new_draws cmd (fst (cmd_meta_clear_image e cmd img format meta rng))))
        = length (clear_units e img INTEL_CMD_META_DS_NOP rng)"
      using b [OF that(1)] that(2) by simp
    then show ?thesis by (simp add: length_clear_units_nop)
  qed
  from a b c show ?thesis by blast
qed

lemma upt_two: "[0..<2] = [0, 1]"
  by (simp add: numeral_2_eq_2)

theorem cmd_meta_clear_image_range_witness:
  "cmd_meta_clear_image sample_env (sample_cmd 7) sample_img VK_FORMAT_R8G8B8A8_UINT meta_zero
      (sample_range 5 0) = (sample_cmd 7, meta_zero) \<and>
   cmd_meta_clear_image sample_env (sample_cmd 7) sample_img VK_FORMAT_R8G8B8A8_UINT meta_zero
      (sample_range 0 4) = (sample_cmd 7, meta_zero) \<and>
   map clear_key (new_draws (sample_cmd 7)
      (fst (cmd_meta_clear_image sample_env (sample_cmd 7) sample_img VK_FORMAT_R8G8B8A8_UINT
              meta_zero (sample_range 1 2))))
     = [(1, 2), (1, 3), (2, 2), (2, 3)] \<and>
   length (new_draws (sample_cmd 7)
      (fst (cmd_meta_clear_image sample_env (sample_cmd 7) sample_img VK_FORMAT_R8G8B8A8_UINT
              meta_zero (sample_range 1 2)))) = 4"
proof -
  have u: "clear_units sample_env sample_img INTEL_CMD_META_DS_NOP (sample_range 1 2)
      = [(1, 2), (1, 3), (2, 2), (2, 3)]"
    by (simp add: clear_units_def sample_img_def sample_range_def upt_two)
  have o: "ds_op (ds meta_zero) = INTEL_CMD_META_DS_NOP"
    by (simp add: meta_zero_def)
  have h1: "baseMipLevel (sample_range 5 0) \<ge> img_mip_levels sample_img \<or>
      baseArraySlice (sample_range 5 0) \<ge> img_array_size sample_img"
    and h2: "baseMipLevel (sample_range 0 4) \<ge> img_mip_levels sample_img \<or>
      baseArraySlice (sample_range 0 4) \<ge> img_array_size sample_img"
    and h3: "\<not> (baseMipLevel (sample_range 1 2) \<ge> img_mip_levels sample_img \<or>
      baseArraySlice (sample_range 1 2) \<ge> img_array_size sample_img)"
    by (simp_all add: sample_img_def sample_range_def word_le_nat_alt)
  have n: "min (unat (img_mip_levels sample_img) - unat (baseMipLevel (sample_range 1 2)))
        (unat (mipLevels (sample_range 1 2))) *
      min (unat (img_array_size sample_img) - unat (baseArraySlice (sample_range 1 2)))
        (unat (arraySize (sample_range 1 2))) = 4"
    by (simp add: sample_img_def sample_range_def)
  from h1 cmd_meta_clear_image_range [where rng = "sample_range 5 0" and img = sample_img
        and e = sample_env and cmd = "sample_cmd 7" and format = VK_FORMAT_R8G8B8A8_UINT
        and meta = meta_zero]
  have r1: "cmd_meta_clear_image sample_env (sample_cmd 7) sample_img VK_FORMAT_R8G8B8A8_UINT meta_zero
      (sample_range 5 0) = (sample_cmd 7, meta_zero)"
    by blast
  from h2 cmd_meta_clear_image_range [where rng = "sample_range 0 4" and img = sample_img
        and e = sample_env and cmd = "sample_cmd 7" and format = VK_FORMAT_R8G8B8A8_UINT
        and meta = meta_zero]
  have r2: "cmd_meta_clear_image sample_env (sample_cmd 7) sample_img VK_FORMAT_R8G8B8A8_UINT meta_zero
      (sample_range 0 4) = (sample_cmd 7, meta_zero)"
    by blast
  from h3 o cmd_meta_clear_image_range [where rng = "sample_range 1 2" and img = sample_img
        and e = sample_env and cmd = "sample_cmd 7" and format = VK_FORMAT_R8G8B8A8_UINT
        and meta = meta_zero]
  have r3: "map clear_key (new_draws (sample_cmd 7)
      (fst (cmd_meta_clear_image sample_env (sample_cmd 7) sample_img VK_FORMAT_R8G8B8A8_UINT
              meta_zero (sample_range 1 2))))
     = clear_units sample_env sample_img INTEL_CMD_META_DS_NOP (sample_range 1 2)"
    and r4: "length (new_draws (sample_cmd 7)
      (fst (cmd_meta_clear_image sample_env (sample_cmd 7) sample_img VK_FORMAT_R8G8B8A8_UINT
              meta_zero (sample_range 1 2)))) =
      min (unat (img_mip_levels sample_img) - unat (baseMipLevel (sample_range 1 2)))
        (unat (mipLevels (sample_range 1 2))) *
      min (unat (img_array_size sample_img) - unat (baseArraySlice (sample_range 1 2)))
        (unat (arraySize (sample_range 1 2)))"
    by simp_all
  from r1 r2 r3 r4 u n show ?thesis by simp
qed

section \<open>Blit\<close>

text \<open>
  Claim C9.  Every call of the filtered blit, whatever its arguments, reports
  \<open>VK_ERROR_UNAVAILABLE\<close> to the error sink and does nothing else: no draw is
  dispatched and no view is built.
\<close>

theorem vkCmdBlitImage_unavailable:
  "vkCmdBlitImage cmd srcImage srcImageLayout destImage destImageLayout pRegions texFilter
     = cmd_fail cmd VK_ERROR_UNAVAILABLE
   \<and> fails (vkCmdBlitImage cmd srcImage srcImageLayout destImage destImageLayout pRegions texFilter)
       = fails cmd @ [VK_ERROR_UNAVAILABLE]
   \<and> draws (vkCmdBlitImage cmd srcImage srcImageLayout destImage destImageLayout pRegions texFilter)
       = draws cmd
   \<and> views_built (vkCmdBlitImage cmd srcImage srcImageLayout destImage destImageLayout pRegions texFilter)
       = views_built cmd"
  by (simp add: vkCmdBlitImage_def cmd_fail_def)

section \<open>Attachment clears\<close>












end
